theory Spec2Isabelle
  imports Main "HOL-Library.AList"
begin

section \<open>Enumerations (src/EventStream/data/types.py)\<close>

text \<open>
  The enumerations are \<^verbatim>\<open>StrEnum\<close> classes: every member is also a \<^verbatim>\<open>str\<close> whose value is
  the lower-case member name (\<^verbatim>\<open>_generate_next_value_\<close> in src/EventStream/utils.py).
  \<^verbatim>\<open>TemporalityType.STATIC\<close> is written \<open>STATIC_temporality\<close>, since \<open>STATIC\<close> is taken by
  \<^verbatim>\<open>InputDFType.STATIC\<close>.
\<close>

datatype InputDFType = STATIC | EVENT | RANGE

datatype InputDataType = CATEGORICAL | FLOAT | TIMESTAMP | BOOLEAN

datatype TemporalityType = STATIC_temporality | DYNAMIC | FUNCTIONAL_TIME_DEPENDENT

datatype DataModality =
    DROPPED
  | SINGLE_LABEL_CLASSIFICATION
  | MULTI_LABEL_CLASSIFICATION
  | MULTIVARIATE_REGRESSION
  | UNIVARIATE_REGRESSION

fun enum_value :: "InputDataType \<Rightarrow> string" where
  "enum_value CATEGORICAL = ''categorical''"
| "enum_value FLOAT = ''float''"
| "enum_value TIMESTAMP = ''timestamp''"
| "enum_value BOOLEAN = ''boolean''"

section \<open>Python values\<close>

text \<open>
  The schema shorthands, event types and timestamp columns are loosely typed in the source
  and taken apart with \<^verbatim>\<open>match\<close> statements, so they are modelled as Python values:
  \<open>PStr\<close> is an object of exact type \<^verbatim>\<open>str\<close>, \<open>PEnum\<close> a member of \<^verbatim>\<open>InputDataType\<close>
  (an instance of \<^verbatim>\<open>str\<close>, but not of exact type \<^verbatim>\<open>str\<close>), \<open>PDict\<close> a dictionary as
  the list of its items in insertion order.
\<close>

datatype pyval =
    PNone
  | PInt int
  | PStr string
  | PEnum InputDataType
  | PList "pyval list"
  | PTuple "pyval list"
  | PDict "(pyval \<times> pyval) list"

text \<open>
  Python's \<^verbatim>\<open>==\<close>. A \<^verbatim>\<open>StrEnum\<close> member inherits \<^verbatim>\<open>str.__eq__\<close>, so it equals the plain
  string of its value; a list never equals a tuple; two dictionaries are equal when they
  have the same number of items and every item of one has an equal item in the other.
\<close>

fun py_eq :: "pyval \<Rightarrow> pyval \<Rightarrow> bool" where
  "py_eq PNone PNone = True"
| "py_eq (PInt a) (PInt b) = (a = b)"
| "py_eq (PStr a) (PStr b) = (a = b)"
| "py_eq (PStr a) (PEnum b) = (a = enum_value b)"
| "py_eq (PEnum a) (PStr b) = (enum_value a = b)"
| "py_eq (PEnum a) (PEnum b) = (enum_value a = enum_value b)"
| "py_eq (PList xs) (PList ys) = list_all2 py_eq xs ys"
| "py_eq (PTuple xs) (PTuple ys) = list_all2 py_eq xs ys"
| "py_eq (PDict xs) (PDict ys) =
     (length xs = length ys \<and>
      list_all (\<lambda>(k, v). list_ex (\<lambda>(k', v'). py_eq k k' \<and> py_eq v v') ys) xs)"
| "py_eq _ _ = False"

section \<open>Errors\<close>

text \<open>
  One constructor for every \<^verbatim>\<open>raise\<close> of src/EventStream/data/config.py that the model
  reaches, and for the exceptions that the interpreter and pandas raise there: the two of
  \<^verbatim>\<open>total_vocab_size\<close>; \<open>EnumHasNoValues\<close>, the \<^verbatim>\<open>AttributeError\<close> of a call of
  \<^verbatim>\<open>values()\<close> on an enumeration class (the \<^verbatim>\<open>StrEnum\<close> class of src/EventStream/utils.py
  and the enumerations of src/EventStream/data/types.py define no such attribute);
  \<open>StorageError\<close> and \<open>EmptyDataError\<close>, raised by \<^verbatim>\<open>pd.read_csv\<close>; \<open>EvalArgNotString\<close>, the
  \<^verbatim>\<open>TypeError\<close> of \<^verbatim>\<open>eval\<close> on an argument that is not a string. \<open>exc_class_of\<close> gives the
  Python exception class.
\<close>

datatype error =
    MissingInputDf
  | MissingType
  | MalformedFilter pyval
  | StaticMissingSubjectIdCol
  | StaticEventTypeSet
  | StaticInvalidParam string
  | EventMissingTsCol
  | EventMissingEventType
  | EventTypeNotStr pyval
  | SubjectIdColOnNonStatic
  | EventInvalidParam string
  | RangeMissingEventType
  | RangeEventTypeShape pyval
  | SetWithDataSchema string
  | RangeMissingStartTsCol
  | RangeMissingEndTsCol
  | RangeTsColSet
  | EndTsFormatMissing
  | TsFormatSetWithStartTsFormat
  | StartTsFormatMissing
  | DuplicateColumn string
  | DuplicateColumnDifferingDts string
  | UnrecognizedType
  | CantParseTimestamp string
  | SchemaInvalidForType string
  | ColumnNamesMustBeStrings pyval pyval
  | ColumnRepeated string
  | SchemaUnprocessable pyval
  | EnumHasNoValues string
  | NotIterable pyval
  | MustSpecifyStaticSchema
  | StaticSchemaNotStatic
  | StaticSchemaNoSubjectIdCol
  | DynamicSchemaIsStatic
  | NoneNotIterable
  | UnhashableKey pyval
  | NoneHasNoAttribute
  | MinEmptySequence
  | FunctorShouldBeNone
  | NumericOnStatic
  | SingleLabelOnDynamic
  | FunctorMustBeSet
  | ModalityNotFunctorOutput
  | InvalidModality
  | MetadataNotASeries
  | MetadataPathOnNonNumeric
  | StorageError string
  | EmptyDataError
  | EvalArgNotString
  | InvalidFields "string list"
  | CachingAlreadyEnabled string string
  | CachingNotEnabled
  | MetadataAlreadySet
  | CantAddMetadata

datatype exc_class = ValueError | TypeError | AttributeError | NotImplementedError | OSError

fun exc_class_of :: "error \<Rightarrow> exc_class" where
  "exc_class_of (EventTypeNotStr _) = TypeError"
| "exc_class_of (RangeEventTypeShape _) = TypeError"
| "exc_class_of (NotIterable _) = TypeError"
| "exc_class_of StaticSchemaNotStatic = TypeError"
| "exc_class_of DynamicSchemaIsStatic = TypeError"
| "exc_class_of NoneNotIterable = TypeError"
| "exc_class_of (UnhashableKey _) = TypeError"
| "exc_class_of NoneHasNoAttribute = AttributeError"
| "exc_class_of (EnumHasNoValues _) = AttributeError"
| "exc_class_of EvalArgNotString = TypeError"
| "exc_class_of NumericOnStatic = NotImplementedError"
| "exc_class_of (StorageError _) = OSError"
| "exc_class_of _ = ValueError"

section \<open>VocabularyConfig\<close>

text \<open>
  A \<^verbatim>\<open>dict[str, int]\<close> is the list of its items in insertion order; its keys are distinct.
  Every field defaults to \<^verbatim>\<open>None\<close>.
\<close>

record VocabularyConfig =
  vocab_sizes_by_measurement :: "(string \<times> int) list option"
  vocab_offsets_by_measurement :: "(string \<times> int) list option"
  measurements_idxmap :: "(string \<times> (pyval \<times> int) list) list option"
  measurements_per_generative_mode :: "(DataModality \<times> string list) list option"
  event_types_idxmap :: "(string \<times> int) list option"

text \<open>
  \<^verbatim>\<open>min\<close> of a non-empty iterable keeps the smallest item seen so far; on an empty one it
  raises \<^verbatim>\<open>ValueError\<close>.
\<close>

fun py_min :: "int list \<Rightarrow> error + int" where
  "py_min [] = Inl MinEmptySequence"
| "py_min (x # xs) = Inr (fold min xs x)"

text \<open>
  \<^verbatim>\<open>
  return (
      sum(self.vocab_sizes_by_measurement.values())
      + min(self.vocab_offsets_by_measurement.values())
      + (len(self.vocab_offsets_by_measurement) - len(self.vocab_sizes_by_measurement))
  )
  \<close>
  The operands are evaluated from left to right; \<^verbatim>\<open>.values()\<close> on \<^verbatim>\<open>None\<close> raises
  \<^verbatim>\<open>AttributeError\<close>.
\<close>

definition total_vocab_size :: "VocabularyConfig \<Rightarrow> error + int" where
  "total_vocab_size self =
     (case vocab_sizes_by_measurement self of
        None \<Rightarrow> Inl NoneHasNoAttribute
      | Some sizes \<Rightarrow>
          (case vocab_offsets_by_measurement self of
             None \<Rightarrow> Inl NoneHasNoAttribute
           | Some offsets \<Rightarrow>
               (case py_min (map snd offsets) of
                  Inl e \<Rightarrow> Inl e
                | Inr m \<Rightarrow>
                    Inr (sum_list (map snd sizes) + m
                         + (int (length offsets) - int (length sizes))))))"

section \<open>The schema unifier (InputDFSchema.__add_to_schema, InputDFSchema._unify_schema)\<close>

text \<open>\<open>str_of v\<close> is the text of \<open>v\<close> when \<^verbatim>\<open>isinstance(v, str)\<close>.\<close>

fun str_of :: "pyval \<Rightarrow> string option" where
  "str_of (PStr s) = Some s"
| "str_of (PEnum e) = Some (enum_value e)"
| "str_of _ = None"

text \<open>The class patterns \<^verbatim>\<open>str()\<close> and \<^verbatim>\<open>InputDataType()\<close>.\<close>

fun is_str :: "pyval \<Rightarrow> bool" where
  "is_str (PStr _) = True"
| "is_str (PEnum _) = True"
| "is_str _ = False"

fun is_InputDataType :: "pyval \<Rightarrow> bool" where
  "is_InputDataType (PEnum _) = True"
| "is_InputDataType _ = False"

text \<open>
  A sequence pattern matches lists and tuples (never a \<^verbatim>\<open>str\<close> or a \<^verbatim>\<open>dict\<close>);
  \<open>sequence_items\<close> gives the items it is matched against.
\<close>

fun sequence_items :: "pyval \<Rightarrow> pyval list option" where
  "sequence_items (PList xs) = Some xs"
| "sequence_items (PTuple xs) = Some xs"
| "sequence_items _ = None"

text \<open>
  The pattern \<^verbatim>\<open>[InputDataType.TIMESTAMP, str()]\<close>: a sequence of two items, the first
  equal (\<^verbatim>\<open>==\<close>) to \<^verbatim>\<open>InputDataType.TIMESTAMP\<close>, the second an instance of \<^verbatim>\<open>str\<close>.
\<close>

definition is_timestamp_with_format :: "pyval \<Rightarrow> bool" where
  "is_timestamp_with_format v =
     (case sequence_items v of
        Some [a, b] \<Rightarrow> py_eq a (PEnum TIMESTAMP) \<and> is_str b
      | _ \<Rightarrow> False)"

text \<open>The pattern \<^verbatim>\<open>(InputDataType() | [InputDataType.TIMESTAMP, str()]) as dt\<close>.\<close>

definition is_dt :: "pyval \<Rightarrow> bool" where
  "is_dt v = (is_InputDataType v \<or> is_timestamp_with_format v)"

text \<open>
  The canonical mapping \<^verbatim>\<open>dict[str, tuple[str, InputDataType]]\<close>: the items in insertion
  order, from the source column to the pair of the output column and the type. An
  assignment to a key that is present keeps its place.
\<close>

type_synonym container = "(string \<times> (string \<times> pyval)) list"

text \<open>
  \<^verbatim>\<open>
  if out_col is None:
      out_col = in_col
  if type(in_col) is not str or type(out_col) is not str:
      raise ValueError(f"Column names must be strings! Got {in_col}, {out_col}")
  elif in_col in container and container[in_col] != (out_col, dt):
      raise ValueError(f"Column {in_col} is repeated in schema with different value! ...")
  container[in_col] = (out_col, dt)
  \<close>
  The parameters are in the order of the source: container, in_col, dt, out_col.
  \<open>same_mapping\<close> is \<^verbatim>\<open>==\<close> on the pairs \<^verbatim>\<open>(out_col, dt)\<close>.
\<close>

definition same_mapping :: "string \<times> pyval \<Rightarrow> string \<times> pyval \<Rightarrow> bool" where
  "same_mapping p q = (fst p = fst q \<and> py_eq (snd p) (snd q))"

definition add_to_schema :: "container \<Rightarrow> pyval \<Rightarrow> pyval \<Rightarrow> pyval \<Rightarrow> error + container" where
  "add_to_schema container in_col dt out_col0 =
     (let out_col = (if out_col0 = PNone then in_col else out_col0) in
      case (in_col, out_col) of
        (PStr i, PStr out) \<Rightarrow>
          (case map_of container i of
             Some existing \<Rightarrow>
               if same_mapping existing (out, dt)
               then Inr (AList.update i (out, dt) container)
               else Inl (ColumnRepeated i)
           | None \<Rightarrow> Inr (AList.update i (out, dt) container))
      | _ \<Rightarrow> Inl (ColumnNamesMustBeStrings in_col out_col))"

text \<open>\<^verbatim>\<open>for c in cols: cls.__add_to_schema(unified_schema, in_col=c, dt=dt)\<close>\<close>

fun add_columns :: "container \<Rightarrow> pyval list \<Rightarrow> pyval \<Rightarrow> error + container" where
  "add_columns us [] dt = Inr us"
| "add_columns us (c # cols) dt =
     (case add_to_schema us c dt PNone of
        Inl e \<Rightarrow> Inl e
      | Inr us' \<Rightarrow> add_columns us' cols dt)"

text \<open>
  \<^verbatim>\<open>
  for in_col, out_col in col_names_map.items():
      cls.__add_to_schema(unified_schema, in_col=in_col, dt=dt, out_col=out_col)
  \<close>
\<close>

fun add_renamed_columns :: "container \<Rightarrow> (pyval \<times> pyval) list \<Rightarrow> pyval \<Rightarrow> error + container" where
  "add_renamed_columns us [] dt = Inr us"
| "add_renamed_columns us ((in_col, out_col) # items) dt =
     (case add_to_schema us in_col dt out_col of
        Inl e \<Rightarrow> Inl e
      | Inr us' \<Rightarrow> add_renamed_columns us' items dt)"

text \<open>
  The inner \<^verbatim>\<open>match schema_info\<close> of the dictionary shape, its cases in the order of the
  source:
  \<^verbatim>\<open>
  case str() as out_col, str() as dt if dt in InputDataType.values():
  case str() as out_col, InputDataType() as dt:
  case str() as out_col, [InputDataType.TIMESTAMP, str()] as dt:
      cls.__add_to_schema(unified_schema, in_col=in_col, dt=dt, out_col=out_col)
  case [InputDataType.TIMESTAMP, str()] as dt:
      cls.__add_to_schema(unified_schema, in_col=in_col, dt=dt)
  case str() | InputDataType() as dt if dt in InputDataType.values():
      cls.__add_to_schema(unified_schema, in_col=in_col, dt=dt)
  case _:
      raise ValueError(f"Schema Unprocessable!\n{schema_info}")
  \<close>
  The first four cases can only match a sequence of two items, the fifth only an instance
  of \<^verbatim>\<open>str\<close>. A guard is evaluated when the pattern before it has matched, and evaluating
  \<^verbatim>\<open>InputDataType.values()\<close> raises \<^verbatim>\<open>AttributeError\<close>: neither \<^verbatim>\<open>InputDataType\<close> nor its
  base class \<^verbatim>\<open>StrEnum\<close> defines \<^verbatim>\<open>values\<close>. So the first case raises on every sequence of
  two instances of \<^verbatim>\<open>str\<close> (the members of \<^verbatim>\<open>InputDataType\<close> are instances of \<^verbatim>\<open>str\<close>),
  and the fifth on every instance of \<^verbatim>\<open>str\<close>.
\<close>

definition add_schema_info :: "container \<Rightarrow> pyval \<Rightarrow> pyval \<Rightarrow> error + container" where
  "add_schema_info us in_col schema_info =
     (case sequence_items schema_info of
        Some [out_col, dt] \<Rightarrow>
          if is_str out_col \<and> is_str dt
            then Inl (EnumHasNoValues ''InputDataType'')
          else if is_str out_col \<and> is_InputDataType dt
            then add_to_schema us in_col dt out_col
          else if is_str out_col \<and> is_timestamp_with_format dt
            then add_to_schema us in_col dt out_col
          else if is_timestamp_with_format schema_info
            then add_to_schema us in_col schema_info PNone
          else Inl (SchemaUnprocessable schema_info)
      | _ \<Rightarrow>
          if is_str schema_info
            then Inl (EnumHasNoValues ''InputDataType'')
          else Inl (SchemaUnprocessable schema_info))"

text \<open>\<^verbatim>\<open>for in_col, schema_info in schema.items(): match schema_info: ...\<close>\<close>

fun add_dict_items :: "container \<Rightarrow> (pyval \<times> pyval) list \<Rightarrow> error + container" where
  "add_dict_items us [] = Inr us"
| "add_dict_items us ((in_col, schema_info) # items) =
     (case add_schema_info us in_col schema_info of
        Inl e \<Rightarrow> Inl e
      | Inr us' \<Rightarrow> add_dict_items us' items)"

text \<open>
  The outer \<^verbatim>\<open>match schema\<close>, one schema shorthand:
  \<^verbatim>\<open>
  case str() as col, (InputDataType() | [InputDataType.TIMESTAMP, str()]) as dt:
      cls.__add_to_schema(unified_schema, in_col=col, dt=dt)
  case list() as cols, (InputDataType() | [InputDataType.TIMESTAMP, str()]) as dt:
      for c in cols: ...
  case dict():
      for in_col, schema_info in schema.items(): ...
  case dict() as col_names_map, (InputDataType() | [InputDataType.TIMESTAMP, str()]) as dt:
      for in_col, out_col in col_names_map.items(): ...
  case _:
      raise ValueError(f"Schema Unprocessable!\n{schema}")
  \<close>
  The third case matches exactly the dictionaries; the other three only sequences of two
  items, told apart by the class of the first item.
\<close>

definition add_schema :: "container \<Rightarrow> pyval \<Rightarrow> error + container" where
  "add_schema us schema =
     (case schema of
        PDict items \<Rightarrow> add_dict_items us items
      | _ \<Rightarrow>
          (case sequence_items schema of
             Some [cols, dt] \<Rightarrow>
               if is_str cols \<and> is_dt dt then add_to_schema us cols dt PNone
               else
                 (case cols of
                    PList cs \<Rightarrow>
                      if is_dt dt then add_columns us cs dt
                      else Inl (SchemaUnprocessable schema)
                  | PDict col_names_map \<Rightarrow>
                      if is_dt dt then add_renamed_columns us col_names_map dt
                      else Inl (SchemaUnprocessable schema)
                  | _ \<Rightarrow> Inl (SchemaUnprocessable schema))
           | _ \<Rightarrow> Inl (SchemaUnprocessable schema)))"

text \<open>\<^verbatim>\<open>for schema in data_schema: match schema: ...\<close>\<close>

fun add_schemas :: "container \<Rightarrow> pyval list \<Rightarrow> error + container" where
  "add_schemas us [] = Inr us"
| "add_schemas us (schema # schemas) =
     (case add_schema us schema of
        Inl e \<Rightarrow> Inl e
      | Inr us' \<Rightarrow> add_schemas us' schemas)"

text \<open>
  What a \<^verbatim>\<open>for\<close> loop iterates over: the items of a list or tuple, the keys of a
  dictionary, the one-character strings of a \<^verbatim>\<open>str\<close>; \<^verbatim>\<open>None\<close> and integers are not
  iterable.
\<close>

definition iterate :: "pyval \<Rightarrow> error + pyval list" where
  "iterate v =
     (case v of
        PList xs \<Rightarrow> Inr xs
      | PTuple xs \<Rightarrow> Inr xs
      | PDict items \<Rightarrow> Inr (map fst items)
      | PStr s \<Rightarrow> Inr (map (\<lambda>c. PStr [c]) s)
      | PEnum e \<Rightarrow> Inr (map (\<lambda>c. PStr [c]) (enum_value e))
      | _ \<Rightarrow> Inl (NotIterable v))"

text \<open>
  \<^verbatim>\<open>
  if data_schema is None:
      return {}
  unified_schema = {}
  for schema in data_schema: ...
  return unified_schema
  \<close>
\<close>

definition unify_schema :: "pyval \<Rightarrow> error + container" where
  "unify_schema data_schema =
     (if data_schema = PNone then Inr []
      else
        (case iterate data_schema of
           Inl e \<Rightarrow> Inl e
         | Inr schemas \<Rightarrow> add_schemas [] schemas))"

section \<open>InputDFSchema\<close>

text \<open>
  The dataclass fields, which are also the keyword arguments of the constructor and the
  keys of \<^verbatim>\<open>dataclasses.asdict\<close>. Fields that the source takes apart with \<^verbatim>\<open>match\<close> are
  Python values; the others have the type of their annotation.
\<close>

record InputDFSchema_fields =
  input_df :: pyval
  type :: "InputDFType option"
  event_type :: pyval
  subject_id_col :: "string option"
  ts_col :: pyval
  start_ts_col :: pyval
  end_ts_col :: pyval
  ts_format :: "string option"
  start_ts_format :: "string option"
  end_ts_format :: "string option"
  data_schema :: pyval
  start_data_schema :: pyval
  end_data_schema :: pyval
  must_have :: "pyval list"

text \<open>
  A filter of \<^verbatim>\<open>filter_on\<close>: \<^verbatim>\<open>True\<close> (the column must not be null) or a list of allowed
  values.
\<close>

datatype must_have_filter = NonNull | AllowedValues "pyval list"

text \<open>
  An object of the class: the fields and the attribute \<^verbatim>\<open>filter_on\<close> that
  \<^verbatim>\<open>__post_init__\<close> adds (it is not a dataclass field).
\<close>

record InputDFSchema = InputDFSchema_fields +
  filter_on :: "(string \<times> must_have_filter) list"

definition is_static :: "'a InputDFSchema_fields_scheme \<Rightarrow> bool" where
  "is_static self = (type self = Some STATIC)"

text \<open>
  \<^verbatim>\<open>
  for filter_col in self.must_have:
      match filter_col:
          case str(): self.filter_on[filter_col] = True
          case (str() as filter_col, list() as vals): self.filter_on[filter_col] = vals
          case _: raise ValueError(f"Malformed filter: {filter_col}")
  \<close>
\<close>

fun add_filters ::
  "(string \<times> must_have_filter) list \<Rightarrow> pyval list \<Rightarrow> error + (string \<times> must_have_filter) list"
where
  "add_filters f [] = Inr f"
| "add_filters f (filter_col # rest) =
     (case str_of filter_col of
        Some c \<Rightarrow> add_filters (AList.update c NonNull f) rest
      | None \<Rightarrow>
          (case sequence_items filter_col of
             Some [col, PList vals] \<Rightarrow>
               (case str_of col of
                  Some c \<Rightarrow> add_filters (AList.update c (AllowedValues vals) f) rest
                | None \<Rightarrow> Inl (MalformedFilter filter_col))
           | _ \<Rightarrow> Inl (MalformedFilter filter_col)))"

text \<open>
  \<^verbatim>\<open>
  if type(self.data_schema) is not list and self.data_schema is not None:
      self.data_schema = [self.data_schema]
  \<close>
\<close>

definition wrap_schema :: "pyval \<Rightarrow> pyval" where
  "wrap_schema ds = (case ds of PNone \<Rightarrow> PNone | PList xs \<Rightarrow> PList xs | _ \<Rightarrow> PList [ds])"

subsection \<open>The unified schemas\<close>

definition unified_event_schema :: "'a InputDFSchema_fields_scheme \<Rightarrow> error + container" where
  "unified_event_schema self = unify_schema (data_schema self)"

definition unified_start_schema :: "'a InputDFSchema_fields_scheme \<Rightarrow> error + container" where
  "unified_start_schema self =
     (if type self \<noteq> Some RANGE then Inl (SchemaInvalidForType ''Start'')
      else if start_data_schema self = PNone then unify_schema (data_schema self)
      else unify_schema (start_data_schema self))"

definition unified_end_schema :: "'a InputDFSchema_fields_scheme \<Rightarrow> error + container" where
  "unified_end_schema self =
     (if type self \<noteq> Some RANGE then Inl (SchemaInvalidForType ''End'')
      else if end_data_schema self = PNone then unify_schema (data_schema self)
      else unify_schema (end_data_schema self))"

text \<open>
  \<^verbatim>\<open>ds.extend(x) if type(x) is list else ds.append(x)\<close>, for \<^verbatim>\<open>x\<close> that is not \<^verbatim>\<open>None\<close>.
\<close>

definition extend_or_append :: "pyval list \<Rightarrow> pyval \<Rightarrow> pyval list" where
  "extend_or_append ds x =
     (case x of PNone \<Rightarrow> ds | PList xs \<Rightarrow> ds @ xs | _ \<Rightarrow> ds @ [x])"

definition unified_eq_schema :: "'a InputDFSchema_fields_scheme \<Rightarrow> error + container" where
  "unified_eq_schema self =
     (if type self \<noteq> Some RANGE then Inl (SchemaInvalidForType ''Start=End'')
      else if start_data_schema self = PNone \<and> end_data_schema self = PNone
        then unify_schema (data_schema self)
      else unify_schema
             (PList (extend_or_append (extend_or_append [] (start_data_schema self))
                       (end_data_schema self))))"

text \<open>
  \<^verbatim>\<open>unified_schema\<close> returns one mapping for event and static sources and the list
  \<^verbatim>\<open>[unified_eq_schema, unified_start_schema, unified_end_schema]\<close> for range sources.
\<close>

datatype unified = Unified container | UnifiedRange container container container

definition unified_schema :: "'a InputDFSchema_fields_scheme \<Rightarrow> error + unified" where
  "unified_schema self =
     (case type self of
        None \<Rightarrow> Inl UnrecognizedType
      | Some RANGE \<Rightarrow>
          (case unified_eq_schema self of
             Inl e \<Rightarrow> Inl e
           | Inr eq_schema \<Rightarrow>
               (case unified_start_schema self of
                  Inl e \<Rightarrow> Inl e
                | Inr st_schema \<Rightarrow>
                    (case unified_end_schema self of
                       Inl e \<Rightarrow> Inl e
                     | Inr end_schema \<Rightarrow> Inr (UnifiedRange eq_schema st_schema end_schema))))
      | Some _ \<Rightarrow>
          (case unified_event_schema self of
             Inl e \<Rightarrow> Inl e
           | Inr us \<Rightarrow> Inr (Unified us)))"

subsection \<open>columns_to_load\<close>

text \<open>
  \<^verbatim>\<open>
  for in_col, (out_col, dt) in self.unified_schema.items():
      if in_col in columns_to_load:
          raise ValueError(f"Duplicate column {in_col}!")
      columns_to_load[in_col] = dt
  \<close>
\<close>

fun load_columns :: "(string \<times> pyval) list \<Rightarrow> container \<Rightarrow> error + (string \<times> pyval) list" where
  "load_columns ctl [] = Inr ctl"
| "load_columns ctl ((in_col, (out_col, dt)) # items) =
     (case map_of ctl in_col of
        Some _ \<Rightarrow> Inl (DuplicateColumn in_col)
      | None \<Rightarrow> load_columns (AList.update in_col dt ctl) items)"

text \<open>
  \<^verbatim>\<open>
  for in_col, (out_col, dt) in unified_schema.items():
      if in_col in columns_to_load:
          if dt != columns_to_load[in_col]:
              raise ValueError(f"Duplicate column {in_col} with differing dts!")
      else:
          columns_to_load[in_col] = dt
  \<close>
\<close>

fun load_range_columns ::
  "(string \<times> pyval) list \<Rightarrow> container \<Rightarrow> error + (string \<times> pyval) list"
where
  "load_range_columns ctl [] = Inr ctl"
| "load_range_columns ctl ((in_col, (out_col, dt)) # items) =
     (case map_of ctl in_col of
        Some dt' \<Rightarrow>
          if py_eq dt dt' then load_range_columns ctl items
          else Inl (DuplicateColumnDifferingDts in_col)
      | None \<Rightarrow> load_range_columns (AList.update in_col dt ctl) items)"

text \<open>
  One round of the loop over the timestamp parameters:
  \<^verbatim>\<open>
  if fmt_param is None: fmt = InputDataType.TIMESTAMP
  else: fmt = (InputDataType.TIMESTAMP, fmt_param)
  match val:
      case list(): columns_to_load.extend([(c, fmt) for c in val])
      case str(): columns_to_load.append((val, fmt))
      case None: pass
      case _: raise ValueError(f"Can't parse timestamp {param}, {fmt_param}, {val}")
  \<close>
\<close>

definition timestamp_columns ::
  "string \<Rightarrow> pyval \<Rightarrow> string option \<Rightarrow> error + (pyval \<times> pyval) list"
where
  "timestamp_columns param val fmt_param =
     (let fmt = (case fmt_param of
                   None \<Rightarrow> PEnum TIMESTAMP
                 | Some f \<Rightarrow> PTuple [PEnum TIMESTAMP, PStr f])
      in case val of
           PList cs \<Rightarrow> Inr (map (\<lambda>c. (c, fmt)) cs)
         | PStr _ \<Rightarrow> Inr [(val, fmt)]
         | PEnum _ \<Rightarrow> Inr [(val, fmt)]
         | PNone \<Rightarrow> Inr []
         | _ \<Rightarrow> Inl (CantParseTimestamp param))"

text \<open>
  The property \<^verbatim>\<open>columns_to_load\<close>: the columns of the unified schema(s), as the items of
  the dictionary built from them, followed by the timestamp columns of \<^verbatim>\<open>start_ts_col\<close>,
  \<^verbatim>\<open>end_ts_col\<close> and \<^verbatim>\<open>ts_col\<close>, in this order.
\<close>

definition schema_columns :: "'a InputDFSchema_fields_scheme \<Rightarrow> error + (string \<times> pyval) list" where
  "schema_columns self =
     (case type self of
        None \<Rightarrow> Inl UnrecognizedType
      | Some _ \<Rightarrow>
          (case unified_schema self of
             Inl e \<Rightarrow> Inl e
           | Inr (Unified us) \<Rightarrow> load_columns [] us
           | Inr (UnifiedRange eq_schema st_schema end_schema) \<Rightarrow>
               (case load_range_columns [] eq_schema of
                  Inl e \<Rightarrow> Inl e
                | Inr c1 \<Rightarrow>
                    (case load_range_columns c1 st_schema of
                       Inl e \<Rightarrow> Inl e
                     | Inr c2 \<Rightarrow> load_range_columns c2 end_schema))))"

definition columns_to_load :: "'a InputDFSchema_fields_scheme \<Rightarrow> error + (pyval \<times> pyval) list" where
  "columns_to_load self =
     (case schema_columns self of
        Inl e \<Rightarrow> Inl e
      | Inr ctl \<Rightarrow>
          (case timestamp_columns ''start_ts_col'' (start_ts_col self) (start_ts_format self) of
             Inl e \<Rightarrow> Inl e
           | Inr t1 \<Rightarrow>
               (case timestamp_columns ''end_ts_col'' (end_ts_col self) (end_ts_format self) of
                  Inl e \<Rightarrow> Inl e
                | Inr t2 \<Rightarrow>
                    (case timestamp_columns ''ts_col'' (ts_col self) (ts_format self) of
                       Inl e \<Rightarrow> Inl e
                     | Inr t3 \<Rightarrow>
                         Inr (map (\<lambda>(c, dt). (PStr c, dt)) ctl @ t1 @ t2 @ t3)))))"

subsection \<open>__post_init__\<close>

text \<open>The branch \<^verbatim>\<open>case InputDFType.STATIC\<close>.\<close>

definition check_static :: "InputDFSchema \<Rightarrow> error + InputDFSchema" where
  "check_static self =
     (if subject_id_col self = None then Inl StaticMissingSubjectIdCol
      else if event_type self \<noteq> PNone then Inl StaticEventTypeSet
      else if ts_col self \<noteq> PNone then Inl (StaticInvalidParam ''ts_col'')
      else if start_ts_col self \<noteq> PNone then Inl (StaticInvalidParam ''start_ts_col'')
      else if end_ts_col self \<noteq> PNone then Inl (StaticInvalidParam ''end_ts_col'')
      else Inr self)"

text \<open>The branch \<^verbatim>\<open>case InputDFType.EVENT\<close>.\<close>

definition check_event :: "InputDFSchema \<Rightarrow> error + InputDFSchema" where
  "check_event self =
     (if ts_col self = PNone then Inl EventMissingTsCol
      else if event_type self = PNone then Inl EventMissingEventType
      else if \<not> is_str (event_type self) then Inl (EventTypeNotStr (event_type self))
      else if subject_id_col self \<noteq> None then Inl SubjectIdColOnNonStatic
      else if start_ts_col self \<noteq> PNone then Inl (EventInvalidParam ''start_ts_col'')
      else if end_ts_col self \<noteq> PNone then Inl (EventInvalidParam ''end_ts_col'')
      else if start_ts_format self \<noteq> None then Inl (EventInvalidParam ''start_ts_format'')
      else if end_ts_format self \<noteq> None then Inl (EventInvalidParam ''end_ts_format'')
      else if start_data_schema self \<noteq> PNone then Inl (EventInvalidParam ''start_data_schema'')
      else if end_data_schema self \<noteq> PNone then Inl (EventInvalidParam ''end_data_schema'')
      else Inr self)"

text \<open>
  The \<^verbatim>\<open>match self.event_type\<close> of the branch \<^verbatim>\<open>case InputDFType.RANGE\<close>:
  \<^verbatim>\<open>
  case None: raise ValueError("Missing mandatory range parameter event_type!")
  case (str(), str(), str()): pass
  case str():
      self.event_type = (self.event_type, f"{self.event_type}_START", f"{self.event_type}_END")
  case _: raise TypeError("event_type must be a string or a 3-element tuple ...")
  \<close>
\<close>

definition range_event_type :: "pyval \<Rightarrow> error + pyval" where
  "range_event_type et =
     (if et = PNone then Inl RangeMissingEventType
      else
        (case sequence_items et of
           Some [a, b, c] \<Rightarrow>
             if is_str a \<and> is_str b \<and> is_str c then Inr et
             else Inl (RangeEventTypeShape et)
         | Some _ \<Rightarrow> Inl (RangeEventTypeShape et)
         | None \<Rightarrow>
             (case str_of et of
                Some x \<Rightarrow> Inr (PTuple [et, PStr (x @ ''_START''), PStr (x @ ''_END'')])
              | None \<Rightarrow> Inl (RangeEventTypeShape et))))"

text \<open>
  \<^verbatim>\<open>
  if self.data_schema is not None:
      for param in ("start_data_schema", "end_data_schema"):
          val = getattr(self, param)
          if val is not None:
              raise ValueError(f"{param} can't be simultaneously set with `self.data_schema`! ...")
      self.start_data_schema = self.data_schema
      self.end_data_schema = self.data_schema
  \<close>
\<close>

definition range_data_schemas :: "InputDFSchema \<Rightarrow> error + InputDFSchema" where
  "range_data_schemas self =
     (if data_schema self \<noteq> PNone then
        (if start_data_schema self \<noteq> PNone then Inl (SetWithDataSchema ''start_data_schema'')
         else if end_data_schema self \<noteq> PNone then Inl (SetWithDataSchema ''end_data_schema'')
         else Inr (self\<lparr>start_data_schema := data_schema self,
                        end_data_schema := data_schema self\<rparr>))
      else Inr self)"

text \<open>The rest of the range branch: the timestamp columns and the timestamp formats.\<close>

definition range_timestamps :: "InputDFSchema \<Rightarrow> error + InputDFSchema" where
  "range_timestamps self =
     (if start_ts_col self = PNone then Inl RangeMissingStartTsCol
      else if end_ts_col self = PNone then Inl RangeMissingEndTsCol
      else if ts_col self \<noteq> PNone then Inl RangeTsColSet
      else if subject_id_col self \<noteq> None then Inl SubjectIdColOnNonStatic
      else if start_ts_format self \<noteq> None then
        (if end_ts_format self = None then Inl EndTsFormatMissing
         else if ts_format self \<noteq> None then Inl TsFormatSetWithStartTsFormat
         else Inr self)
      else
        (if end_ts_format self \<noteq> None then Inl StartTsFormatMissing
         else Inr (self\<lparr>start_ts_format := ts_format self,
                        end_ts_format := ts_format self,
                        ts_format := None\<rparr>)))"

definition check_range :: "InputDFSchema \<Rightarrow> error + InputDFSchema" where
  "check_range self =
     (case range_event_type (event_type self) of
        Inl e \<Rightarrow> Inl e
      | Inr et \<Rightarrow>
          (case range_data_schemas (self\<lparr>event_type := et\<rparr>) of
             Inl e \<Rightarrow> Inl e
           | Inr self' \<Rightarrow> range_timestamps self'))"

text \<open>
  \<^verbatim>\<open>InputDFSchema(**kw)\<close>: the generated \<^verbatim>\<open>__init__\<close> stores the fields and calls
  \<^verbatim>\<open>__post_init__\<close>, which checks the mandatory parameters, wraps the three data schemas,
  builds \<^verbatim>\<open>filter_on\<close>, runs the branch of the source type and last reads
  \<^verbatim>\<open>self.columns_to_load\<close> ("This checks validity"). \<open>init_self kw f\<close> is the object
  after the wrapping and the filter loop.
\<close>

definition init_self ::
  "InputDFSchema_fields \<Rightarrow> (string \<times> must_have_filter) list \<Rightarrow> InputDFSchema"
where
  "init_self kw f =
     \<lparr>input_df = input_df kw, type = type kw, event_type = event_type kw,
      subject_id_col = subject_id_col kw, ts_col = ts_col kw,
      start_ts_col = start_ts_col kw, end_ts_col = end_ts_col kw,
      ts_format = ts_format kw, start_ts_format = start_ts_format kw,
      end_ts_format = end_ts_format kw,
      data_schema = wrap_schema (data_schema kw),
      start_data_schema = wrap_schema (start_data_schema kw),
      end_data_schema = wrap_schema (end_data_schema kw),
      must_have = must_have kw, filter_on = f\<rparr>"

definition post_init :: "InputDFSchema_fields \<Rightarrow> error + InputDFSchema" where
  "post_init kw =
     (if input_df kw = PNone then Inl MissingInputDf
      else
        (case type kw of
           None \<Rightarrow> Inl MissingType
         | Some t \<Rightarrow>
             (case add_filters [] (must_have kw) of
                Inl e \<Rightarrow> Inl e
              | Inr f \<Rightarrow>
                  (case (case t of STATIC \<Rightarrow> check_static (init_self kw f)
                                 | EVENT \<Rightarrow> check_event (init_self kw f)
                                 | RANGE \<Rightarrow> check_range (init_self kw f)) of
                     Inl e \<Rightarrow> Inl e
                   | Inr self \<Rightarrow>
                       (case columns_to_load self of
                          Inl e \<Rightarrow> Inl e
                        | Inr _ \<Rightarrow> Inr self)))))"

text \<open>
  \<^verbatim>\<open>to_dict\<close> is \<^verbatim>\<open>dataclasses.asdict\<close> (JSONableMixin): the dictionary of the dataclass
  fields; \<^verbatim>\<open>from_dict\<close> is \<^verbatim>\<open>cls(**as_dict)\<close>.
\<close>

definition InputDFSchema_to_dict :: "InputDFSchema \<Rightarrow> InputDFSchema_fields" where
  "InputDFSchema_to_dict self = InputDFSchema_fields.truncate self"

definition InputDFSchema_from_dict :: "InputDFSchema_fields \<Rightarrow> error + InputDFSchema" where
  "InputDFSchema_from_dict as_dict = post_init as_dict"

section \<open>DatasetSchema\<close>

text \<open>
  A source is passed to \<^verbatim>\<open>DatasetSchema\<close> either as a plain dictionary of the keyword
  arguments of \<^verbatim>\<open>InputDFSchema\<close> or as an \<^verbatim>\<open>InputDFSchema\<close> object.
\<close>

datatype schema_arg = PlainDict InputDFSchema_fields | Schema InputDFSchema

text \<open>
  The object after \<^verbatim>\<open>__post_init__\<close>: \<^verbatim>\<open>static\<close> is an object, \<^verbatim>\<open>dynamic\<close> a list of
  objects, and \<^verbatim>\<open>dynamic_by_df\<close> (not a dataclass field) groups the dynamic sources by
  \<^verbatim>\<open>input_df\<close>.
\<close>

record DatasetSchema =
  static :: InputDFSchema
  dynamic :: "InputDFSchema list"
  dynamic_by_df :: "(pyval \<times> InputDFSchema list) list"

text \<open>
  The warning that \<^verbatim>\<open>__post_init__\<close> prints: the source's \<^verbatim>\<open>input_df\<close>, its
  \<^verbatim>\<open>subject_id_col\<close> and the static source's \<^verbatim>\<open>subject_id_col\<close>.
\<close>

datatype warning = SubjectIdColDiffers pyval "string option" "string option"

text \<open>
  The loop over \<^verbatim>\<open>self.dynamic\<close>, with the static subject-id column \<open>sid\<close>:
  \<^verbatim>\<open>
  for v in self.dynamic:
      if type(v) is dict:
          v = InputDFSchema(**v)
      if v.subject_id_col is None:
          v.subject_id_col = self.static.subject_id_col
      if v.subject_id_col != self.static.subject_id_col:
          print(f"WARNING: {v.input_df} subject ID col name ({v.subject_id_col}) differs ...")
      new_dynamic.append(v)
      if v.is_static:
          raise TypeError("Must pass dynamic schemas in `self.dynamic`!")
  \<close>
  The result is what was printed and the new list, or the exception.
\<close>

fun convert_dynamic ::
  "string option \<Rightarrow> schema_arg list \<Rightarrow> warning list \<times> (error + InputDFSchema list)"
where
  "convert_dynamic sid [] = ([], Inr [])"
| "convert_dynamic sid (v # vs) =
     (case (case v of PlainDict kw \<Rightarrow> post_init kw | Schema s \<Rightarrow> Inr s) of
        Inl e \<Rightarrow> ([], Inl e)
      | Inr v1 \<Rightarrow>
          (let v2 = (if subject_id_col v1 = None then v1\<lparr>subject_id_col := sid\<rparr> else v1);
               w = (if subject_id_col v2 \<noteq> sid
                    then [SubjectIdColDiffers (input_df v2) (subject_id_col v2) sid]
                    else [])
           in if is_static v2 then (w, Inl DynamicSchemaIsStatic)
              else
                (case convert_dynamic sid vs of
                   (ws, Inl e) \<Rightarrow> (w @ ws, Inl e)
                 | (ws, Inr rest) \<Rightarrow> (w @ ws, Inr (v2 # rest)))))"

text \<open>
  Dictionary keys must be hashable: lists and dictionaries are not, a tuple is when its
  items are. A key is looked up with \<^verbatim>\<open>==\<close>; an assignment to a key that is present keeps
  the key and its place.
\<close>

fun hashable :: "pyval \<Rightarrow> bool" where
  "hashable (PList _) = False"
| "hashable (PDict _) = False"
| "hashable (PTuple xs) = list_all hashable xs"
| "hashable _ = True"

fun dict_get :: "(pyval \<times> 'v) list \<Rightarrow> pyval \<Rightarrow> 'v option" where
  "dict_get [] k = None"
| "dict_get ((k', v) # d) k = (if py_eq k' k then Some v else dict_get d k)"

fun dict_set :: "(pyval \<times> 'v) list \<Rightarrow> pyval \<Rightarrow> 'v \<Rightarrow> (pyval \<times> 'v) list" where
  "dict_set [] k v = [(k, v)]"
| "dict_set ((k', v') # d) k v =
     (if py_eq k' k then (k', v) # d else (k', v') # dict_set d k v)"

text \<open>
  \<^verbatim>\<open>
  self.dynamic_by_df = defaultdict(list)
  for v in self.dynamic:
      self.dynamic_by_df[v.input_df].append(v)
  \<close>
\<close>

fun group_by_df ::
  "(pyval \<times> InputDFSchema list) list \<Rightarrow> InputDFSchema list
     \<Rightarrow> error + (pyval \<times> InputDFSchema list) list"
where
  "group_by_df g [] = Inr g"
| "group_by_df g (v # vs) =
     (if \<not> hashable (input_df v) then Inl (UnhashableKey (input_df v))
      else
        group_by_df
          (dict_set g (input_df v)
             ((case dict_get g (input_df v) of None \<Rightarrow> [] | Some l \<Rightarrow> l) @ [v]))
          vs)"

text \<open>
  \<^verbatim>\<open>DatasetSchema(static=..., dynamic=...)\<close>, that is \<^verbatim>\<open>__post_init__\<close> on the two fields:
  \<^verbatim>\<open>
  if self.static is None: raise ValueError("Must specify a static schema!")
  if type(self.static) is dict:
      self.static = InputDFSchema(**self.static)
      if not self.static.is_static: raise TypeError("Must pass a static schema config for static.")
  if self.static.subject_id_col is None: raise ValueError("Must specify a subject_id_col ...")
  if self.dynamic is not None: ... (the loop above)
  self.dynamic_by_df = ...     (iterating None raises TypeError)
  \<close>
\<close>

definition DatasetSchema_post_init ::
  "schema_arg option \<Rightarrow> schema_arg list option \<Rightarrow> warning list \<times> (error + DatasetSchema)"
where
  "DatasetSchema_post_init static_arg dynamic_arg =
     (case static_arg of
        None \<Rightarrow> ([], Inl MustSpecifyStaticSchema)
      | Some sa \<Rightarrow>
          (case (case sa of
                   PlainDict kw \<Rightarrow>
                     (case post_init kw of
                        Inl e \<Rightarrow> Inl e
                      | Inr s \<Rightarrow> if is_static s then Inr s else Inl StaticSchemaNotStatic)
                 | Schema s \<Rightarrow> Inr s) of
             Inl e \<Rightarrow> ([], Inl e)
           | Inr st \<Rightarrow>
               if subject_id_col st = None then ([], Inl StaticSchemaNoSubjectIdCol)
               else
                 (case dynamic_arg of
                    None \<Rightarrow> ([], Inl NoneNotIterable)
                  | Some vs \<Rightarrow>
                      (case convert_dynamic (subject_id_col st) vs of
                         (ws, Inl e) \<Rightarrow> (ws, Inl e)
                       | (ws, Inr new_dynamic) \<Rightarrow>
                           (case group_by_df [] new_dynamic of
                              Inl e \<Rightarrow> (ws, Inl e)
                            | Inr g \<Rightarrow>
                                (ws, Inr \<lparr>static = st, dynamic = new_dynamic,
                                          dynamic_by_df = g\<rparr>))))))"

text \<open>
  \<^verbatim>\<open>to_dict\<close> is \<^verbatim>\<open>dataclasses.asdict\<close>, which turns the nested dataclass objects into
  dictionaries of their fields; \<^verbatim>\<open>from_dict\<close> is \<^verbatim>\<open>cls(**as_dict)\<close>.
\<close>

definition DatasetSchema_to_dict :: "DatasetSchema \<Rightarrow> schema_arg option \<times> schema_arg list option" where
  "DatasetSchema_to_dict self =
     (Some (PlainDict (InputDFSchema_to_dict (static self))),
      Some (map (\<lambda>v. PlainDict (InputDFSchema_to_dict v)) (dynamic self)))"

definition DatasetSchema_from_dict ::
  "schema_arg option \<times> schema_arg list option \<Rightarrow> warning list \<times> (error + DatasetSchema)"
where
  "DatasetSchema_from_dict as_dict = DatasetSchema_post_init (fst as_dict) (snd as_dict)"

section \<open>MeasurementConfig\<close>

text \<open>
  The functor classes (\<^verbatim>\<open>time_dependent_functor.py\<close>), the \<^verbatim>\<open>Vocabulary\<close> class and pandas
  are not part of the sources. A functor is modelled by its class name and the class
  attribute \<^verbatim>\<open>OUTPUT_MODALITY\<close> that the validation reads; vocabularies and floats are
  opaque values.
\<close>

record TimeDependentFunctor =
  functor_class :: string
  OUTPUT_MODALITY :: DataModality

typedecl Vocabulary
typedecl py_float

text \<open>
  Modelled from the spec: the tables and series of pandas, which is not part of the
  sources. The measurement metadata is "in-memory (table or series)" (spec 4.4), with "one
  row per key, columns include value-type/outlier-model/normalizer at minimum" for a
  table. A cell is a missing value (\<^verbatim>\<open>None\<close> or \<^verbatim>\<open>NaN\<close>), a string, or another Python object
  (the parameters of an outlier model or of a normalizer), which is identified with the
  text of the Python expression that denotes it: \<open>Object t\<close> is the value of the expression
  \<open>t\<close>, and \<^verbatim>\<open>str\<close> of it is \<open>t\<close>. Numeric cells are left out. A series is the list of
  its index labels and values; a table has the name of its index, its column labels, and
  its rows, each the index label and the cells of the columns.
\<close>

datatype cell = Missing | Text string | Object string

type_synonym Series = "(string \<times> cell) list"

record DataFrame =
  index_name :: "string option"
  columns :: "string list"
  rows :: "(string \<times> cell list) list"

text \<open>
  The slot \<^verbatim>\<open>_measurement_metadata\<close>: \<^verbatim>\<open>None\<close>, an in-memory table or series, or the path
  of the file it is cached in (a \<^verbatim>\<open>Path\<close> or a \<^verbatim>\<open>str\<close>).
\<close>

datatype metadata =
    NoMetadata
  | InFrame DataFrame
  | InSeries Series
  | AtPath string
  | AtStr string

record MeasurementConfig =
  name :: "string option"
  temporality :: "TemporalityType option"
  modality :: "DataModality option"
  observation_frequency :: "py_float option"
  "functor" :: "TimeDependentFunctor option"
  vocabulary :: "Vocabulary option"
  values_column :: "string option"
  measurement_metadata_slot :: metadata

text \<open>
  What the property \<^verbatim>\<open>measurement_metadata\<close> calls in pandas when the metadata is cached:
  \<^verbatim>\<open>pd.read_csv(fp, index_col=0)\<close>, \<^verbatim>\<open>out.shape[1]\<close>, the conversion of the single column to
  a series (with \<^verbatim>\<open>eval\<close> of the outlier model and normalizer cells) and the \<^verbatim>\<open>eval\<close> of
  these columns of a table. They are parameters of the validation; \<open>pandas_on\<close> below gives
  them over a file store.
\<close>

record pandas =
  read_csv :: "string \<Rightarrow> error + DataFrame"
  n_columns :: "DataFrame \<Rightarrow> nat"
  to_series :: "DataFrame \<Rightarrow> error + Series"
  eval_columns :: "DataFrame \<Rightarrow> error + DataFrame"

definition is_numeric :: "MeasurementConfig \<Rightarrow> bool" where
  "is_numeric self =
     (modality self = Some MULTIVARIATE_REGRESSION \<or> modality self = Some UNIVARIATE_REGRESSION)"

text \<open>
  The property \<^verbatim>\<open>measurement_metadata\<close>: the in-memory value, or the value read from the
  path.
  \<^verbatim>\<open>
  case None | pd.DataFrame() | pd.Series(): return self._measurement_metadata
  case (Path() | str()) as fp:
      out = pd.read_csv(fp, index_col=0)
      if self.modality == DataModality.UNIVARIATE_REGRESSION:
          if out.shape[1] != 1: raise ValueError(...)
          out = out.iloc[:, 0]; ...
      elif self.modality != DataModality.MULTIVARIATE_REGRESSION: raise ValueError(...)
      else: ...
      return out
  \<close>
\<close>

definition load_metadata :: "pandas \<Rightarrow> MeasurementConfig \<Rightarrow> string \<Rightarrow> error + metadata" where
  "load_metadata pd self fp =
     (case read_csv pd fp of
        Inl e \<Rightarrow> Inl e
      | Inr out \<Rightarrow>
          if modality self = Some UNIVARIATE_REGRESSION then
            (if n_columns pd out \<noteq> 1 then Inl MetadataNotASeries
             else (case to_series pd out of Inl e \<Rightarrow> Inl e | Inr sr \<Rightarrow> Inr (InSeries sr)))
          else if modality self \<noteq> Some MULTIVARIATE_REGRESSION then Inl MetadataPathOnNonNumeric
          else (case eval_columns pd out of Inl e \<Rightarrow> Inl e | Inr df \<Rightarrow> Inr (InFrame df)))"

definition measurement_metadata :: "pandas \<Rightarrow> MeasurementConfig \<Rightarrow> error + metadata" where
  "measurement_metadata pd self =
     (case measurement_metadata_slot self of
        AtPath fp \<Rightarrow> load_metadata pd self fp
      | AtStr fp \<Rightarrow> load_metadata pd self fp
      | m \<Rightarrow> Inr m)"

text \<open>
  The first \<^verbatim>\<open>match\<close> of \<^verbatim>\<open>_validate\<close>, on the temporality. It may set the modality
  from the functor. The last case,
  \<^verbatim>\<open>
  case _:
      raise ValueError(f"`self.temporality = {self.temporality}` Invalid! Must be in "
                       f"{', '.join(TemporalityType.values())}")
  \<close>
  raises \<^verbatim>\<open>AttributeError\<close> while it builds the message, since \<^verbatim>\<open>TemporalityType\<close> has no
  attribute \<^verbatim>\<open>values\<close>.
\<close>

definition validate_temporality :: "MeasurementConfig \<Rightarrow> error + MeasurementConfig" where
  "validate_temporality self =
     (case temporality self of
        Some STATIC_temporality \<Rightarrow>
          if functor self \<noteq> None then Inl FunctorShouldBeNone
          else if is_numeric self then Inl NumericOnStatic
          else Inr self
      | Some DYNAMIC \<Rightarrow>
          if functor self \<noteq> None then Inl FunctorShouldBeNone
          else if modality self = Some SINGLE_LABEL_CLASSIFICATION then Inl SingleLabelOnDynamic
          else Inr self
      | Some FUNCTIONAL_TIME_DEPENDENT \<Rightarrow>
          (case functor self of
             None \<Rightarrow> Inl FunctorMustBeSet
           | Some f \<Rightarrow>
               if modality self = None then Inr (self\<lparr>modality := Some (OUTPUT_MODALITY f)\<rparr>)
               else if modality self \<noteq> Some DROPPED \<and> modality self \<noteq> Some (OUTPUT_MODALITY f)
                 then Inl ModalityNotFunctorOutput
               else Inr self)
      | None \<Rightarrow> Inl (EnumHasNoValues ''TemporalityType''))"

text \<open>
  The second \<^verbatim>\<open>match\<close>, on the modality: the violated constraints are collected in
  \<^verbatim>\<open>err_strings\<close> and raised together. Reading \<^verbatim>\<open>self.measurement_metadata\<close> (in a test or
  in the text of a message) can raise by itself.
\<close>

definition metadata_must_be ::
  "pandas \<Rightarrow> MeasurementConfig \<Rightarrow> (metadata \<Rightarrow> bool) \<Rightarrow> string \<Rightarrow> error + string list"
where
  "metadata_must_be pd self ok msg =
     (case measurement_metadata pd self of
        Inl e \<Rightarrow> Inl e
      | Inr m \<Rightarrow> if m \<noteq> NoMetadata \<and> \<not> ok m then Inr [msg] else Inr [])"

definition metadata_must_be_None ::
  "pandas \<Rightarrow> MeasurementConfig \<Rightarrow> error + string list"
where
  "metadata_must_be_None pd self =
     (if measurement_metadata_slot self \<noteq> NoMetadata then
        (case measurement_metadata pd self of
           Inl e \<Rightarrow> Inl e
         | Inr _ \<Rightarrow> Inr [''measurement_metadata must be None''])
      else Inr [])"

definition modality_errors :: "pandas \<Rightarrow> MeasurementConfig \<Rightarrow> error + string list" where
  "modality_errors pd self =
     (case modality self of
        Some MULTIVARIATE_REGRESSION \<Rightarrow>
          (case metadata_must_be pd self (\<lambda>m. case m of InFrame _ \<Rightarrow> True | _ \<Rightarrow> False)
                  ''measurement_metadata must be a DataFrame'' of
             Inl e \<Rightarrow> Inl e
           | Inr errs \<Rightarrow>
               Inr ((if values_column self = None then [''values_column must be set'']
                     else []) @ errs))
      | Some UNIVARIATE_REGRESSION \<Rightarrow>
          (case metadata_must_be pd self (\<lambda>m. case m of InSeries _ \<Rightarrow> True | _ \<Rightarrow> False)
                  ''measurement_metadata must be a Series'' of
             Inl e \<Rightarrow> Inl e
           | Inr errs \<Rightarrow>
               Inr ((if values_column self \<noteq> None then [''values_column must be None'']
                     else []) @ errs))
      | Some DROPPED \<Rightarrow>
          (case metadata_must_be_None pd self of
             Inl e \<Rightarrow> Inl e
           | Inr errs \<Rightarrow>
               Inr ((if vocabulary self \<noteq> None then [''vocabulary must be None''] else [])
                    @ errs))
      | Some _ \<Rightarrow>
          (case metadata_must_be_None pd self of
             Inl e \<Rightarrow> Inl e
           | Inr errs \<Rightarrow>
               Inr ((if values_column self \<noteq> None then [''values_column must be None'']
                     else []) @ errs))
      | None \<Rightarrow> Inl InvalidModality)"

definition validate :: "pandas \<Rightarrow> MeasurementConfig \<Rightarrow> error + MeasurementConfig" where
  "validate pd self =
     (case validate_temporality self of
        Inl e \<Rightarrow> Inl e
      | Inr self' \<Rightarrow>
          (case modality_errors pd self' of
             Inl e \<Rightarrow> Inl e
           | Inr errs \<Rightarrow> if errs \<noteq> [] then Inl (InvalidFields errs) else Inr self'))"

text \<open>\<^verbatim>\<open>__post_init__\<close> only calls \<^verbatim>\<open>self._validate()\<close>.\<close>

definition MeasurementConfig_post_init :: "pandas \<Rightarrow> MeasurementConfig \<Rightarrow> error + MeasurementConfig" where
  "MeasurementConfig_post_init pd self = validate pd self"

subsection \<open>The metadata cache\<close>

text \<open>
  Modelled from the spec: the file store and the CSV writer and reader of pandas, which
  are not part of the sources. The cache is "one file per cached measurement, in a tabular
  text format, addressed by a caller-supplied path" (spec 6). A file is the list of its
  lines, each the list of its fields (quoting is not modelled), and the store maps a
  path to the file at it.

  \<^verbatim>\<open>to_csv(fp)\<close> with its default arguments writes a header line (the name of the index, or
  an empty field, and the column labels; the column of a series without a name is
  labelled \<^verbatim>\<open>0\<close>) and one line per row: the index label and the text of each cell, which
  is \<^verbatim>\<open>str\<close> of the cell, and the empty text (\<^verbatim>\<open>na_rep=''\<close>) for a missing value.
\<close>

type_synonym csv_file = "string list list"

type_synonym files = "string \<rightharpoonup> csv_file"

definition cell_text :: "cell \<Rightarrow> string" where
  "cell_text c = (case c of Missing \<Rightarrow> [] | Text t \<Rightarrow> t | Object t \<Rightarrow> t)"

definition DataFrame_to_csv :: "DataFrame \<Rightarrow> csv_file" where
  "DataFrame_to_csv df =
     ((case index_name df of None \<Rightarrow> [] | Some n \<Rightarrow> n) # columns df)
     # map (\<lambda>(label, cells). label # map cell_text cells) (rows df)"

definition Series_to_csv :: "Series \<Rightarrow> csv_file" where
  "Series_to_csv sr = [[], ''0''] # map (\<lambda>(label, c). [label, cell_text c]) sr"

text \<open>
  Modelled from the spec: \<^verbatim>\<open>pd.read_csv(fp, index_col=0)\<close>. The first line gives the name of
  the index and the column labels, the first field of every other line is the index label
  of the row. A field among the default \<^verbatim>\<open>na_values\<close> of \<^verbatim>\<open>read_csv\<close>, the empty field first,
  is read as \<^verbatim>\<open>NaN\<close>; every other field is read as a string (the inference of numbers is
  left out with the numeric cells). A path without a file raises \<^verbatim>\<open>FileNotFoundError\<close> (an
  \<^verbatim>\<open>OSError\<close>), a file without lines \<^verbatim>\<open>EmptyDataError\<close> (a \<^verbatim>\<open>ValueError\<close>).
\<close>

definition na_values :: "string list" where
  "na_values =
     ['''', ''#N/A'', ''#N/A N/A'', ''#NA'', ''-1.#IND'', ''-1.#QNAN'', ''-NaN'', ''-nan'',
      ''1.#IND'', ''1.#QNAN'', ''<NA>'', ''N/A'', ''NA'', ''NULL'', ''NaN'', ''None'', ''n/a'',
      ''nan'', ''null'']"

definition parse_cell :: "string \<Rightarrow> cell" where
  "parse_cell field = (if field \<in> set na_values then Missing else Text field)"

definition parse_row :: "string list \<Rightarrow> string \<times> cell list" where
  "parse_row line = (case line of [] \<Rightarrow> ([], []) | label # texts \<Rightarrow> (label, map parse_cell texts))"

definition pd_read_csv :: "files \<Rightarrow> string \<Rightarrow> error + DataFrame" where
  "pd_read_csv fs fp =
     (case fs fp of
        None \<Rightarrow> Inl (StorageError fp)
      | Some [] \<Rightarrow> Inl EmptyDataError
      | Some (header # body) \<Rightarrow>
          Inr \<lparr>index_name = (case header of [] \<Rightarrow> None
                               | h # _ \<Rightarrow> if h = [] then None else Some h),
               columns = tl header,
               rows = map parse_row body\<rparr>)"

text \<open>
  Modelled from the spec: Python's \<^verbatim>\<open>eval\<close>, which restores "any embedded executable
  expressions for outlier-model/normalizer cells" (spec 4.4). On a string it gives the
  value of the expression; on an argument that is not a string (nor bytes nor a code
  object), such as the \<^verbatim>\<open>NaN\<close> of a missing cell, it raises \<^verbatim>\<open>TypeError\<close>.
\<close>

definition py_eval :: "cell \<Rightarrow> error + cell" where
  "py_eval c = (case c of Text t \<Rightarrow> Inr (Object t) | _ \<Rightarrow> Inl EvalArgNotString)"

text \<open>
  The univariate branch of the property \<^verbatim>\<open>measurement_metadata\<close>:
  \<^verbatim>\<open>
  out = out.iloc[:, 0]
  for col in ("outlier_model", "normalizer"):
      if col in out:
          out[col] = eval(out[col])
  \<close>
  \<^verbatim>\<open>col in out\<close> is the membership in the index of the series.
\<close>

definition first_column :: "DataFrame \<Rightarrow> Series" where
  "first_column df =
     map (\<lambda>(label, cells). (label, case cells of [] \<Rightarrow> Missing | c # _ \<Rightarrow> c)) (rows df)"

fun eval_entries :: "string list \<Rightarrow> Series \<Rightarrow> error + Series" where
  "eval_entries [] out = Inr out"
| "eval_entries (col # cols) out =
     (case map_of out col of
        None \<Rightarrow> eval_entries cols out
      | Some c \<Rightarrow>
          (case py_eval c of
             Inl e \<Rightarrow> Inl e
           | Inr v \<Rightarrow> eval_entries cols (AList.update col v out)))"

text \<open>
  The multivariate branch:
  \<^verbatim>\<open>
  for col in ("outlier_model", "normalizer"):
      if col in out:
          out[col] = out[col].apply(eval)
  \<close>
  \<^verbatim>\<open>col in out\<close> is the membership in the column labels of the table; \<^verbatim>\<open>apply(eval)\<close> calls
  \<^verbatim>\<open>eval\<close> on the cells of the column from the first row to the last.
\<close>

fun apply_eval :: "cell list \<Rightarrow> error + cell list" where
  "apply_eval [] = Inr []"
| "apply_eval (c # cs) =
     (case py_eval c of
        Inl e \<Rightarrow> Inl e
      | Inr v \<Rightarrow> (case apply_eval cs of Inl e \<Rightarrow> Inl e | Inr vs \<Rightarrow> Inr (v # vs)))"

fun column_position :: "string list \<Rightarrow> string \<Rightarrow> nat option" where
  "column_position [] col = None"
| "column_position (c # cs) col =
     (if c = col then Some 0 else map_option Suc (column_position cs col))"

definition cell_at :: "cell list \<Rightarrow> nat \<Rightarrow> cell" where
  "cell_at cells k = (if k < length cells then cells ! k else Missing)"

fun eval_table_columns :: "string list \<Rightarrow> DataFrame \<Rightarrow> error + DataFrame" where
  "eval_table_columns [] out = Inr out"
| "eval_table_columns (col # cols) out =
     (case column_position (columns out) col of
        None \<Rightarrow> eval_table_columns cols out
      | Some k \<Rightarrow>
          (case apply_eval (map (\<lambda>(label, cells). cell_at cells k) (rows out)) of
             Inl e \<Rightarrow> Inl e
           | Inr vs \<Rightarrow>
               eval_table_columns cols
                 (out\<lparr>rows := map (\<lambda>((label, cells), v). (label, cells[k := v]))
                                  (zip (rows out) vs)\<rparr>)))"

definition pandas_on :: "files \<Rightarrow> pandas" where
  "pandas_on fs =
     \<lparr>read_csv = pd_read_csv fs,
      n_columns = (\<lambda>df. length (columns df)),
      to_series = (\<lambda>df. eval_entries [''outlier_model'', ''normalizer''] (first_column df)),
      eval_columns = eval_table_columns [''outlier_model'', ''normalizer'']\<rparr>"

text \<open>
  \<^verbatim>\<open>
  def cache_measurement_metadata(self, fp: Path):
      if isinstance(self._measurement_metadata, (str, Path)):
          if str(fp) != str(self._measurement_metadata):
              raise ValueError(f"Caching is already enabled at {self._measurement_metadata} != {fp}")
          return
      if self.measurement_metadata is None:
          return
      fp.parent.mkdir(exist_ok=True, parents=True)
      self.measurement_metadata.to_csv(fp)
      self._measurement_metadata = str(fp)
  \<close>
  The result is the object and the file store after the call. Directories are not
  modelled.
\<close>

definition cache_measurement_metadata ::
  "files \<Rightarrow> MeasurementConfig \<Rightarrow> string \<Rightarrow> error + (MeasurementConfig \<times> files)"
where
  "cache_measurement_metadata fs self fp =
     (case measurement_metadata_slot self of
        AtPath p \<Rightarrow> if fp \<noteq> p then Inl (CachingAlreadyEnabled p fp) else Inr (self, fs)
      | AtStr p \<Rightarrow> if fp \<noteq> p then Inl (CachingAlreadyEnabled p fp) else Inr (self, fs)
      | NoMetadata \<Rightarrow> Inr (self, fs)
      | InFrame df \<Rightarrow>
          Inr (self\<lparr>measurement_metadata_slot := AtStr fp\<rparr>, fs(fp \<mapsto> DataFrame_to_csv df))
      | InSeries sr \<Rightarrow>
          Inr (self\<lparr>measurement_metadata_slot := AtStr fp\<rparr>, fs(fp \<mapsto> Series_to_csv sr)))"

text \<open>
  \<^verbatim>\<open>
  def uncache_measurement_metadata(self):
      if self._measurement_metadata is None:
          return
      if not isinstance(self._measurement_metadata, (str, Path)):
          raise ValueError("Caching is not enabled, can't uncache!")
      self._measurement_metadata = self.measurement_metadata
  \<close>
\<close>

definition uncache_measurement_metadata ::
  "files \<Rightarrow> MeasurementConfig \<Rightarrow> error + MeasurementConfig"
where
  "uncache_measurement_metadata fs self =
     (case measurement_metadata_slot self of
        NoMetadata \<Rightarrow> Inr self
      | InFrame _ \<Rightarrow> Inl CachingNotEnabled
      | InSeries _ \<Rightarrow> Inl CachingNotEnabled
      | _ \<Rightarrow>
          (case measurement_metadata (pandas_on fs) self of
             Inl e \<Rightarrow> Inl e
           | Inr m \<Rightarrow> Inr (self\<lparr>measurement_metadata_slot := m\<rparr>)))"

text \<open>
  \<^verbatim>\<open>add_empty_metadata\<close>: a series of \<^verbatim>\<open>None\<close> indexed by the preprocessing metadata columns
  for a univariate measurement, a table without rows for a multivariate one.
  \<^verbatim>\<open>
  if self.measurement_metadata is not None: raise ValueError(...)
  match self.modality:
      case DataModality.UNIVARIATE_REGRESSION:
          self._measurement_metadata = pd.Series(
              [None] * len(self.PREPROCESSING_METADATA_COLUMNS),
              index=self.PREPROCESSING_METADATA_COLUMNS, dtype=object)
      case DataModality.MULTIVARIATE_REGRESSION:
          self._measurement_metadata = pd.DataFrame(
              {c: pd.Series([], dtype=t) for c, t in self.PREPROCESSING_METADATA_COLUMNS.items()},
              index=pd.Index([], name=self.name))
      case _: raise ValueError(f"Can't add metadata to a {self.modality} measure!")
  \<close>
\<close>

definition PREPROCESSING_METADATA_COLUMNS :: "string list" where
  "PREPROCESSING_METADATA_COLUMNS = [''value_type'', ''outlier_model'', ''normalizer'']"

definition add_empty_metadata :: "files \<Rightarrow> MeasurementConfig \<Rightarrow> error + MeasurementConfig" where
  "add_empty_metadata fs self =
     (case measurement_metadata (pandas_on fs) self of
        Inl e \<Rightarrow> Inl e
      | Inr m \<Rightarrow>
          if m \<noteq> NoMetadata then Inl MetadataAlreadySet
          else
            (case modality self of
               Some UNIVARIATE_REGRESSION \<Rightarrow>
                 Inr (self\<lparr>measurement_metadata_slot :=
                        InSeries (map (\<lambda>c. (c, Missing)) PREPROCESSING_METADATA_COLUMNS)\<rparr>)
             | Some MULTIVARIATE_REGRESSION \<Rightarrow>
                 Inr (self\<lparr>measurement_metadata_slot :=
                        InFrame \<lparr>index_name = name self,
                                 columns = PREPROCESSING_METADATA_COLUMNS, rows = []\<rparr>\<rparr>)
             | _ \<Rightarrow> Inl CantAddMetadata))"

section \<open>Example sources\<close>

text \<open>
  A static source, an event source whose timestamp column is also a column of its data
  schema, and a range source with a shared data schema. \<open>arg_subject_id_col\<close> is the
  \<^verbatim>\<open>subject_id_col\<close> a source is passed to \<^verbatim>\<open>DatasetSchema\<close> with.
\<close>

definition static_kwargs :: InputDFSchema_fields where
  "static_kwargs =
     \<lparr>input_df = PStr ''subjects.csv'', type = Some STATIC, event_type = PNone,
      subject_id_col = Some ''subject_id'', ts_col = PNone, start_ts_col = PNone,
      end_ts_col = PNone, ts_format = None, start_ts_format = None, end_ts_format = None,
      data_schema = PTuple [PStr ''sex'', PEnum CATEGORICAL],
      start_data_schema = PNone, end_data_schema = PNone, must_have = []\<rparr>"

definition event_kwargs :: InputDFSchema_fields where
  "event_kwargs =
     \<lparr>input_df = PStr ''events.csv'', type = Some EVENT, event_type = PStr ''VISIT'',
      subject_id_col = None, ts_col = PStr ''ts'', start_ts_col = PNone, end_ts_col = PNone,
      ts_format = None, start_ts_format = None, end_ts_format = None,
      data_schema = PTuple [PStr ''ts'', PEnum FLOAT],
      start_data_schema = PNone, end_data_schema = PNone, must_have = []\<rparr>"

definition range_kwargs :: InputDFSchema_fields where
  "range_kwargs =
     \<lparr>input_df = PStr ''stays.csv'', type = Some RANGE, event_type = PStr ''X'',
      subject_id_col = None, ts_col = PNone, start_ts_col = PStr ''admit'',
      end_ts_col = PStr ''discharge'', ts_format = None, start_ts_format = None,
      end_ts_format = None, data_schema = PTuple [PStr ''ward'', PEnum CATEGORICAL],
      start_data_schema = PNone, end_data_schema = PNone, must_have = []\<rparr>"

definition arg_subject_id_col :: "schema_arg \<Rightarrow> string option" where
  "arg_subject_id_col a = (case a of PlainDict kw \<Rightarrow> subject_id_col kw | Schema s \<Rightarrow> subject_id_col s)"

text \<open>
  An event source object whose \<^verbatim>\<open>subject_id_col\<close> was assigned after its construction (the
  constructor rejects it on an event source).
\<close>

definition event_other_subject :: InputDFSchema where
  "event_other_subject = (init_self event_kwargs [])\<lparr>subject_id_col := Some ''patient''\<rparr>"

text \<open>
  A dynamic measurement of single-label modality, and a functor whose output modality is
  univariate regression.
\<close>

definition dynamic_single_label :: MeasurementConfig where
  "dynamic_single_label =
     \<lparr>name = Some ''diagnosis'', temporality = Some DYNAMIC,
      modality = Some SINGLE_LABEL_CLASSIFICATION, observation_frequency = None,
      functor = None, vocabulary = None, values_column = None,
      measurement_metadata_slot = NoMetadata\<rparr>"

definition age_functor :: TimeDependentFunctor where
  "age_functor = \<lparr>functor_class = ''AgeFunctor'', OUTPUT_MODALITY = UNIVARIATE_REGRESSION\<rparr>"

text \<open>
  A univariate and a multivariate dynamic measurement without metadata, the series that
  \<^verbatim>\<open>add_empty_metadata\<close> gives the first, a series and a table whose outlier model and
  normalizer cells are set, and a table with a row whose outlier model and normalizer are
  missing.
\<close>

definition lab_config :: MeasurementConfig where
  "lab_config =
     \<lparr>name = Some ''lab'', temporality = Some DYNAMIC,
      modality = Some UNIVARIATE_REGRESSION, observation_frequency = None,
      functor = None, vocabulary = None, values_column = None,
      measurement_metadata_slot = NoMetadata\<rparr>"

definition vitals_config :: MeasurementConfig where
  "vitals_config =
     \<lparr>name = Some ''vitals'', temporality = Some DYNAMIC,
      modality = Some MULTIVARIATE_REGRESSION, observation_frequency = None,
      functor = None, vocabulary = None, values_column = Some ''value'',
      measurement_metadata_slot = NoMetadata\<rparr>"

definition empty_series :: Series where
  "empty_series =
     [(''value_type'', Missing), (''outlier_model'', Missing), (''normalizer'', Missing)]"

definition fitted_series :: Series where
  "fitted_series =
     [(''value_type'', Text ''float''),
      (''outlier_model'', Object ''{'thresh_large_': 10.0, 'thresh_small_': -10.0}''),
      (''normalizer'', Object ''{'mean_': 1.5, 'std_': 0.5}'')]"

definition unfitted_table :: DataFrame where
  "unfitted_table =
     \<lparr>index_name = Some ''vitals'',
      columns = [''value_type'', ''outlier_model'', ''normalizer''],
      rows = [(''HR'', [Text ''float'', Missing, Missing])]\<rparr>"

section \<open>The unifier as a sequence of column operations\<close>

text \<open>
  For the proofs, one schema shorthand is read as the list of the calls of
  \<^verbatim>\<open>__add_to_schema\<close> it makes, in order: a call is either an error that does not depend
  on the mapping (a shape that is not processable, a column name that is not a string) or
  the assignment \<open>put\<close> of a source column to its pair, which fails on a conflict. \<open>run\<close>
  executes the list and stops at the first error. The lemma \<open>add_schema_run\<close> below shows
  that \<open>add_schema\<close> is \<open>run\<close> on \<open>schema_ops\<close>.

  Every type the unifier stores is an instance of \<^verbatim>\<open>str\<close> or a timestamp with a format
  (\<open>dt_shaped\<close>); on these, \<^verbatim>\<open>==\<close> is the equality of \<open>dt_key\<close> (the kind of sequence and
  the text), so it is an equivalence. \<open>kmap\<close> is a mapping up to \<^verbatim>\<open>==\<close>, and \<open>compat\<close> says
  that two mappings agree on the columns they share.
\<close>

type_synonym column_op = "error + (string \<times> (string \<times> pyval))"

definition column_op :: "pyval \<Rightarrow> pyval \<Rightarrow> pyval \<Rightarrow> column_op" where
  "column_op in_col dt out_col0 =
     (let out_col = (if out_col0 = PNone then in_col else out_col0) in
      case (in_col, out_col) of
        (PStr i, PStr out) \<Rightarrow> Inr (i, (out, dt))
      | _ \<Rightarrow> Inl (ColumnNamesMustBeStrings in_col out_col))"

definition put :: "container \<Rightarrow> string \<times> (string \<times> pyval) \<Rightarrow> error + container" where
  "put us ip =
     (case map_of us (fst ip) of
        Some existing \<Rightarrow>
          if same_mapping existing (snd ip) then Inr (AList.update (fst ip) (snd ip) us)
          else Inl (ColumnRepeated (fst ip))
      | None \<Rightarrow> Inr (AList.update (fst ip) (snd ip) us))"

fun run :: "container \<Rightarrow> column_op list \<Rightarrow> error + container" where
  "run us [] = Inr us"
| "run us (Inl e # ops) = Inl e"
| "run us (Inr ip # ops) = (case put us ip of Inl e \<Rightarrow> Inl e | Inr us' \<Rightarrow> run us' ops)"

definition schema_info_op :: "pyval \<Rightarrow> pyval \<Rightarrow> column_op" where
  "schema_info_op in_col schema_info =
     (case sequence_items schema_info of
        Some [out_col, dt] \<Rightarrow>
          if is_str out_col \<and> is_str dt
            then Inl (EnumHasNoValues ''InputDataType'')
          else if is_str out_col \<and> is_InputDataType dt
            then column_op in_col dt out_col
          else if is_str out_col \<and> is_timestamp_with_format dt
            then column_op in_col dt out_col
          else if is_timestamp_with_format schema_info
            then column_op in_col schema_info PNone
          else Inl (SchemaUnprocessable schema_info)
      | _ \<Rightarrow>
          if is_str schema_info
            then Inl (EnumHasNoValues ''InputDataType'')
          else Inl (SchemaUnprocessable schema_info))"

definition schema_ops :: "pyval \<Rightarrow> column_op list" where
  "schema_ops schema =
     (case schema of
        PDict items \<Rightarrow> map (\<lambda>(in_col, schema_info). schema_info_op in_col schema_info) items
      | _ \<Rightarrow>
          (case sequence_items schema of
             Some [cols, dt] \<Rightarrow>
               if is_str cols \<and> is_dt dt then [column_op cols dt PNone]
               else
                 (case cols of
                    PList cs \<Rightarrow>
                      if is_dt dt then map (\<lambda>c. column_op c dt PNone) cs
                      else [Inl (SchemaUnprocessable schema)]
                  | PDict col_names_map \<Rightarrow>
                      if is_dt dt
                      then map (\<lambda>(in_col, out_col). column_op in_col dt out_col) col_names_map
                      else [Inl (SchemaUnprocessable schema)]
                  | _ \<Rightarrow> [Inl (SchemaUnprocessable schema)])
           | _ \<Rightarrow> [Inl (SchemaUnprocessable schema)]))"

definition dt_shaped :: "pyval \<Rightarrow> bool" where
  "dt_shaped v = (is_str v \<or> is_timestamp_with_format v)"

definition the_str :: "pyval \<Rightarrow> string" where
  "the_str v = (case str_of v of Some s \<Rightarrow> s | None \<Rightarrow> [])"

definition dt_key :: "pyval \<Rightarrow> nat \<times> string" where
  "dt_key v =
     (case v of
        PList [x, y] \<Rightarrow> (1, the_str y)
      | PTuple [x, y] \<Rightarrow> (2, the_str y)
      | _ \<Rightarrow> (0, the_str v))"

definition good_op :: "column_op \<Rightarrow> bool" where
  "good_op op = (case op of Inl _ \<Rightarrow> True | Inr ip \<Rightarrow> dt_shaped (snd (snd ip)))"

definition good :: "container \<Rightarrow> bool" where
  "good us = list_all (\<lambda>ip. dt_shaped (snd (snd ip))) us"

definition kmap :: "container \<Rightarrow> string \<Rightarrow> (string \<times> nat \<times> string) option" where
  "kmap us = map_option (\<lambda>p. (fst p, dt_key (snd p))) \<circ> map_of us"

definition compat ::
  "(string \<Rightarrow> (string \<times> nat \<times> string) option) \<Rightarrow> (string \<Rightarrow> (string \<times> nat \<times> string) option) \<Rightarrow> bool"
where
  "compat f g = (\<forall>i k k'. f i = Some k \<and> g i = Some k' \<longrightarrow> k = k')"

section \<open>Properties of VocabularyConfig\<close>

lemma py_min_Min: "xs \<noteq> [] \<Longrightarrow> py_min xs = Inr (Min (set xs))"
proof (cases xs)
  case Nil
  assume "xs \<noteq> []"
  with Nil show ?thesis by simp
next
  case (Cons x ys)
  have "fold min ys x = Min (set (x # ys))" by (rule Min.set_eq_fold [symmetric])
  with Cons show ?thesis by simp
qed

lemma count_missing_keys:
  assumes "distinct ks" and "distinct ls" and "set ks \<subseteq> set ls"
  shows "int (length (filter (\<lambda>k. k \<notin> set ks) ls)) = int (length ls) - int (length ks)"
proof -
  have "length (filter (\<lambda>k. k \<notin> set ks) ls) = card (set ls - set ks)"
  proof -
    have "set (filter (\<lambda>k. k \<notin> set ks) ls) = set ls - set ks" by auto
    moreover have "distinct (filter (\<lambda>k. k \<notin> set ks) ls)" using assms(2) by simp
    ultimately show ?thesis by (metis distinct_card)
  qed
  also have "\<dots> = card (set ls) - card (set ks)"
    using assms(3) by (simp add: card_Diff_subset)
  also have "\<dots> = length ls - length ks"
    using assms(1,2) by (simp add: distinct_card)
  finally have "length (filter (\<lambda>k. k \<notin> set ks) ls) = length ls - length ks" .
  moreover have "length ks \<le> length ls"
    using assms by (metis card_mono distinct_card List.finite_set)
  ultimately show ?thesis by simp
qed

text \<open>
  Claim C3, as amended. When both dictionaries are set, the offsets dictionary is not empty
  and every measurement with a size entry also has an offset entry, \<open>total_vocab_size\<close> is
  the sum of the sizes, plus the smallest offset, plus the number of measurements that have
  an offset entry but no size entry. (The source adds the difference of the two lengths,
  which is that number only under the inclusion of the keys.)
\<close>

theorem total_vocab_size_formula:
  assumes "vocab_sizes_by_measurement self = Some sizes"
    and "vocab_offsets_by_measurement self = Some offsets"
    and "offsets \<noteq> []"
    and "distinct (map fst sizes)"
    and "distinct (map fst offsets)"
    and "set (map fst sizes) \<subseteq> set (map fst offsets)"
  shows "total_vocab_size self =
           Inr (sum_list (map snd sizes) + Min (set (map snd offsets))
                + int (length (filter (\<lambda>k. k \<notin> set (map fst sizes)) (map fst offsets))))"
proof -
  have m: "py_min (map snd offsets) = Inr (Min (set (map snd offsets)))"
    using assms(3) by (simp add: py_min_Min)
  have c: "int (length (filter (\<lambda>k. k \<notin> set (map fst sizes)) (map fst offsets)))
             = int (length offsets) - int (length sizes)"
    using count_missing_keys [OF assms(4) assms(5) assms(6)] by simp
  show ?thesis
    unfolding total_vocab_size_def using assms(1,2) m c by simp
qed

text \<open>
  The example of the docstring and of the spec: sizes \<open>{a: 10, b: 3}\<close> and offsets
  \<open>{a: 5, b: 15, c: 18}\<close> give 19.
\<close>

theorem total_vocab_size_formula_witness:
  "total_vocab_size
     \<lparr>vocab_sizes_by_measurement = Some [(''a'', 10), (''b'', 3)],
      vocab_offsets_by_measurement = Some [(''a'', 5), (''b'', 15), (''c'', 18)],
      measurements_idxmap = None, measurements_per_generative_mode = None,
      event_types_idxmap = None\<rparr> = Inr 19"
  using total_vocab_size_formula
    [of "\<lparr>vocab_sizes_by_measurement = Some [(''a'', 10), (''b'', 3)],
          vocab_offsets_by_measurement = Some [(''a'', 5), (''b'', 15), (''c'', 18)],
          measurements_idxmap = None, measurements_per_generative_mode = None,
          event_types_idxmap = None\<rparr>"
        "[(''a'', 10), (''b'', 3)]" "[(''a'', 5), (''b'', 15), (''c'', 18)]"]
  by simp

text \<open>
  Claim C3 as stated fails when a measurement has a size entry and no offset entry: for sizes
  \<open>{a: 10, b: 3}\<close> and offsets \<open>{a: 5}\<close> no measurement has an offset entry without a size
  entry, so the claimed value is 10 + 3 + 5 + 0 = 18, and the source returns 17.
\<close>

theorem total_vocab_size_counterexample:
  "total_vocab_size
     \<lparr>vocab_sizes_by_measurement = Some [(''a'', 10), (''b'', 3)],
      vocab_offsets_by_measurement = Some [(''a'', 5)],
      measurements_idxmap = None, measurements_per_generative_mode = None,
      event_types_idxmap = None\<rparr> = Inr 17
   \<and> sum_list (map snd [(''a'', 10), (''b'', 3)]) + Min (set (map snd [(''a'', 5)]))
       + int (length (filter (\<lambda>k. k \<notin> set (map fst [(''a'', 10 :: int), (''b'', 3)]))
                        (map fst [(''a'', 5 :: int)]))) = (18 :: int)"
  by (simp add: total_vocab_size_def)

text \<open>
  Claim C10. \<open>total_vocab_size\<close> is partial: it raises \<^verbatim>\<open>AttributeError\<close> when either
  dictionary is \<^verbatim>\<open>None\<close>, it raises the \<^verbatim>\<open>ValueError\<close> of \<^verbatim>\<open>min\<close> when the offsets dictionary
  is empty, and it returns a value exactly when both dictionaries are set and the offsets
  dictionary is not empty.
\<close>

theorem total_vocab_size_partial:
  "(vocab_sizes_by_measurement self = None \<or> vocab_offsets_by_measurement self = None
      \<longrightarrow> total_vocab_size self = Inl NoneHasNoAttribute)
   \<and> (vocab_sizes_by_measurement self \<noteq> None \<and> vocab_offsets_by_measurement self = Some []
      \<longrightarrow> total_vocab_size self = Inl MinEmptySequence)
   \<and> ((\<exists>v. total_vocab_size self = Inr v) \<longleftrightarrow>
        (\<exists>sizes offsets. vocab_sizes_by_measurement self = Some sizes
           \<and> vocab_offsets_by_measurement self = Some offsets \<and> offsets \<noteq> []))"
proof (cases "vocab_sizes_by_measurement self")
  case None
  then show ?thesis by (simp add: total_vocab_size_def)
next
  case sizes: (Some sizes)
  show ?thesis
  proof (cases "vocab_offsets_by_measurement self")
    case None
    with sizes show ?thesis by (simp add: total_vocab_size_def)
  next
    case offsets: (Some offsets)
    show ?thesis
    proof (cases offsets)
      case Nil
      with sizes offsets show ?thesis by (simp add: total_vocab_size_def)
    next
      case (Cons p ps)
      with sizes offsets show ?thesis by (simp add: total_vocab_size_def)
    qed
  qed
qed

theorem total_vocab_size_partial_witness:
  "total_vocab_size
     \<lparr>vocab_sizes_by_measurement = None, vocab_offsets_by_measurement = None,
      measurements_idxmap = None, measurements_per_generative_mode = None,
      event_types_idxmap = None\<rparr> = Inl NoneHasNoAttribute
   \<and> total_vocab_size
     \<lparr>vocab_sizes_by_measurement = Some [], vocab_offsets_by_measurement = Some [],
      measurements_idxmap = None, measurements_per_generative_mode = None,
      event_types_idxmap = None\<rparr> = Inl MinEmptySequence
   \<and> (\<exists>v. total_vocab_size
     \<lparr>vocab_sizes_by_measurement = Some [], vocab_offsets_by_measurement = Some [(''a'', 1)],
      measurements_idxmap = None, measurements_per_generative_mode = None,
      event_types_idxmap = None\<rparr> = Inr v)"
  using total_vocab_size_partial
    [of "\<lparr>vocab_sizes_by_measurement = None, vocab_offsets_by_measurement = None,
          measurements_idxmap = None, measurements_per_generative_mode = None,
          event_types_idxmap = None\<rparr>"]
    total_vocab_size_partial
    [of "\<lparr>vocab_sizes_by_measurement = Some [], vocab_offsets_by_measurement = Some [],
          measurements_idxmap = None, measurements_per_generative_mode = None,
          event_types_idxmap = None\<rparr>"]
    total_vocab_size_partial
    [of "\<lparr>vocab_sizes_by_measurement = Some [],
          vocab_offsets_by_measurement = Some [(''a'', 1)],
          measurements_idxmap = None, measurements_per_generative_mode = None,
          event_types_idxmap = None\<rparr>"]
  by simp

section \<open>Properties of InputDFSchema\<close>

lemmas schema_defs =
  post_init_def init_self_def wrap_schema_def check_static_def check_event_def check_range_def
  range_event_type_def range_data_schemas_def range_timestamps_def columns_to_load_def
  schema_columns_def unified_schema_def unified_event_schema_def unified_eq_schema_def
  unified_start_schema_def unified_end_schema_def extend_or_append_def timestamp_columns_def
  unify_schema_def iterate_def add_schema_def add_schema_info_def add_to_schema_def
  same_mapping_def is_dt_def is_timestamp_with_format_def

lemmas dataset_defs =
  DatasetSchema_post_init_def DatasetSchema_to_dict_def DatasetSchema_from_dict_def
  InputDFSchema_to_dict_def InputDFSchema_from_dict_def is_static_def
  InputDFSchema_fields.truncate_def

lemma post_init_InrD:
  assumes "post_init kw = Inr self"
  shows "input_df kw \<noteq> PNone \<and>
         (\<exists>t f. type kw = Some t \<and> add_filters [] (must_have kw) = Inr f \<and>
            (case t of STATIC \<Rightarrow> check_static (init_self kw f)
                     | EVENT \<Rightarrow> check_event (init_self kw f)
                     | RANGE \<Rightarrow> check_range (init_self kw f)) = Inr self)"
  using assms unfolding post_init_def
  by (auto split: if_splits option.splits sum.splits)

lemma check_static_InrD:
  "check_static s = Inr s' \<Longrightarrow> s' = s \<and> subject_id_col s \<noteq> None"
  unfolding check_static_def by (auto split: if_splits)

lemma check_event_InrD:
  "check_event s = Inr s' \<Longrightarrow> s' = s \<and> subject_id_col s = None"
  unfolding check_event_def by (auto split: if_splits)

lemma range_data_schemas_InrD:
  assumes "range_data_schemas s = Inr s'"
  shows "event_type s' = event_type s \<and> type s' = type s \<and> subject_id_col s' = subject_id_col s
         \<and> data_schema s' = data_schema s
         \<and> (data_schema s \<noteq> PNone \<longrightarrow>
              start_data_schema s = PNone \<and> end_data_schema s = PNone
              \<and> start_data_schema s' = data_schema s \<and> end_data_schema s' = data_schema s)"
  using assms unfolding range_data_schemas_def by (auto split: if_splits)

lemma range_timestamps_InrD:
  assumes "range_timestamps s = Inr s'"
  shows "event_type s' = event_type s \<and> type s' = type s \<and> subject_id_col s' = None
         \<and> data_schema s' = data_schema s \<and> start_data_schema s' = start_data_schema s
         \<and> end_data_schema s' = end_data_schema s"
  using assms unfolding range_timestamps_def by (auto split: if_splits)

lemma check_range_InrD:
  assumes "check_range s = Inr s'"
  shows "range_event_type (event_type s) = Inr (event_type s') \<and> type s' = type s
         \<and> subject_id_col s' = None \<and> data_schema s' = data_schema s
         \<and> (data_schema s \<noteq> PNone \<longrightarrow>
              start_data_schema s = PNone \<and> end_data_schema s = PNone
              \<and> start_data_schema s' = data_schema s \<and> end_data_schema s' = data_schema s)"
proof -
  from assms obtain et s1 where et: "range_event_type (event_type s) = Inr et"
    and s1: "range_data_schemas (s\<lparr>event_type := et\<rparr>) = Inr s1"
    and s': "range_timestamps s1 = Inr s'"
    unfolding check_range_def by (auto split: sum.splits)
  from range_data_schemas_InrD [OF s1] range_timestamps_InrD [OF s'] et
  show ?thesis by simp
qed

lemma post_init_not_static:
  assumes "post_init kw = Inr v" and "\<not> is_static v"
  shows "subject_id_col kw = None \<and> subject_id_col v = None"
proof -
  from post_init_InrD [OF assms(1)] obtain t f where t: "type kw = Some t"
    and c: "(case t of STATIC \<Rightarrow> check_static (init_self kw f)
                     | EVENT \<Rightarrow> check_event (init_self kw f)
                     | RANGE \<Rightarrow> check_range (init_self kw f)) = Inr v"
    by blast
  show ?thesis
  proof (cases t)
    case STATIC
    with c have "v = init_self kw f" by (simp add: check_static_InrD)
    with t STATIC assms(2) show ?thesis by (simp add: is_static_def init_self_def)
  next
    case EVENT
    with c have "v = init_self kw f \<and> subject_id_col (init_self kw f) = None"
      by (simp add: check_event_InrD)
    then show ?thesis by (simp add: init_self_def)
  next
    case RANGE
    with c have r: "check_range (init_self kw f) = Inr v" by simp
    have "subject_id_col v = None" using check_range_InrD [OF r] by simp
    moreover have "subject_id_col kw = None"
      using r unfolding check_range_def range_data_schemas_def range_timestamps_def init_self_def
      by (auto split: sum.splits if_splits)
    ultimately show ?thesis by simp
  qed
qed


lemma wrap_schema_None: "wrap_schema ds = PNone \<longleftrightarrow> ds = PNone"
  by (cases ds) (simp_all add: wrap_schema_def)

lemma wrap_schema_PNone: "wrap_schema PNone = PNone"
  by (simp add: wrap_schema_def)

lemma range_event_type_idem:
  assumes "range_event_type x = Inr et"
  shows "range_event_type et = Inr et"
proof (cases "sequence_items x")
  case None
  with assms obtain t where "str_of x = Some t"
    and et: "et = PTuple [x, PStr (t @ ''_START''), PStr (t @ ''_END'')]"
    by (auto simp: range_event_type_def split: if_splits option.splits)
  then have "is_str x" by (cases x) auto
  with et show ?thesis by (simp add: range_event_type_def)
next
  case (Some xs)
  with assms have "et = x"
    by (auto simp: range_event_type_def split: if_splits list.splits)
  with assms show ?thesis by simp
qed

text \<open>
  Claim C9. \<open>columns_to_load\<close> does not compare the timestamp columns with the columns
  of the data schema: the event source \<open>event_kwargs\<close>, whose \<^verbatim>\<open>ts_col\<close> is also a source
  column of its \<^verbatim>\<open>data_schema\<close>, is constructed without error, and its \<open>columns_to_load\<close>
  lists the column \<^verbatim>\<open>ts\<close> twice, once with the type of the data schema and once with the
  timestamp type.
\<close>

theorem columns_to_load_repeats_ts_col:
  "post_init event_kwargs = Inr (init_self event_kwargs [])
   \<and> type (init_self event_kwargs []) = Some EVENT
   \<and> ts_col (init_self event_kwargs []) = PStr ''ts''
   \<and> unified_schema (init_self event_kwargs []) = Inr (Unified [(''ts'', (''ts'', PEnum FLOAT))])
   \<and> columns_to_load (init_self event_kwargs [])
       = Inr [(PStr ''ts'', PEnum FLOAT), (PStr ''ts'', PEnum TIMESTAMP)]"
  by (simp add: event_kwargs_def schema_defs)

subsection \<open>The event type of a range source\<close>

lemma init_self_event_type:
  "init_self (kw\<lparr>event_type := et\<rparr>) f = (init_self kw f)\<lparr>event_type := et\<rparr>"
  by (simp add: init_self_def)

lemma check_range_accepted:
  assumes "range_event_type et = Inr r"
  shows "check_range (s\<lparr>event_type := et\<rparr>) = check_range (s\<lparr>event_type := r\<rparr>)"
  using assms range_event_type_idem [OF assms] by (simp add: check_range_def)

lemma range_data_schemas_event_type:
  "range_data_schemas (s\<lparr>event_type := r\<rparr>)
     = (case range_data_schemas s of Inl e \<Rightarrow> Inl e | Inr t \<Rightarrow> Inr (t\<lparr>event_type := r\<rparr>))"
  by (simp add: range_data_schemas_def)

lemma range_timestamps_event_type:
  "range_timestamps (s\<lparr>event_type := r\<rparr>)
     = (case range_timestamps s of Inl e \<Rightarrow> Inl e | Inr t \<Rightarrow> Inr (t\<lparr>event_type := r\<rparr>))"
  by (simp add: range_timestamps_def)

lemma unified_schema_event_type:
  "unified_schema (s\<lparr>event_type := r\<rparr>) = unified_schema s"
proof -
  have "unified_eq_schema (s\<lparr>event_type := r\<rparr>) = unified_eq_schema s"
    "unified_start_schema (s\<lparr>event_type := r\<rparr>) = unified_start_schema s"
    "unified_end_schema (s\<lparr>event_type := r\<rparr>) = unified_end_schema s"
    "unified_event_schema (s\<lparr>event_type := r\<rparr>) = unified_event_schema s"
    by (simp_all add: unified_event_schema_def unified_eq_schema_def unified_start_schema_def
        unified_end_schema_def)
  then show ?thesis
    by (simp add: unified_schema_def split: option.split InputDFType.split sum.split)
qed

lemma columns_to_load_event_type:
  "columns_to_load (s\<lparr>event_type := r\<rparr>) = columns_to_load s"
  by (simp add: columns_to_load_def schema_columns_def unified_schema_event_type
      split: option.split sum.split)

lemma check_range_event_type:
  assumes "range_event_type r1 = Inr r1" and "range_event_type r2 = Inr r2"
  shows "check_range (s\<lparr>event_type := r2\<rparr>)
     = (case check_range (s\<lparr>event_type := r1\<rparr>) of
          Inl e \<Rightarrow> Inl e | Inr t \<Rightarrow> Inr (t\<lparr>event_type := r2\<rparr>))"
  using assms
  by (simp add: check_range_def range_data_schemas_event_type range_timestamps_event_type
      split: sum.splits)

lemma post_init_event_type_frame:
  assumes "type kw = Some RANGE"
    and "range_event_type et1 = Inr r1" and "range_event_type et2 = Inr r2"
  shows "post_init (kw\<lparr>event_type := et2\<rparr>)
     = (case post_init (kw\<lparr>event_type := et1\<rparr>) of
          Inl e \<Rightarrow> Inl e | Inr s \<Rightarrow> Inr (s\<lparr>event_type := r2\<rparr>))"
proof -
  note i1 = range_event_type_idem [OF assms(2)]
  note i2 = range_event_type_idem [OF assms(3)]
  have c: "check_range ((init_self kw f)\<lparr>event_type := et2\<rparr>)
     = (case check_range ((init_self kw f)\<lparr>event_type := et1\<rparr>) of
          Inl e \<Rightarrow> Inl e | Inr t \<Rightarrow> Inr (t\<lparr>event_type := r2\<rparr>))" for f
    using check_range_accepted [OF assms(2)] check_range_accepted [OF assms(3)]
      check_range_event_type [OF i1 i2] by simp
  show ?thesis
    using assms(1)
    by (simp add: post_init_def init_self_event_type c columns_to_load_event_type
        split: sum.splits)
qed


lemma range_event_type_accepts:
  "(\<exists>r. range_event_type et = Inr r) \<longleftrightarrow>
     (is_str et \<or> (\<exists>a b c. sequence_items et = Some [a, b, c] \<and> is_str a \<and> is_str b \<and> is_str c))"
proof (cases "sequence_items et")
  case None
  then show ?thesis
    by (cases et) (auto simp: range_event_type_def)
next
  case (Some xs)
  then have "\<not> is_str et" by (cases et) auto
  moreover have "et \<noteq> PNone" using Some by (cases et) auto
  ultimately show ?thesis using Some
    by (auto simp: range_event_type_def split: list.splits)
qed

lemma range_event_type_error:
  assumes "\<not> (\<exists>r. range_event_type et = Inr r)"
  shows "range_event_type et
           = Inl (if et = PNone then RangeMissingEventType else RangeEventTypeShape et)"
proof -
  from assms have ns: "\<not> is_str et"
    and n3: "\<forall>a b c. sequence_items et = Some [a, b, c] \<longrightarrow> \<not> (is_str a \<and> is_str b \<and> is_str c)"
    unfolding range_event_type_accepts by blast+
  from ns have "str_of et = None" by (cases et) auto
  with n3 show ?thesis
    unfolding range_event_type_def by (auto split: option.splits list.splits)
qed

lemma post_init_event_type_rejected:
  assumes "type kw = Some RANGE" and "\<not> (\<exists>r. range_event_type (event_type kw) = Inr r)"
  shows "(\<exists>e. post_init kw = Inl e)
         \<and> (input_df kw \<noteq> PNone \<and> (\<exists>f. add_filters [] (must_have kw) = Inr f) \<longrightarrow>
              post_init kw = Inl (if event_type kw = PNone then RangeMissingEventType
                                  else RangeEventTypeShape (event_type kw)))"
proof -
  note e = range_event_type_error [OF assms(2)]
  have c: "check_range (init_self kw f)
             = Inl (if event_type kw = PNone then RangeMissingEventType
                    else RangeEventTypeShape (event_type kw))" for f
    using e by (simp add: check_range_def init_self_def)
  show ?thesis
    using assms(1) by (auto simp: post_init_def c split: sum.splits)
qed

text \<open>
  Claim C4, as amended. For a range source: an \<^verbatim>\<open>event_type\<close> that is a string \<open>x\<close> is
  treated exactly as the tuple \<open>(x, x_START, x_END)\<close>: the constructor returns for it what
  it returns for the tuple, and every constructed object holds the tuple. A sequence of
  three strings, tuple or list, is kept as it is. Whether the construction succeeds does
  not depend on which accepted \<^verbatim>\<open>event_type\<close> is given: for two accepted values the
  constructor raises the same error or returns objects that differ in \<^verbatim>\<open>event_type\<close> only.
  Every other shape, \<^verbatim>\<open>None\<close> included, is rejected at construction, with the error of the
  event type whenever \<^verbatim>\<open>input_df\<close> is set and every \<^verbatim>\<open>must_have\<close> filter is well formed.
\<close>

theorem range_event_type_expansion:
  assumes "type kw = Some RANGE"
  shows "(\<forall>x. event_type kw = PStr x \<longrightarrow>
            post_init kw
              = post_init (kw\<lparr>event_type :=
                               PTuple [PStr x, PStr (x @ ''_START''), PStr (x @ ''_END'')]\<rparr>)
            \<and> (\<forall>self. post_init kw = Inr self \<longrightarrow>
                 event_type self = PTuple [PStr x, PStr (x @ ''_START''), PStr (x @ ''_END'')]))
         \<and> (\<forall>a b c. sequence_items (event_type kw) = Some [a, b, c]
                \<and> is_str a \<and> is_str b \<and> is_str c \<longrightarrow>
            (\<forall>self. post_init kw = Inr self \<longrightarrow> event_type self = event_type kw))
         \<and> (\<forall>et1 r1 et2 r2.
               range_event_type et1 = Inr r1 \<and> range_event_type et2 = Inr r2 \<longrightarrow>
               post_init (kw\<lparr>event_type := et2\<rparr>)
                 = (case post_init (kw\<lparr>event_type := et1\<rparr>) of
                      Inl e \<Rightarrow> Inl e
                    | Inr self \<Rightarrow> Inr (self\<lparr>event_type := r2\<rparr>)))
         \<and> (\<not> is_str (event_type kw)
            \<and> (\<forall>a b c. sequence_items (event_type kw) = Some [a, b, c]
                  \<longrightarrow> \<not> (is_str a \<and> is_str b \<and> is_str c))
            \<longrightarrow> (\<exists>e. post_init kw = Inl e)
                \<and> (input_df kw \<noteq> PNone \<and> (\<exists>f. add_filters [] (must_have kw) = Inr f) \<longrightarrow>
                     post_init kw
                       = Inl (if event_type kw = PNone then RangeMissingEventType
                              else RangeEventTypeShape (event_type kw))))"
proof -
  have res: "range_event_type (event_type kw) = Inr (event_type self)"
    if "post_init kw = Inr self" for self
  proof -
    from post_init_InrD [OF that] assms obtain f
      where "check_range (init_self kw f) = Inr self" by auto
    from check_range_InrD [OF this] show ?thesis by (simp add: init_self_def)
  qed
  have str: "range_event_type (PStr x)
               = Inr (PTuple [PStr x, PStr (x @ ''_START''), PStr (x @ ''_END'')])" for x
    by (simp add: range_event_type_def)
  have tup: "range_event_type et = Inr et"
    if "sequence_items et = Some [a, b, c]" "is_str a" "is_str b" "is_str c" for et a b c
    using that by (cases et) (simp_all add: range_event_type_def)
  have frame: "post_init (kw\<lparr>event_type := et2\<rparr>)
                 = (case post_init (kw\<lparr>event_type := et1\<rparr>) of
                      Inl e \<Rightarrow> Inl e
                    | Inr self \<Rightarrow> Inr (self\<lparr>event_type := r2\<rparr>))"
    if "range_event_type et1 = Inr r1" "range_event_type et2 = Inr r2" for et1 r1 et2 r2
    using post_init_event_type_frame [OF assms that] .
  have c1: "post_init kw
              = post_init (kw\<lparr>event_type :=
                               PTuple [PStr x, PStr (x @ ''_START''), PStr (x @ ''_END'')]\<rparr>)
            \<and> (\<forall>self. post_init kw = Inr self \<longrightarrow>
                 event_type self = PTuple [PStr x, PStr (x @ ''_START''), PStr (x @ ''_END'')])"
    if x: "event_type kw = PStr x" for x
  proof
    let ?t = "PTuple [PStr x, PStr (x @ ''_START''), PStr (x @ ''_END'')]"
    have t: "range_event_type ?t = Inr ?t" by (simp add: range_event_type_def)
    have kw: "kw\<lparr>event_type := PStr x\<rparr> = kw" using x by simp
    have tt: "type (kw\<lparr>event_type := ?t\<rparr>) = Some RANGE" using assms by simp
    have keep: "self\<lparr>event_type := ?t\<rparr> = self"
      if "post_init (kw\<lparr>event_type := ?t\<rparr>) = Inr self" for self
    proof -
      from post_init_InrD [OF that] tt obtain f
        where "check_range (init_self (kw\<lparr>event_type := ?t\<rparr>) f) = Inr self" by auto
      from check_range_InrD [OF this] t have "event_type self = ?t"
        by (simp add: init_self_def)
      then show ?thesis by simp
    qed
    from frame [OF t str, of x] kw
    have "post_init kw = (case post_init (kw\<lparr>event_type := ?t\<rparr>) of
                      Inl e \<Rightarrow> Inl e
                    | Inr self \<Rightarrow> Inr (self\<lparr>event_type := ?t\<rparr>))" by simp
    then show "post_init kw = post_init (kw\<lparr>event_type := ?t\<rparr>)"
      using keep by (cases "post_init (kw\<lparr>event_type := ?t\<rparr>)") simp_all
    show "\<forall>self. post_init kw = Inr self \<longrightarrow> event_type self = ?t"
      using res str x by (metis sum.inject(2))
  qed
  have c2: "\<forall>a b c. sequence_items (event_type kw) = Some [a, b, c]
                \<and> is_str a \<and> is_str b \<and> is_str c \<longrightarrow>
            (\<forall>self. post_init kw = Inr self \<longrightarrow> event_type self = event_type kw)"
    using res tup by (metis sum.inject(2))
  have c4: "(\<exists>e. post_init kw = Inl e)
                \<and> (input_df kw \<noteq> PNone \<and> (\<exists>f. add_filters [] (must_have kw) = Inr f) \<longrightarrow>
                     post_init kw
                       = Inl (if event_type kw = PNone then RangeMissingEventType
                              else RangeEventTypeShape (event_type kw)))"
    if "\<not> is_str (event_type kw)
            \<and> (\<forall>a b c. sequence_items (event_type kw) = Some [a, b, c]
                  \<longrightarrow> \<not> (is_str a \<and> is_str b \<and> is_str c))"
  proof -
    from that have "\<not> (\<exists>r. range_event_type (event_type kw) = Inr r)"
      unfolding range_event_type_accepts by blast
    from post_init_event_type_rejected [OF assms this] show ?thesis .
  qed
  from c1 c2 frame c4 show ?thesis by blast
qed

theorem range_event_type_expansion_witness:
  "post_init range_kwargs
     = post_init (range_kwargs\<lparr>event_type := PTuple [PStr ''X'', PStr ''X_START'', PStr ''X_END'']\<rparr>)
   \<and> (\<exists>self. post_init range_kwargs = Inr self
         \<and> event_type self = PTuple [PStr ''X'', PStr ''X_START'', PStr ''X_END''])
   \<and> (\<exists>self. post_init (range_kwargs\<lparr>event_type := PList [PStr ''EQ'', PStr ''ST'', PStr ''EN'']\<rparr>)
                = Inr self
         \<and> event_type self = PList [PStr ''EQ'', PStr ''ST'', PStr ''EN''])
   \<and> post_init (range_kwargs\<lparr>event_type := PNone\<rparr>) = Inl RangeMissingEventType
   \<and> post_init (range_kwargs\<lparr>event_type := PTuple [PStr ''A'', PStr ''B'']\<rparr>)
       = Inl (RangeEventTypeShape (PTuple [PStr ''A'', PStr ''B'']))"
proof -
  let ?l = "PList [PStr ''EQ'', PStr ''ST'', PStr ''EN'']"
  have ty: "type range_kwargs = Some RANGE" by (simp add: range_kwargs_def)
  have ev: "event_type range_kwargs = PStr ''X''" by (simp add: range_kwargs_def)
  have kw: "range_kwargs\<lparr>event_type := PStr ''X''\<rparr> = range_kwargs" by (simp add: range_kwargs_def)
  note t = range_event_type_expansion [OF ty]
  from t [THEN conjunct1, rule_format, OF ev]
  have a: "post_init range_kwargs
     = post_init (range_kwargs\<lparr>event_type := PTuple [PStr ''X'', PStr ''X_START'', PStr ''X_END'']\<rparr>)"
    and a': "\<And>self. post_init range_kwargs = Inr self \<Longrightarrow>
               event_type self = PTuple [PStr ''X'', PStr ''X_START'', PStr ''X_END'']"
    by simp_all
  have "\<exists>self. post_init range_kwargs = Inr self"
    by (simp add: range_kwargs_def schema_defs)
  then obtain s1 where s1: "post_init range_kwargs = Inr s1" by blast
  have r1: "range_event_type (PStr ''X'')
              = Inr (PTuple [PStr ''X'', PStr ''X_START'', PStr ''X_END''])"
    by (simp add: range_event_type_def)
  have r2: "range_event_type ?l = Inr ?l" by (simp add: range_event_type_def)
  from t [THEN conjunct2, THEN conjunct2, THEN conjunct1, rule_format, OF conjI [OF r1 r2]] kw s1
  have s2: "post_init (range_kwargs\<lparr>event_type := ?l\<rparr>) = Inr (s1\<lparr>event_type := ?l\<rparr>)"
    by simp
  have b: "\<exists>self. post_init (range_kwargs\<lparr>event_type := ?l\<rparr>) = Inr self \<and> event_type self = ?l"
    using s2 by simp
  have tn: "type (range_kwargs\<lparr>event_type := PNone\<rparr>) = Some RANGE" by (simp add: range_kwargs_def)
  have c: "post_init (range_kwargs\<lparr>event_type := PNone\<rparr>) = Inl RangeMissingEventType"
    using range_event_type_expansion [OF tn, THEN conjunct2, THEN conjunct2, THEN conjunct2]
    by (simp add: range_kwargs_def)
  have tp: "type (range_kwargs\<lparr>event_type := PTuple [PStr ''A'', PStr ''B'']\<rparr>) = Some RANGE"
    by (simp add: range_kwargs_def)
  have d: "post_init (range_kwargs\<lparr>event_type := PTuple [PStr ''A'', PStr ''B'']\<rparr>)
       = Inl (RangeEventTypeShape (PTuple [PStr ''A'', PStr ''B'']))"
    using range_event_type_expansion [OF tp, THEN conjunct2, THEN conjunct2, THEN conjunct2]
    by (simp add: range_kwargs_def)
  from a a' [OF s1] s1 b c d show ?thesis by blast
qed

text \<open>
  Claim C4 as stated fails: a range source with a string \<^verbatim>\<open>event_type\<close> and no
  \<^verbatim>\<open>start_ts_col\<close> is not constructed; and a list of three strings, which is neither a
  string nor a tuple, is accepted and kept as a list.
\<close>

theorem range_event_type_counterexample:
  "type (range_kwargs\<lparr>start_ts_col := PNone\<rparr>) = Some RANGE
   \<and> event_type (range_kwargs\<lparr>start_ts_col := PNone\<rparr>) = PStr ''X''
   \<and> post_init (range_kwargs\<lparr>start_ts_col := PNone\<rparr>) = Inl RangeMissingStartTsCol
   \<and> post_init (range_kwargs\<lparr>event_type := PList [PStr ''EQ'', PStr ''ST'', PStr ''EN'']\<rparr>)
       = Inr ((init_self range_kwargs [])
                \<lparr>event_type := PList [PStr ''EQ'', PStr ''ST'', PStr ''EN''],
                 start_data_schema := PList [PTuple [PStr ''ward'', PEnum CATEGORICAL]],
                 end_data_schema := PList [PTuple [PStr ''ward'', PEnum CATEGORICAL]]\<rparr>)"
  by (simp add: range_kwargs_def schema_defs)

subsection \<open>The shared data schema of a range source\<close>

lemma range_shared_schema_fails:
  assumes "type kw = Some RANGE" and "data_schema kw \<noteq> PNone"
    and "start_data_schema kw \<noteq> PNone \<or> end_data_schema kw \<noteq> PNone"
  shows "\<exists>e. post_init kw = Inl e"
proof (cases "post_init kw")
  case (Inl e)
  then show ?thesis by blast
next
  case (Inr self)
  from post_init_InrD [OF Inr] assms(1) obtain f
    where "check_range (init_self kw f) = Inr self" by auto
  from check_range_InrD [OF this] assms(2,3)
  show ?thesis by (simp add: init_self_def wrap_schema_None)
qed

lemma range_data_schemas_conflict:
  assumes "data_schema s \<noteq> PNone"
    and "start_data_schema s \<noteq> PNone \<or> end_data_schema s \<noteq> PNone"
  shows "range_data_schemas s =
           Inl (SetWithDataSchema (if start_data_schema s \<noteq> PNone then ''start_data_schema''
                                   else ''end_data_schema''))"
  using assms unfolding range_data_schemas_def by auto

lemma range_shared_schema_error:
  assumes "type kw = Some RANGE" and "data_schema kw \<noteq> PNone"
    and "start_data_schema kw \<noteq> PNone \<or> end_data_schema kw \<noteq> PNone"
    and "input_df kw \<noteq> PNone"
    and "add_filters [] (must_have kw) = Inr f"
    and "range_event_type (event_type kw) = Inr et"
  shows "post_init kw =
           Inl (SetWithDataSchema (if start_data_schema kw \<noteq> PNone then ''start_data_schema''
                                   else ''end_data_schema''))"
proof -
  let ?s = "(init_self kw f)\<lparr>event_type := et\<rparr>"
  have d: "data_schema ?s \<noteq> PNone"
    using assms(2) by (simp add: init_self_def wrap_schema_None)
  have se: "start_data_schema ?s \<noteq> PNone \<or> end_data_schema ?s \<noteq> PNone"
    using assms(3) by (simp add: init_self_def wrap_schema_None)
  have st: "(start_data_schema ?s \<noteq> PNone) = (start_data_schema kw \<noteq> PNone)"
    by (simp add: init_self_def wrap_schema_None)
  have "range_data_schemas ?s =
           Inl (SetWithDataSchema (if start_data_schema kw \<noteq> PNone then ''start_data_schema''
                                   else ''end_data_schema''))"
    using range_data_schemas_conflict [OF d se] st by simp
  moreover have "event_type (init_self kw f) = event_type kw" by (simp add: init_self_def)
  ultimately have "check_range (init_self kw f) =
           Inl (SetWithDataSchema (if start_data_schema kw \<noteq> PNone then ''start_data_schema''
                                   else ''end_data_schema''))"
    using assms(6) by (simp add: check_range_def)
  then show ?thesis
    using assms(1,4,5) by (simp add: post_init_def)
qed

lemma range_shared_schema_copied:
  assumes "type kw = Some RANGE" and "post_init kw = Inr self" and "data_schema kw \<noteq> PNone"
  shows "data_schema self = wrap_schema (data_schema kw)
         \<and> start_data_schema self = wrap_schema (data_schema kw)
         \<and> end_data_schema self = wrap_schema (data_schema kw)"
proof -
  from post_init_InrD [OF assms(2)] assms(1) obtain f
    where "check_range (init_self kw f) = Inr self" by auto
  from check_range_InrD [OF this] assms(3)
  show ?thesis by (simp add: init_self_def wrap_schema_None)
qed


lemma range_timestamps_data_schema:
  "range_timestamps (s\<lparr>data_schema := d\<rparr>)
     = (case range_timestamps s of Inl e \<Rightarrow> Inl e | Inr t \<Rightarrow> Inr (t\<lparr>data_schema := d\<rparr>))"
  by (simp add: range_timestamps_def)

lemma unified_schema_data_schema:
  assumes "type s = Some RANGE" and "start_data_schema s \<noteq> PNone" and "end_data_schema s \<noteq> PNone"
  shows "unified_schema (s\<lparr>data_schema := d\<rparr>) = unified_schema s"
proof -
  have "unified_eq_schema (s\<lparr>data_schema := d\<rparr>) = unified_eq_schema s"
    "unified_start_schema (s\<lparr>data_schema := d\<rparr>) = unified_start_schema s"
    "unified_end_schema (s\<lparr>data_schema := d\<rparr>) = unified_end_schema s"
    using assms
    by (simp_all add: unified_eq_schema_def unified_start_schema_def unified_end_schema_def)
  then show ?thesis using assms(1) by (simp add: unified_schema_def split: sum.split)
qed

lemma columns_to_load_data_schema:
  assumes "type s = Some RANGE" and "start_data_schema s \<noteq> PNone" and "end_data_schema s \<noteq> PNone"
  shows "columns_to_load (s\<lparr>data_schema := d\<rparr>) = columns_to_load s"
  using assms(1)
  by (simp add: columns_to_load_def schema_columns_def unified_schema_data_schema [OF assms]
      split: option.split sum.split)

lemma post_init_shared_schema:
  assumes "type kw = Some RANGE" and "data_schema kw \<noteq> PNone"
    and "start_data_schema kw = PNone" and "end_data_schema kw = PNone"
  shows "post_init kw
     = (case post_init (kw\<lparr>data_schema := PNone, start_data_schema := data_schema kw,
                            end_data_schema := data_schema kw\<rparr>) of
          Inl e \<Rightarrow> Inl e
        | Inr self \<Rightarrow> Inr (self\<lparr>data_schema := wrap_schema (data_schema kw)\<rparr>))"
proof -
  let ?ds = "wrap_schema (data_schema kw)"
  let ?kw' = "kw\<lparr>data_schema := PNone, start_data_schema := data_schema kw,
                  end_data_schema := data_schema kw\<rparr>"
  have ds: "?ds \<noteq> PNone" using assms(2) by (simp add: wrap_schema_None)
  have i: "init_self kw f = (init_self ?kw' f)\<lparr>data_schema := ?ds, start_data_schema := PNone,
                                                 end_data_schema := PNone\<rparr>" for f
    using assms(3,4) by (simp add: init_self_def wrap_schema_PNone)
  have i': "data_schema (init_self ?kw' f) = PNone \<and> start_data_schema (init_self ?kw' f) = ?ds
            \<and> end_data_schema (init_self ?kw' f) = ?ds
            \<and> event_type (init_self ?kw' f) = event_type kw
            \<and> type (init_self ?kw' f) = Some RANGE" for f
    using assms(1) by (simp add: init_self_def wrap_schema_PNone)
  have c: "check_range (init_self kw f)
             = (case check_range (init_self ?kw' f) of
                  Inl e \<Rightarrow> Inl e | Inr t \<Rightarrow> Inr (t\<lparr>data_schema := ?ds\<rparr>))" for f
  proof (cases "range_event_type (event_type kw)")
    case (Inl e)
    then show ?thesis by (simp add: check_range_def i i')
  next
    case (Inr r)
    let ?s' = "(init_self ?kw' f)\<lparr>event_type := r\<rparr>"
    have a: "range_data_schemas ?s' = Inr ?s'"
      using i' [of f] by (simp add: range_data_schemas_def)
    have b: "range_data_schemas
               ((init_self ?kw' f)\<lparr>data_schema := ?ds, start_data_schema := PNone,
                                     end_data_schema := PNone, event_type := r\<rparr>)
             = Inr (?s'\<lparr>data_schema := ?ds\<rparr>)"
      using i' [of f] ds by (simp add: range_data_schemas_def)
    show ?thesis
      using Inr a b
      by (simp add: check_range_def i i' range_timestamps_data_schema)
  qed
  have l: "columns_to_load (t\<lparr>data_schema := ?ds\<rparr>) = columns_to_load t"
    if "check_range (init_self ?kw' f) = Inr t" for f t
  proof -
    from that obtain et s1 where "range_data_schemas ((init_self ?kw' f)\<lparr>event_type := et\<rparr>) = Inr s1"
      and s': "range_timestamps s1 = Inr t"
      unfolding check_range_def by (auto split: sum.splits)
    then have "s1 = (init_self ?kw' f)\<lparr>event_type := et\<rparr>"
      using i' [of f] by (simp add: range_data_schemas_def)
    with range_timestamps_InrD [OF s'] i' [of f] ds
    have "type t = Some RANGE" "start_data_schema t \<noteq> PNone" "end_data_schema t \<noteq> PNone"
      by simp_all
    then show ?thesis by (rule columns_to_load_data_schema)
  qed
  have pre: "input_df ?kw' = input_df kw" "type ?kw' = Some RANGE" "must_have ?kw' = must_have kw"
    using assms(1) by simp_all
  show ?thesis
  proof (cases "input_df kw = PNone")
    case True
    then show ?thesis by (simp add: post_init_def)
  next
    case df: False
    show ?thesis
    proof (cases "add_filters [] (must_have kw)")
      case (Inl e)
      with df assms(1) show ?thesis by (simp add: post_init_def)
    next
      case (Inr f)
      show ?thesis
      proof (cases "check_range (init_self ?kw' f)")
        case (Inl e)
        with df Inr assms(1) c [of f] show ?thesis by (simp add: post_init_def)
      next
        case t: (Inr t)
        from l [OF t] df Inr assms(1) c [of f] t show ?thesis
          by (simp add: post_init_def split: sum.split)
      qed
    qed
  qed
qed

text \<open>
  Claim C5, as amended. A range source that is given the shared \<^verbatim>\<open>data_schema\<close> together
  with a \<^verbatim>\<open>start_data_schema\<close> or an \<^verbatim>\<open>end_data_schema\<close> is never constructed; the error
  is the one of the forbidden field whenever the checks that run before it pass
  (\<^verbatim>\<open>input_df\<close> is set, every \<^verbatim>\<open>must_have\<close> filter is well formed, \<^verbatim>\<open>event_type\<close> is
  accepted). When only the shared \<^verbatim>\<open>data_schema\<close> is given, the check of the data schemas
  passes and copies the (wrapped) shared schema into \<^verbatim>\<open>start_data_schema\<close> and
  \<^verbatim>\<open>end_data_schema\<close>, and the constructor returns what it returns for the same source
  given the schema as \<^verbatim>\<open>start_data_schema\<close> and \<^verbatim>\<open>end_data_schema\<close> instead: the same
  error, or the same object but for the shared schema in \<^verbatim>\<open>data_schema\<close>. Every range
  source that is constructed with a shared \<^verbatim>\<open>data_schema\<close> was given neither of the two,
  and holds the (wrapped) shared schema in both.
\<close>

theorem range_shared_data_schema:
  assumes "type kw = Some RANGE" and "data_schema kw \<noteq> PNone"
  shows "(start_data_schema kw \<noteq> PNone \<or> end_data_schema kw \<noteq> PNone \<longrightarrow>
            (\<exists>e. post_init kw = Inl e)
            \<and> (input_df kw \<noteq> PNone
                 \<and> (\<exists>f. add_filters [] (must_have kw) = Inr f)
                 \<and> (\<exists>et. range_event_type (event_type kw) = Inr et) \<longrightarrow>
               post_init kw =
                 Inl (SetWithDataSchema
                        (if start_data_schema kw \<noteq> PNone then ''start_data_schema''
                         else ''end_data_schema''))))
         \<and> (start_data_schema kw = PNone \<and> end_data_schema kw = PNone \<longrightarrow>
               (\<forall>f et. range_data_schemas ((init_self kw f)\<lparr>event_type := et\<rparr>)
                  = Inr ((init_self kw f)
                           \<lparr>event_type := et,
                            start_data_schema := wrap_schema (data_schema kw),
                            end_data_schema := wrap_schema (data_schema kw)\<rparr>))
               \<and> post_init kw
                   = (case post_init (kw\<lparr>data_schema := PNone,
                                          start_data_schema := data_schema kw,
                                          end_data_schema := data_schema kw\<rparr>) of
                        Inl e \<Rightarrow> Inl e
                      | Inr self \<Rightarrow> Inr (self\<lparr>data_schema := wrap_schema (data_schema kw)\<rparr>)))
         \<and> (\<forall>self. post_init kw = Inr self \<longrightarrow>
               start_data_schema kw = PNone \<and> end_data_schema kw = PNone
               \<and> data_schema self = wrap_schema (data_schema kw)
               \<and> start_data_schema self = data_schema self
               \<and> end_data_schema self = data_schema self)"
proof (intro conjI impI allI)
  assume "start_data_schema kw \<noteq> PNone \<or> end_data_schema kw \<noteq> PNone"
  then show "\<exists>e. post_init kw = Inl e"
    by (rule range_shared_schema_fails [OF assms])
next
  assume c: "start_data_schema kw \<noteq> PNone \<or> end_data_schema kw \<noteq> PNone"
    and v: "input_df kw \<noteq> PNone
              \<and> (\<exists>f. add_filters [] (must_have kw) = Inr f)
              \<and> (\<exists>et. range_event_type (event_type kw) = Inr et)"
  from v obtain f et where "add_filters [] (must_have kw) = Inr f"
    and "range_event_type (event_type kw) = Inr et" by blast
  with v show "post_init kw =
                 Inl (SetWithDataSchema
                        (if start_data_schema kw \<noteq> PNone then ''start_data_schema''
                         else ''end_data_schema''))"
    using range_shared_schema_error [OF assms c] by blast
next
  fix f et
  assume n: "start_data_schema kw = PNone \<and> end_data_schema kw = PNone"
  have "wrap_schema (data_schema kw) \<noteq> PNone" using assms(2) by (simp add: wrap_schema_None)
  then show "range_data_schemas ((init_self kw f)\<lparr>event_type := et\<rparr>)
                  = Inr ((init_self kw f)
                           \<lparr>event_type := et,
                            start_data_schema := wrap_schema (data_schema kw),
                            end_data_schema := wrap_schema (data_schema kw)\<rparr>)"
    using n by (simp add: range_data_schemas_def init_self_def wrap_schema_PNone)
next
  assume n: "start_data_schema kw = PNone \<and> end_data_schema kw = PNone"
  then have "start_data_schema kw = PNone" and "end_data_schema kw = PNone" by simp_all
  then show "post_init kw
                   = (case post_init (kw\<lparr>data_schema := PNone,
                                          start_data_schema := data_schema kw,
                                          end_data_schema := data_schema kw\<rparr>) of
                        Inl e \<Rightarrow> Inl e
                      | Inr self \<Rightarrow> Inr (self\<lparr>data_schema := wrap_schema (data_schema kw)\<rparr>))"
    by (rule post_init_shared_schema [OF assms])
next
  fix self assume ok: "post_init kw = Inr self"
  have nf: "\<not> (start_data_schema kw \<noteq> PNone \<or> end_data_schema kw \<noteq> PNone)"
    using range_shared_schema_fails [OF assms] ok by auto
  from nf show "start_data_schema kw = PNone" by simp
  from nf show "end_data_schema kw = PNone" by simp
  from range_shared_schema_copied [OF assms(1) ok assms(2)]
  show "data_schema self = wrap_schema (data_schema kw)"
    and "start_data_schema self = data_schema self"
    and "end_data_schema self = data_schema self"
    by simp_all
qed

theorem range_shared_data_schema_witness:
  "post_init (range_kwargs\<lparr>start_data_schema := PTuple [PStr ''bed'', PEnum CATEGORICAL]\<rparr>)
     = Inl (SetWithDataSchema ''start_data_schema'')
   \<and> post_init (range_kwargs\<lparr>end_data_schema := PTuple [PStr ''bed'', PEnum CATEGORICAL]\<rparr>)
     = Inl (SetWithDataSchema ''end_data_schema'')
   \<and> post_init range_kwargs
     = Inr ((init_self range_kwargs [])
              \<lparr>event_type := PTuple [PStr ''X'', PStr ''X_START'', PStr ''X_END''],
               start_data_schema := PList [PTuple [PStr ''ward'', PEnum CATEGORICAL]],
               end_data_schema := PList [PTuple [PStr ''ward'', PEnum CATEGORICAL]]\<rparr>)
   \<and> data_schema (init_self range_kwargs []) = PList [PTuple [PStr ''ward'', PEnum CATEGORICAL]]"
proof -
  have ev: "range_event_type (PStr ''X'')
              = Inr (PTuple [PStr ''X'', PStr ''X_START'', PStr ''X_END''])"
    by (simp add: range_event_type_def)
  have a: "post_init (range_kwargs\<lparr>start_data_schema := PTuple [PStr ''bed'', PEnum CATEGORICAL]\<rparr>)
     = Inl (SetWithDataSchema ''start_data_schema'')"
    using range_shared_data_schema
      [of "range_kwargs\<lparr>start_data_schema := PTuple [PStr ''bed'', PEnum CATEGORICAL]\<rparr>",
       THEN conjunct1] ev
    by (simp add: range_kwargs_def)
  have b: "post_init (range_kwargs\<lparr>end_data_schema := PTuple [PStr ''bed'', PEnum CATEGORICAL]\<rparr>)
     = Inl (SetWithDataSchema ''end_data_schema'')"
    using range_shared_data_schema
      [of "range_kwargs\<lparr>end_data_schema := PTuple [PStr ''bed'', PEnum CATEGORICAL]\<rparr>",
       THEN conjunct1] ev
    by (simp add: range_kwargs_def)
  have ty: "type range_kwargs = Some RANGE" and ds: "data_schema range_kwargs \<noteq> PNone"
    and n: "start_data_schema range_kwargs = PNone \<and> end_data_schema range_kwargs = PNone"
    by (simp_all add: range_kwargs_def)
  have split: "post_init (range_kwargs\<lparr>data_schema := PNone,
                  start_data_schema := data_schema range_kwargs,
                  end_data_schema := data_schema range_kwargs\<rparr>)
        = Inr ((init_self range_kwargs [])
              \<lparr>event_type := PTuple [PStr ''X'', PStr ''X_START'', PStr ''X_END''],
               data_schema := PNone,
               start_data_schema := PList [PTuple [PStr ''ward'', PEnum CATEGORICAL]],
               end_data_schema := PList [PTuple [PStr ''ward'', PEnum CATEGORICAL]]\<rparr>)"
    by (simp add: range_kwargs_def schema_defs)
  have w: "wrap_schema (data_schema range_kwargs) = PList [PTuple [PStr ''ward'', PEnum CATEGORICAL]]"
    by (simp add: range_kwargs_def wrap_schema_def)
  have d: "data_schema (init_self range_kwargs []) = PList [PTuple [PStr ''ward'', PEnum CATEGORICAL]]"
    by (simp add: init_self_def w)
  from range_shared_data_schema [OF ty ds, THEN conjunct2, THEN conjunct1, THEN mp, OF n,
      THEN conjunct2]
  have c: "post_init range_kwargs
     = Inr ((init_self range_kwargs [])
              \<lparr>event_type := PTuple [PStr ''X'', PStr ''X_START'', PStr ''X_END''],
               start_data_schema := PList [PTuple [PStr ''ward'', PEnum CATEGORICAL]],
               end_data_schema := PList [PTuple [PStr ''ward'', PEnum CATEGORICAL]]\<rparr>)"
    by (simp add: split w init_self_def)
  from a b c d show ?thesis by blast
qed

text \<open>
  Claim C5 as stated fails in both sentences. With \<^verbatim>\<open>event_type\<close> missing or of a wrong
  shape, the error of the event type is raised first, and that of the forbidden field
  never. And a range source that is given only the shared \<^verbatim>\<open>data_schema\<close> is not
  constructed when another check fails, here that of \<^verbatim>\<open>end_ts_col\<close>.
\<close>

theorem range_shared_data_schema_counterexample:
  "post_init (range_kwargs\<lparr>event_type := PNone,
                start_data_schema := PTuple [PStr ''bed'', PEnum CATEGORICAL]\<rparr>)
     = Inl RangeMissingEventType
   \<and> post_init (range_kwargs\<lparr>event_type := PTuple [PStr ''A'', PStr ''B''],
                start_data_schema := PTuple [PStr ''bed'', PEnum CATEGORICAL]\<rparr>)
     = Inl (RangeEventTypeShape (PTuple [PStr ''A'', PStr ''B'']))
   \<and> exc_class_of (RangeEventTypeShape (PTuple [PStr ''A'', PStr ''B''])) = TypeError
   \<and> data_schema (range_kwargs\<lparr>end_ts_col := PNone\<rparr>) = PTuple [PStr ''ward'', PEnum CATEGORICAL]
   \<and> start_data_schema (range_kwargs\<lparr>end_ts_col := PNone\<rparr>) = PNone
   \<and> end_data_schema (range_kwargs\<lparr>end_ts_col := PNone\<rparr>) = PNone
   \<and> post_init (range_kwargs\<lparr>end_ts_col := PNone\<rparr>) = Inl RangeMissingEndTsCol"
  by (simp add: range_kwargs_def schema_defs)


section \<open>Properties of MeasurementConfig\<close>

text \<open>
  Claim C6, as amended. A measurement with dynamic temporality and single-label modality
  is rejected by \<^verbatim>\<open>_validate\<close>, and so by the constructor, whatever its other fields and
  whatever the storage holds; the exception is a \<^verbatim>\<open>ValueError\<close>: the one of the
  incompatible combination when no functor is set, and the one of the forbidden functor,
  which is checked first, otherwise.
\<close>

theorem dynamic_single_label_rejected:
  assumes "temporality self = Some DYNAMIC"
    and "modality self = Some SINGLE_LABEL_CLASSIFICATION"
  shows "MeasurementConfig_post_init pd self
           = Inl (if functor self = None then SingleLabelOnDynamic else FunctorShouldBeNone)
         \<and> validate pd self
           = Inl (if functor self = None then SingleLabelOnDynamic else FunctorShouldBeNone)
         \<and> exc_class_of (if functor self = None then SingleLabelOnDynamic
                          else FunctorShouldBeNone) = ValueError"
  using assms
  by (simp add: MeasurementConfig_post_init_def validate_def validate_temporality_def)

theorem dynamic_single_label_rejected_witness:
  "(\<forall>pd. MeasurementConfig_post_init pd dynamic_single_label = Inl SingleLabelOnDynamic)
   \<and> (\<forall>pd. validate pd (dynamic_single_label\<lparr>functor := Some age_functor\<rparr>)
              = Inl FunctorShouldBeNone)"
proof (intro conjI allI)
  fix pd
  show "MeasurementConfig_post_init pd dynamic_single_label = Inl SingleLabelOnDynamic"
    using dynamic_single_label_rejected [of dynamic_single_label pd]
    by (simp add: dynamic_single_label_def)
  show "validate pd (dynamic_single_label\<lparr>functor := Some age_functor\<rparr>)
              = Inl FunctorShouldBeNone"
    using dynamic_single_label_rejected [of "dynamic_single_label\<lparr>functor := Some age_functor\<rparr>" pd]
    by (simp add: dynamic_single_label_def)
qed

text \<open>
  Claim C6 as stated fails on the kind of the error: with a functor set, the error raised
  is "functor should be None", not the one of the combination.
\<close>

theorem dynamic_single_label_counterexample:
  "(\<forall>pd. MeasurementConfig_post_init pd (dynamic_single_label\<lparr>functor := Some age_functor\<rparr>)
           = Inl FunctorShouldBeNone)
   \<and> FunctorShouldBeNone \<noteq> SingleLabelOnDynamic"
  by (simp add: MeasurementConfig_post_init_def validate_def validate_temporality_def
      dynamic_single_label_def)


subsection \<open>The metadata cache\<close>

lemmas cache_defs =
  cache_measurement_metadata_def uncache_measurement_metadata_def add_empty_metadata_def
  measurement_metadata_def load_metadata_def pandas_on_def pd_read_csv_def parse_row_def
  parse_cell_def na_values_def py_eval_def first_column_def cell_at_def
  DataFrame_to_csv_def Series_to_csv_def cell_text_def PREPROCESSING_METADATA_COLUMNS_def
  MeasurementConfig_post_init_def validate_def validate_temporality_def modality_errors_def
  metadata_must_be_def metadata_must_be_None_def is_numeric_def

text \<open>
  Claim C8 fails on the code when a cell of the outlier model or of the normalizer is
  missing. The univariate measurement \<open>lab_config\<close> is constructed, \<^verbatim>\<open>add_empty_metadata\<close>
  gives it the series of \<^verbatim>\<open>None\<close>, and \<^verbatim>\<open>cache_measurement_metadata\<close> writes it to the fresh
  path with empty fields; \<^verbatim>\<open>uncache_measurement_metadata\<close> then reads the empty fields as
  \<^verbatim>\<open>NaN\<close> and raises the \<^verbatim>\<open>TypeError\<close> of \<^verbatim>\<open>eval\<close> on the outlier model, where the claim has
  it restore the series. The same happens to a constructed multivariate measurement whose
  table has a row without an outlier model. A series whose outlier model and normalizer
  are set is restored.
\<close>

theorem cache_uncache_missing_cell_raises:
  "MeasurementConfig_post_init (pandas_on Map.empty) lab_config = Inr lab_config
   \<and> add_empty_metadata Map.empty lab_config
       = Inr (lab_config\<lparr>measurement_metadata_slot := InSeries empty_series\<rparr>)
   \<and> cache_measurement_metadata Map.empty
         (lab_config\<lparr>measurement_metadata_slot := InSeries empty_series\<rparr>) ''cache/lab.csv''
       = Inr (lab_config\<lparr>measurement_metadata_slot := AtStr ''cache/lab.csv''\<rparr>,
              [''cache/lab.csv'' \<mapsto>
                 [[[], ''0''], [''value_type'', []], [''outlier_model'', []],
                  [''normalizer'', []]]])
   \<and> uncache_measurement_metadata
         [''cache/lab.csv'' \<mapsto>
            [[[], ''0''], [''value_type'', []], [''outlier_model'', []], [''normalizer'', []]]]
         (lab_config\<lparr>measurement_metadata_slot := AtStr ''cache/lab.csv''\<rparr>)
       = Inl EvalArgNotString
   \<and> exc_class_of EvalArgNotString = TypeError
   \<and> MeasurementConfig_post_init (pandas_on Map.empty)
         (vitals_config\<lparr>measurement_metadata_slot := InFrame unfitted_table\<rparr>)
       = Inr (vitals_config\<lparr>measurement_metadata_slot := InFrame unfitted_table\<rparr>)
   \<and> (case cache_measurement_metadata Map.empty
              (vitals_config\<lparr>measurement_metadata_slot := InFrame unfitted_table\<rparr>)
              ''cache/vitals.csv'' of
         Inl e \<Rightarrow> Inl e
       | Inr (cfg, fs) \<Rightarrow> uncache_measurement_metadata fs cfg)
       = Inl EvalArgNotString
   \<and> (case cache_measurement_metadata Map.empty
              (lab_config\<lparr>measurement_metadata_slot := InSeries fitted_series\<rparr>)
              ''cache/lab.csv'' of
         Inl e \<Rightarrow> Inl e
       | Inr (cfg, fs) \<Rightarrow> uncache_measurement_metadata fs cfg)
       = Inr (lab_config\<lparr>measurement_metadata_slot := InSeries fitted_series\<rparr>)"
  by (simp add: lab_config_def vitals_config_def empty_series_def fitted_series_def
      unfitted_table_def cache_defs)


section \<open>Properties of DatasetSchema\<close>

lemma convert_dynamic_InrD:
  assumes "convert_dynamic sid dyn = (ws, Inr vs)"
  shows "list_all2
           (\<lambda>a v. (arg_subject_id_col a = None \<longrightarrow> subject_id_col v = sid)
                 \<and> (arg_subject_id_col a \<noteq> None \<longrightarrow>
                      (\<exists>s. a = Schema s) \<and> subject_id_col v = arg_subject_id_col a
                      \<and> (arg_subject_id_col a \<noteq> sid \<longrightarrow>
                           SubjectIdColDiffers (input_df v) (arg_subject_id_col a) sid \<in> set ws)))
           dyn vs"
  using assms
proof (induction dyn arbitrary: ws vs)
  case Nil
  then show ?case by simp
next
  case (Cons a dyn)
  let ?R = "\<lambda>ws a v. (arg_subject_id_col a = None \<longrightarrow> subject_id_col v = sid)
                 \<and> (arg_subject_id_col a \<noteq> None \<longrightarrow>
                      (\<exists>s. a = Schema s) \<and> subject_id_col v = arg_subject_id_col a
                      \<and> (arg_subject_id_col a \<noteq> sid \<longrightarrow>
                           SubjectIdColDiffers (input_df v) (arg_subject_id_col a) sid \<in> set ws))"
  from Cons.prems obtain v1 where v1: "(case a of PlainDict kw \<Rightarrow> post_init kw | Schema s \<Rightarrow> Inr s) = Inr v1"
    by (cases "case a of PlainDict kw \<Rightarrow> post_init kw | Schema s \<Rightarrow> Inr s") auto
  define v2 where "v2 = (if subject_id_col v1 = None then v1\<lparr>subject_id_col := sid\<rparr> else v1)"
  define w where "w = (if subject_id_col v2 \<noteq> sid
                    then [SubjectIdColDiffers (input_df v2) (subject_id_col v2) sid]
                    else [])"
  from Cons.prems v1 have ns: "\<not> is_static v2"
    by (auto simp: v2_def Let_def split: if_splits)
  from Cons.prems v1 ns obtain ws' rest where rec: "convert_dynamic sid dyn = (ws', Inr rest)"
    and ws: "ws = w @ ws'" and vs: "vs = v2 # rest"
    by (auto simp: v2_def w_def Let_def split: if_splits prod.splits sum.splits)
  have ns1: "\<not> is_static v1" using ns by (auto simp: v2_def is_static_def split: if_splits)
  have head: "?R ws a v2"
  proof (cases a)
    case (PlainDict kw)
    with v1 have "post_init kw = Inr v1" by simp
    from post_init_not_static [OF this ns1] PlainDict
    show ?thesis by (simp add: arg_subject_id_col_def v2_def)
  next
    case (Schema s)
    with v1 have "v1 = s" by simp
    with Schema show ?thesis
      by (auto simp: arg_subject_id_col_def v2_def w_def ws)
  qed
  have "list_all2 (?R ws') dyn rest" using Cons.IH [OF rec] .
  then have "list_all2 (?R ws) dyn rest"
    by (rule list_all2_mono) (auto simp: ws)
  with head vs show ?case by simp
qed

lemma convert_dynamic_plain_dict_fails:
  assumes "PlainDict kw \<in> set dyn" and "subject_id_col kw \<noteq> None"
  shows "\<exists>ws e. convert_dynamic sid dyn = (ws, Inl e)"
proof (cases "convert_dynamic sid dyn")
  case (Pair ws r)
  show ?thesis
  proof (cases r)
    case (Inl e)
    with Pair show ?thesis by blast
  next
    case (Inr vs)
    from convert_dynamic_InrD [OF Pair [unfolded Inr]] assms
    have False
      by (auto simp: list_all2_conv_all_nth in_set_conv_nth arg_subject_id_col_def)
    then show ?thesis ..
  qed
qed

lemma DatasetSchema_post_init_InrD:
  assumes "DatasetSchema_post_init st (Some dyn) = (ws, Inr ds)"
  shows "subject_id_col (static ds) \<noteq> None
         \<and> convert_dynamic (subject_id_col (static ds)) dyn = (ws, Inr (dynamic ds))"
  using assms unfolding DatasetSchema_post_init_def
  by (auto split: option.splits sum.splits if_splits prod.splits schema_arg.splits)


lemma group_by_df_ok:
  "(\<exists>g'. group_by_df g vs = Inr g') \<longleftrightarrow> list_all hashable (map input_df vs)"
  by (induction vs arbitrary: g) simp_all

lemma convert_dynamic_update:
  assumes "convert_dynamic sid dyn = (ws, Inr vs)" and "i < length dyn" and "dyn ! i = Schema s"
  shows "\<exists>ws' vs'. convert_dynamic sid (dyn[i := Schema (s\<lparr>subject_id_col := c\<rparr>)]) = (ws', Inr vs')
           \<and> map input_df vs' = map input_df vs"
  using assms
proof (induction dyn arbitrary: i ws vs)
  case Nil
  then show ?case by simp
next
  case (Cons a dyn)
  from Cons.prems(1) obtain v1
    where v1: "(case a of PlainDict kw \<Rightarrow> post_init kw | Schema s \<Rightarrow> Inr s) = Inr v1"
    by (cases "case a of PlainDict kw \<Rightarrow> post_init kw | Schema s \<Rightarrow> Inr s") auto
  define v2 where "v2 = (if subject_id_col v1 = None then v1\<lparr>subject_id_col := sid\<rparr> else v1)"
  from Cons.prems(1) v1 have ns: "\<not> is_static v2"
    by (auto simp: v2_def Let_def split: if_splits)
  from Cons.prems(1) v1 ns obtain ws0 rest where rec: "convert_dynamic sid dyn = (ws0, Inr rest)"
    and vs: "vs = v2 # rest"
    by (auto simp: v2_def Let_def split: if_splits prod.splits sum.splits)
  have ns1: "\<not> is_static v1" using ns by (auto simp: v2_def is_static_def split: if_splits)
  show ?case
  proof (cases i)
    case 0
    with Cons.prems(3) have a: "a = Schema s" by simp
    with v1 have s: "v1 = s" by simp
    let ?s' = "s\<lparr>subject_id_col := c\<rparr>"
    let ?v2' = "(if subject_id_col ?s' = None then ?s'\<lparr>subject_id_col := sid\<rparr> else ?s')"
    have nst: "\<not> is_static ?v2'" using ns1 s by (simp add: is_static_def)
    have df: "input_df ?v2' = input_df v2" using s by (simp add: v2_def)
    have "\<exists>ws'. convert_dynamic sid (Schema ?s' # dyn) = (ws', Inr (?v2' # rest))"
      using nst rec by (simp add: Let_def)
    with 0 vs df show ?thesis by auto
  next
    case (Suc j)
    with Cons.prems have j: "j < length dyn" and dj: "dyn ! j = Schema s" by simp_all
    from Cons.IH [OF rec j dj] obtain ws1 vs1
      where r1: "convert_dynamic sid (dyn[j := Schema (s\<lparr>subject_id_col := c\<rparr>)]) = (ws1, Inr vs1)"
        and m1: "map input_df vs1 = map input_df rest" by blast
    have "\<exists>ws'. convert_dynamic sid (a # dyn[j := Schema (s\<lparr>subject_id_col := c\<rparr>)])
                  = (ws', Inr (v2 # vs1))"
      using v1 ns r1 by (simp add: v2_def Let_def)
    with Suc vs m1 show ?thesis by auto
  qed
qed

lemma DatasetSchema_post_init_update:
  assumes ok: "DatasetSchema_post_init st (Some dyn) = (ws, Inr ds)"
    and i: "i < length dyn" and s: "dyn ! i = Schema s"
  shows "\<exists>ws' ds'. DatasetSchema_post_init st (Some (dyn[i := Schema (s\<lparr>subject_id_col := c\<rparr>)]))
                      = (ws', Inr ds')"
proof -
  let ?dyn' = "dyn[i := Schema (s\<lparr>subject_id_col := c\<rparr>)]"
  from ok obtain sa where st: "st = Some sa"
    by (cases st) (simp_all add: DatasetSchema_post_init_def)
  let ?T = "(case sa of
               PlainDict kw \<Rightarrow>
                 (case post_init kw of
                    Inl e \<Rightarrow> Inl e
                  | Inr s \<Rightarrow> if is_static s then Inr s else Inl StaticSchemaNotStatic)
             | Schema s \<Rightarrow> Inr s)"
  from ok st obtain stv where T: "?T = Inr stv"
    by (cases ?T) (simp_all add: DatasetSchema_post_init_def)
  from ok st T have sid: "subject_id_col stv \<noteq> None"
    by (auto simp: DatasetSchema_post_init_def split: if_splits)
  from ok st T sid obtain vs where cd: "convert_dynamic (subject_id_col stv) dyn = (ws, Inr vs)"
    and g: "\<exists>g. group_by_df [] vs = Inr g"
    by (auto simp: DatasetSchema_post_init_def split: prod.splits sum.splits)
  from convert_dynamic_update [OF cd i s, of c] obtain ws' vs'
    where cd': "convert_dynamic (subject_id_col stv) ?dyn' = (ws', Inr vs')"
      and m: "map input_df vs' = map input_df vs" by blast
  from g m have "\<exists>g. group_by_df [] vs' = Inr g" by (simp add: group_by_df_ok)
  then obtain g' where g': "group_by_df [] vs' = Inr g'" by blast
  have "DatasetSchema_post_init st (Some ?dyn')
          = (ws', Inr \<lparr>static = stv, dynamic = vs', dynamic_by_df = g'\<rparr>)"
    using st T sid cd' g' by (simp add: DatasetSchema_post_init_def)
  then show ?thesis by blast
qed

text \<open>
  Claim C7, as amended. When \<^verbatim>\<open>DatasetSchema\<close> is constructed, the static source has a
  subject-id column \<open>S\<close>; every dynamic source passed without a \<^verbatim>\<open>subject_id_col\<close> ends
  with \<open>S\<close>; every dynamic source passed with a \<^verbatim>\<open>subject_id_col\<close> is an object (not a
  plain dictionary), keeps its column, and a warning is printed when the column differs
  from \<open>S\<close>. The column of a source passed as an object never makes the construction fail:
  when the construction succeeds, it also succeeds with the \<^verbatim>\<open>subject_id_col\<close> of any such
  source replaced by any other value, set or unset. A plain dictionary with a
  \<^verbatim>\<open>subject_id_col\<close> among the dynamic sources makes the construction fail.
\<close>

theorem dynamic_subject_id_col:
  "(DatasetSchema_post_init st (Some dyn) = (ws, Inr ds) \<longrightarrow>
      subject_id_col (static ds) \<noteq> None
      \<and> length (dynamic ds) = length dyn
      \<and> (\<forall>i. i < length dyn \<longrightarrow>
            (arg_subject_id_col (dyn ! i) = None \<longrightarrow>
               subject_id_col (dynamic ds ! i) = subject_id_col (static ds))
            \<and> (arg_subject_id_col (dyn ! i) \<noteq> None \<longrightarrow>
                 (\<exists>s. dyn ! i = Schema s)
                 \<and> subject_id_col (dynamic ds ! i) = arg_subject_id_col (dyn ! i)
                 \<and> (arg_subject_id_col (dyn ! i) \<noteq> subject_id_col (static ds) \<longrightarrow>
                      SubjectIdColDiffers (input_df (dynamic ds ! i))
                        (arg_subject_id_col (dyn ! i)) (subject_id_col (static ds)) \<in> set ws)))
      \<and> (\<forall>i s c. i < length dyn \<and> dyn ! i = Schema s \<longrightarrow>
            (\<exists>ws' ds'. DatasetSchema_post_init st
                          (Some (dyn[i := Schema (s\<lparr>subject_id_col := c\<rparr>)]))
                        = (ws', Inr ds'))))
   \<and> (PlainDict kw \<in> set dyn \<and> subject_id_col kw \<noteq> None \<longrightarrow>
        (\<exists>e. snd (DatasetSchema_post_init st (Some dyn)) = Inl e))"
proof (intro conjI impI)
  assume ok: "DatasetSchema_post_init st (Some dyn) = (ws, Inr ds)"
  from DatasetSchema_post_init_InrD [OF ok]
  have sid: "subject_id_col (static ds) \<noteq> None"
    and cd: "convert_dynamic (subject_id_col (static ds)) dyn = (ws, Inr (dynamic ds))"
    by simp_all
  from sid show "subject_id_col (static ds) \<noteq> None" .
  from convert_dynamic_InrD [OF cd]
  show "length (dynamic ds) = length dyn"
    by (simp add: list_all2_lengthD)
  from convert_dynamic_InrD [OF cd]
  show "\<forall>i. i < length dyn \<longrightarrow>
            (arg_subject_id_col (dyn ! i) = None \<longrightarrow>
               subject_id_col (dynamic ds ! i) = subject_id_col (static ds))
            \<and> (arg_subject_id_col (dyn ! i) \<noteq> None \<longrightarrow>
                 (\<exists>s. dyn ! i = Schema s)
                 \<and> subject_id_col (dynamic ds ! i) = arg_subject_id_col (dyn ! i)
                 \<and> (arg_subject_id_col (dyn ! i) \<noteq> subject_id_col (static ds) \<longrightarrow>
                      SubjectIdColDiffers (input_df (dynamic ds ! i))
                        (arg_subject_id_col (dyn ! i)) (subject_id_col (static ds)) \<in> set ws))"
    by (simp add: list_all2_conv_all_nth)
  show "\<forall>i s c. i < length dyn \<and> dyn ! i = Schema s \<longrightarrow>
            (\<exists>ws' ds'. DatasetSchema_post_init st
                          (Some (dyn[i := Schema (s\<lparr>subject_id_col := c\<rparr>)]))
                        = (ws', Inr ds'))"
    using DatasetSchema_post_init_update [OF ok] by blast
next
  assume h: "PlainDict kw \<in> set dyn \<and> subject_id_col kw \<noteq> None"
  show "\<exists>e. snd (DatasetSchema_post_init st (Some dyn)) = Inl e"
  proof (cases "DatasetSchema_post_init st (Some dyn)")
    case (Pair ws r)
    show ?thesis
    proof (cases r)
      case (Inl e)
      with Pair show ?thesis by simp
    next
      case (Inr ds)
      from DatasetSchema_post_init_InrD [OF Pair [unfolded Inr]]
        convert_dynamic_plain_dict_fails [of kw dyn "subject_id_col (static ds)"] h
      have False by auto
      then show ?thesis ..
    qed
  qed
qed


lemmas example_defs = static_kwargs_def event_kwargs_def range_kwargs_def

theorem dynamic_subject_id_col_witness:
  "(\<exists>ws ds. DatasetSchema_post_init (Some (PlainDict static_kwargs))
               (Some [PlainDict event_kwargs, Schema event_other_subject]) = (ws, Inr ds)
       \<and> subject_id_col (static ds) = Some ''subject_id''
       \<and> subject_id_col (dynamic ds ! 0) = Some ''subject_id''
       \<and> subject_id_col (dynamic ds ! 1) = Some ''patient''
       \<and> SubjectIdColDiffers (PStr ''events.csv'') (Some ''patient'') (Some ''subject_id'')
           \<in> set ws)
   \<and> (\<exists>ws ds. DatasetSchema_post_init (Some (PlainDict static_kwargs))
               (Some [Schema (init_self event_kwargs []), Schema event_other_subject])
             = (ws, Inr ds))
   \<and> (\<exists>e. snd (DatasetSchema_post_init (Some (PlainDict static_kwargs))
                  (Some [PlainDict (event_kwargs\<lparr>subject_id_col := Some ''patient''\<rparr>)]))
            = Inl e)"
proof -
  let ?st = "Some (PlainDict static_kwargs)"
  let ?dyn = "[PlainDict event_kwargs, Schema event_other_subject]"
  let ?kw = "event_kwargs\<lparr>subject_id_col := Some ''patient''\<rparr>"
  have "\<exists>ws ds. DatasetSchema_post_init ?st (Some ?dyn) = (ws, Inr ds)
          \<and> subject_id_col (static ds) = Some ''subject_id''
          \<and> input_df (dynamic ds ! 1) = PStr ''events.csv''"
    by (simp add: example_defs event_other_subject_def dataset_defs schema_defs)
  then obtain ws ds where ok: "DatasetSchema_post_init ?st (Some ?dyn) = (ws, Inr ds)"
    and st: "subject_id_col (static ds) = Some ''subject_id''"
    and df: "input_df (dynamic ds ! 1) = PStr ''events.csv''"
    by blast
  have a0: "arg_subject_id_col (?dyn ! 0) = None"
    by (simp add: arg_subject_id_col_def event_kwargs_def)
  have a1: "arg_subject_id_col (?dyn ! 1) = Some ''patient''"
    by (simp add: arg_subject_id_col_def event_other_subject_def)
  note t = dynamic_subject_id_col [of ?st ?dyn ws ds ?kw, THEN conjunct1, THEN mp, OF ok]
  note all = t [THEN conjunct2, THEN conjunct2, THEN conjunct1]
  from all [rule_format, of 0] a0 st
  have d0: "subject_id_col (dynamic ds ! 0) = Some ''subject_id''" by simp
  from all [rule_format, of 1] a1 st df
  have d1: "subject_id_col (dynamic ds ! 1) = Some ''patient''"
    and w: "SubjectIdColDiffers (PStr ''events.csv'') (Some ''patient'') (Some ''subject_id'')
           \<in> set ws"
    by simp_all
  let ?obj = "[Schema (init_self event_kwargs []), Schema (init_self event_kwargs [])]"
  have "\<exists>ws ds. DatasetSchema_post_init ?st (Some ?obj) = (ws, Inr ds)"
    by (simp add: example_defs dataset_defs schema_defs Let_def)
  then obtain ws2 ds2 where ok2: "DatasetSchema_post_init ?st (Some ?obj) = (ws2, Inr ds2)"
    by blast
  note u = dynamic_subject_id_col [of ?st ?obj ws2 ds2 ?kw, THEN conjunct1, THEN mp, OF ok2,
      THEN conjunct2, THEN conjunct2, THEN conjunct2, rule_format,
      of 1 "init_self event_kwargs []" "Some ''patient''"]
  have m: "\<exists>ws ds. DatasetSchema_post_init ?st
               (Some [Schema (init_self event_kwargs []), Schema event_other_subject])
             = (ws, Inr ds)"
    using u by (simp add: event_other_subject_def)
  have f: "\<exists>e. snd (DatasetSchema_post_init ?st (Some [PlainDict ?kw])) = Inl e"
    using dynamic_subject_id_col [of ?st "[PlainDict ?kw]" "[]" undefined ?kw, THEN conjunct2]
    by simp
  from ok st d0 d1 w m f show ?thesis by blast
qed

text \<open>
  Claim C7 as stated fails: a dynamic source constructed with an explicit
  \<^verbatim>\<open>subject_id_col\<close> is rejected by \<^verbatim>\<open>InputDFSchema\<close> itself, and so is the
  \<^verbatim>\<open>DatasetSchema\<close> that is given it as a plain dictionary.
\<close>

theorem dynamic_subject_id_col_counterexample:
  "post_init (event_kwargs\<lparr>subject_id_col := Some ''patient''\<rparr>) = Inl SubjectIdColOnNonStatic
   \<and> DatasetSchema_post_init (Some (PlainDict static_kwargs))
        (Some [PlainDict (event_kwargs\<lparr>subject_id_col := Some ''patient''\<rparr>)])
      = ([], Inl SubjectIdColOnNonStatic)"
  by (simp add: example_defs dataset_defs schema_defs)

text \<open>
  Claim C2 fails on the code. A \<^verbatim>\<open>DatasetSchema\<close> with a dynamic source is constructed,
  and \<^verbatim>\<open>from_dict\<close> of its \<^verbatim>\<open>to_dict\<close> raises: the dictionary of the dynamic source holds
  the subject-id column it inherited, which the constructor of an event source rejects.
  A range source with a shared data schema is constructed, and \<^verbatim>\<open>from_dict\<close> of its
  \<^verbatim>\<open>to_dict\<close> raises: the dictionary holds the shared schema and its two copies.
\<close>

theorem round_trip_fails:
  "(\<exists>ws ds. DatasetSchema_post_init (Some (PlainDict static_kwargs))
               (Some [PlainDict event_kwargs]) = (ws, Inr ds)
       \<and> DatasetSchema_from_dict (DatasetSchema_to_dict ds)
           = ([], Inl SubjectIdColOnNonStatic))
   \<and> (\<exists>self. post_init range_kwargs = Inr self
         \<and> InputDFSchema_from_dict (InputDFSchema_to_dict self)
             = Inl (SetWithDataSchema ''start_data_schema''))"
  by (simp add: example_defs dataset_defs schema_defs)


section \<open>The round trip through to_dict and from_dict\<close>

lemma wrap_schema_idem: "wrap_schema (wrap_schema ds) = wrap_schema ds"
  by (cases ds) (simp_all add: wrap_schema_def)

lemma post_init_columns:
  assumes "post_init kw = Inr self"
  shows "\<exists>cols. columns_to_load self = Inr cols"
  using assms unfolding post_init_def
  by (auto split: if_splits option.splits sum.splits)

lemma to_dict_fields:
  "input_df (InputDFSchema_to_dict s) = input_df s \<and> type (InputDFSchema_to_dict s) = type s
   \<and> event_type (InputDFSchema_to_dict s) = event_type s
   \<and> subject_id_col (InputDFSchema_to_dict s) = subject_id_col s
   \<and> ts_col (InputDFSchema_to_dict s) = ts_col s
   \<and> start_ts_col (InputDFSchema_to_dict s) = start_ts_col s
   \<and> end_ts_col (InputDFSchema_to_dict s) = end_ts_col s
   \<and> ts_format (InputDFSchema_to_dict s) = ts_format s
   \<and> start_ts_format (InputDFSchema_to_dict s) = start_ts_format s
   \<and> end_ts_format (InputDFSchema_to_dict s) = end_ts_format s
   \<and> data_schema (InputDFSchema_to_dict s) = data_schema s
   \<and> start_data_schema (InputDFSchema_to_dict s) = start_data_schema s
   \<and> end_data_schema (InputDFSchema_to_dict s) = end_data_schema s
   \<and> must_have (InputDFSchema_to_dict s) = must_have s"
  by (simp add: InputDFSchema_to_dict_def InputDFSchema_fields.truncate_def)

lemma init_self_to_dict_unchanged:
  assumes "s = init_self kw f"
  shows "init_self (InputDFSchema_to_dict s) f = s"
  using assms by (simp add: init_self_def to_dict_fields wrap_schema_idem)


lemma range_timestamps_idem:
  assumes "range_timestamps s = Inr s'"
  shows "range_timestamps s' = Inr s'"
  using assms unfolding range_timestamps_def
  by (auto split: if_splits)

lemma range_timestamps_frame:
  assumes "range_timestamps s = Inr s'"
  shows "input_df s' = input_df s \<and> must_have s' = must_have s \<and> filter_on s' = filter_on s
         \<and> type s' = type s"
  using assms unfolding range_timestamps_def by (auto split: if_splits)

lemma range_data_schemas_frame:
  assumes "range_data_schemas s = Inr s'"
  shows "input_df s' = input_df s \<and> must_have s' = must_have s \<and> filter_on s' = filter_on s
         \<and> (start_data_schema s' = start_data_schema s \<or> start_data_schema s' = data_schema s)
         \<and> (end_data_schema s' = end_data_schema s \<or> end_data_schema s' = data_schema s)"
  using assms unfolding range_data_schemas_def by (auto split: if_splits)

lemma post_init_range_result:
  assumes "post_init kw = Inr self" and "type kw = Some RANGE"
  shows "\<exists>f. add_filters [] (must_have kw) = Inr f
           \<and> input_df self = input_df kw \<and> input_df kw \<noteq> PNone
           \<and> must_have self = must_have kw \<and> filter_on self = f
           \<and> type self = Some RANGE
           \<and> data_schema self = wrap_schema (data_schema kw)
           \<and> wrap_schema (start_data_schema self) = start_data_schema self
           \<and> wrap_schema (end_data_schema self) = end_data_schema self
           \<and> range_event_type (event_type self) = Inr (event_type self)
           \<and> range_timestamps self = Inr self"
proof -
  from post_init_InrD [OF assms(1)] assms(2) obtain f
    where df: "input_df kw \<noteq> PNone" and f: "add_filters [] (must_have kw) = Inr f"
      and c: "check_range (init_self kw f) = Inr self" by auto
  from c obtain et s1 where et: "range_event_type (event_type (init_self kw f)) = Inr et"
    and s1: "range_data_schemas ((init_self kw f)\<lparr>event_type := et\<rparr>) = Inr s1"
    and s': "range_timestamps s1 = Inr self"
    unfolding check_range_def by (auto split: sum.splits)
  note a = range_data_schemas_frame [OF s1] range_data_schemas_InrD [OF s1]
  note b = range_timestamps_frame [OF s'] range_timestamps_InrD [OF s']
  have ev: "event_type self = et" using a b by simp
  have "wrap_schema (start_data_schema s1) = start_data_schema s1"
    using a by (auto simp: init_self_def wrap_schema_idem wrap_schema_PNone)
  moreover have "wrap_schema (end_data_schema s1) = end_data_schema s1"
    using a by (auto simp: init_self_def wrap_schema_idem wrap_schema_PNone)
  ultimately show ?thesis
    using a b f df ev range_event_type_idem [OF et] range_timestamps_idem [OF s'] assms(2)
    by (simp add: init_self_def wrap_schema_PNone)
qed


lemma init_self_to_dict_wrapped:
  assumes "wrap_schema (data_schema s) = data_schema s"
    and "wrap_schema (start_data_schema s) = start_data_schema s"
    and "wrap_schema (end_data_schema s) = end_data_schema s"
  shows "init_self (InputDFSchema_to_dict s) (filter_on s) = s"
  using assms by (cases s) (simp add: init_self_def to_dict_fields)

text \<open>
  The round trip of \<^verbatim>\<open>InputDFSchema\<close> through \<^verbatim>\<open>to_dict\<close> and \<^verbatim>\<open>from_dict\<close>: every
  constructed static or event source, and every constructed range source without a shared
  data schema, is given back as it is; a range source with a shared data schema is rejected.
\<close>

theorem InputDFSchema_round_trip:
  assumes "post_init kw = Inr self"
  shows "InputDFSchema_from_dict (InputDFSchema_to_dict self) =
           (if type kw = Some RANGE \<and> data_schema kw \<noteq> PNone
            then Inl (SetWithDataSchema ''start_data_schema'') else Inr self)"
proof -
  from post_init_InrD [OF assms] obtain t f
    where df: "input_df kw \<noteq> PNone" and t: "type kw = Some t"
      and f: "add_filters [] (must_have kw) = Inr f"
      and c: "(case t of STATIC \<Rightarrow> check_static (init_self kw f)
                       | EVENT \<Rightarrow> check_event (init_self kw f)
                       | RANGE \<Rightarrow> check_range (init_self kw f)) = Inr self"
    by blast
  from post_init_columns [OF assms] obtain cols where cols: "columns_to_load self = Inr cols"
    by blast
  let ?d = "InputDFSchema_to_dict self"
  show ?thesis
  proof (cases t)
    case STATIC
    with c have s: "self = init_self kw f" and c': "check_static self = Inr self"
      using check_static_InrD [of "init_self kw f" self] by simp_all
    have i: "init_self ?d f = self" using s by (rule init_self_to_dict_unchanged)
    have "input_df ?d \<noteq> PNone" and "type ?d = Some STATIC" and "must_have ?d = must_have kw"
      using s df t STATIC by (simp_all add: to_dict_fields init_self_def)
    then have "post_init ?d = Inr self"
      using f i c' cols by (simp add: post_init_def)
    with t STATIC show ?thesis by (simp add: InputDFSchema_from_dict_def)
  next
    case EVENT
    with c have s: "self = init_self kw f" and c': "check_event self = Inr self"
      using check_event_InrD [of "init_self kw f" self] by simp_all
    have i: "init_self ?d f = self" using s by (rule init_self_to_dict_unchanged)
    have "input_df ?d \<noteq> PNone" and "type ?d = Some EVENT" and "must_have ?d = must_have kw"
      using s df t EVENT by (simp_all add: to_dict_fields init_self_def)
    then have "post_init ?d = Inr self"
      using f i c' cols by (simp add: post_init_def)
    with t EVENT show ?thesis by (simp add: InputDFSchema_from_dict_def)
  next
    case RANGE
    with t have tr: "type kw = Some RANGE" by simp
    from post_init_range_result [OF assms tr] f
    have r: "input_df self = input_df kw" "must_have self = must_have kw" "filter_on self = f"
      "type self = Some RANGE" "data_schema self = wrap_schema (data_schema kw)"
      "wrap_schema (start_data_schema self) = start_data_schema self"
      "wrap_schema (end_data_schema self) = end_data_schema self"
      "range_event_type (event_type self) = Inr (event_type self)"
      "range_timestamps self = Inr self"
      by auto
    have w: "wrap_schema (data_schema self) = data_schema self"
      using r(5) by (simp add: wrap_schema_idem)
    have i: "init_self ?d f = self"
      using init_self_to_dict_wrapped [OF w r(6) r(7)] r(3) by simp
    have pre: "input_df ?d \<noteq> PNone" "type ?d = Some RANGE" "must_have ?d = must_have kw"
      using r df by (simp_all add: to_dict_fields)
    have ev: "self\<lparr>event_type := event_type self\<rparr> = self" by simp
    show ?thesis
    proof (cases "data_schema kw = PNone")
      case True
      then have "data_schema self = PNone" using r(5) by (simp add: wrap_schema_PNone)
      then have "range_data_schemas self = Inr self" by (simp add: range_data_schemas_def)
      then have "check_range self = Inr self"
        using r(8) r(9) ev by (simp add: check_range_def)
      then have "post_init ?d = Inr self"
        using pre f i cols by (simp add: post_init_def)
      with True show ?thesis by (simp add: InputDFSchema_from_dict_def)
    next
      case False
      from range_shared_schema_copied [OF tr assms False] False
      have "data_schema self \<noteq> PNone" and "start_data_schema self \<noteq> PNone"
        by (simp_all add: wrap_schema_None)
      then have "range_data_schemas self = Inl (SetWithDataSchema ''start_data_schema'')"
        by (simp add: range_data_schemas_def)
      then have "check_range self = Inl (SetWithDataSchema ''start_data_schema'')"
        using r(8) ev by (simp add: check_range_def)
      then have "post_init ?d = Inl (SetWithDataSchema ''start_data_schema'')"
        using pre f i by (simp add: post_init_def)
      with False tr show ?thesis by (simp add: InputDFSchema_from_dict_def)
    qed
  qed
qed


theorem InputDFSchema_round_trip_witness:
  "InputDFSchema_from_dict (InputDFSchema_to_dict (init_self event_kwargs []))
     = Inr (init_self event_kwargs [])
   \<and> (\<exists>self. post_init range_kwargs = Inr self
         \<and> InputDFSchema_from_dict (InputDFSchema_to_dict self)
             = Inl (SetWithDataSchema ''start_data_schema''))"
proof -
  have e: "post_init event_kwargs = Inr (init_self event_kwargs [])"
    by (simp add: event_kwargs_def schema_defs)
  have a: "InputDFSchema_from_dict (InputDFSchema_to_dict (init_self event_kwargs []))
     = Inr (init_self event_kwargs [])"
    using InputDFSchema_round_trip [OF e] by (simp add: event_kwargs_def)
  have "\<exists>self. post_init range_kwargs = Inr self"
    by (simp add: range_kwargs_def schema_defs)
  then obtain self where r: "post_init range_kwargs = Inr self" by blast
  have "InputDFSchema_from_dict (InputDFSchema_to_dict self)
             = Inl (SetWithDataSchema ''start_data_schema'')"
    using InputDFSchema_round_trip [OF r] by (simp add: range_kwargs_def)
  with r a show ?thesis by blast
qed

lemma DatasetSchema_post_init_plain_dict_fails:
  assumes "PlainDict kw \<in> set dyn" and "subject_id_col kw \<noteq> None"
  shows "\<exists>ws e. DatasetSchema_post_init st (Some dyn) = (ws, Inl e)"
proof (cases "DatasetSchema_post_init st (Some dyn)")
  case (Pair ws r)
  show ?thesis
  proof (cases r)
    case (Inl e)
    with Pair show ?thesis by simp
  next
    case (Inr ds)
    from DatasetSchema_post_init_InrD [OF Pair [unfolded Inr]]
      convert_dynamic_plain_dict_fails [OF assms, of "subject_id_col (static ds)"]
    have False by auto
    then show ?thesis ..
  qed
qed

text \<open>
  No constructed \<^verbatim>\<open>DatasetSchema\<close> with a dynamic source survives the round trip:
  \<^verbatim>\<open>from_dict\<close> of its \<^verbatim>\<open>to_dict\<close> raises.
\<close>

theorem DatasetSchema_round_trip_fails:
  assumes "DatasetSchema_post_init st (Some dyn) = (ws, Inr ds)" and "dyn \<noteq> []"
  shows "\<exists>ws' e. DatasetSchema_from_dict (DatasetSchema_to_dict ds) = (ws', Inl e)"
proof -
  from DatasetSchema_post_init_InrD [OF assms(1)]
  have sid: "subject_id_col (static ds) \<noteq> None"
    and cd: "convert_dynamic (subject_id_col (static ds)) dyn = (ws, Inr (dynamic ds))"
    by simp_all
  from assms(2) obtain a rest where dyn: "dyn = a # rest" by (cases dyn) auto
  from convert_dynamic_InrD [OF cd] dyn obtain v vs where d: "dynamic ds = v # vs"
    and v: "(arg_subject_id_col a = None \<longrightarrow> subject_id_col v = subject_id_col (static ds))
            \<and> (arg_subject_id_col a \<noteq> None \<longrightarrow> subject_id_col v = arg_subject_id_col a)"
    by (auto simp: list_all2_Cons1)
  from v sid have nn: "subject_id_col (InputDFSchema_to_dict v) \<noteq> None"
    by (cases "arg_subject_id_col a")
       (simp_all add: InputDFSchema_to_dict_def InputDFSchema_fields.truncate_def)
  have "PlainDict (InputDFSchema_to_dict v)
          \<in> set (map (\<lambda>v. PlainDict (InputDFSchema_to_dict v)) (dynamic ds))"
    using d by simp
  from DatasetSchema_post_init_plain_dict_fails [OF this nn]
  show ?thesis
    by (simp add: DatasetSchema_from_dict_def DatasetSchema_to_dict_def)
qed

theorem DatasetSchema_round_trip_fails_witness:
  "\<exists>ws ds. DatasetSchema_post_init (Some (PlainDict static_kwargs))
              (Some [PlainDict range_kwargs]) = (ws, Inr ds)
      \<and> (\<exists>ws' e. DatasetSchema_from_dict (DatasetSchema_to_dict ds) = (ws', Inl e))"
proof -
  have "\<exists>ws ds. DatasetSchema_post_init (Some (PlainDict static_kwargs))
              (Some [PlainDict range_kwargs]) = (ws, Inr ds)"
    by (simp add: example_defs dataset_defs schema_defs)
  then obtain ws ds where ok: "DatasetSchema_post_init (Some (PlainDict static_kwargs))
              (Some [PlainDict range_kwargs]) = (ws, Inr ds)" by blast
  from DatasetSchema_round_trip_fails [OF ok] ok show ?thesis by blast
qed


section \<open>Properties of the schema unifier\<close>

lemma py_eq_refl: "py_eq v v"
proof (induction v)
  case (PList xs)
  then show ?case by (simp add: list_all2_same)
next
  case (PTuple xs)
  then show ?case by (simp add: list_all2_same)
next
  case (PDict xs)
  then show ?case by (fastforce simp: list_all_iff list_ex_iff)
qed simp_all

lemma py_eq_str: "is_str a \<Longrightarrow> py_eq a b = (str_of b = str_of a)"
  by (cases a; cases b) auto

lemma py_eq_str2: "is_str b \<Longrightarrow> py_eq a b = (str_of a = str_of b)"
  by (cases a; cases b) auto

lemma is_str_str_of: "is_str a = (str_of a \<noteq> None)"
  by (cases a) auto

lemma py_eq_str_shaped:
  assumes "is_str a" and "dt_shaped b"
  shows "py_eq a b = (dt_key a = dt_key b)"
proof (cases "is_str b")
  case True
  with assms(1) show ?thesis
    by (cases a; cases b) (auto simp: dt_key_def the_str_def)
next
  case False
  with assms(2) have ts: "is_timestamp_with_format b" by (simp add: dt_shaped_def)
  then have "dt_key b \<noteq> dt_key a" using assms(1)
    by (cases a; cases b)
       (auto simp: is_timestamp_with_format_def dt_key_def split: list.splits)
  moreover have "\<not> py_eq a b" using False assms(1) by (cases a; cases b) auto
  ultimately show ?thesis by auto
qed

lemma ts_fmt_cases:
  assumes "is_timestamp_with_format a"
  obtains x y where "a = PList [x, y]" "py_eq x (PEnum TIMESTAMP)" "is_str y"
  | x y where "a = PTuple [x, y]" "py_eq x (PEnum TIMESTAMP)" "is_str y"
  using assms
  by (cases a) (auto simp: is_timestamp_with_format_def split: list.splits)

lemma py_eq_ts_shaped:
  assumes "is_timestamp_with_format a" and "is_timestamp_with_format b"
  shows "py_eq a b = (dt_key a = dt_key b)"
proof -
  have first: "py_eq x x'" if "py_eq x (PEnum TIMESTAMP)" "py_eq x' (PEnum TIMESTAMP)" for x x'
    using that by (cases x; cases x') auto
  have second: "py_eq y y' = (the_str y = the_str y')" if "is_str y" "is_str y'" for y y'
    using that by (cases y; cases y') (auto simp: the_str_def)
  from assms(1) show ?thesis
  proof (cases rule: ts_fmt_cases)
    case (1 x y)
    from assms(2) show ?thesis
      by (cases rule: ts_fmt_cases) (use 1 first second in \<open>auto simp: dt_key_def\<close>)
  next
    case (2 x y)
    from assms(2) show ?thesis
      by (cases rule: ts_fmt_cases) (use 2 first second in \<open>auto simp: dt_key_def\<close>)
  qed
qed

lemma py_eq_dt_key:
  assumes "dt_shaped a" and "dt_shaped b"
  shows "py_eq a b = (dt_key a = dt_key b)"
proof (cases "is_str a")
  case True
  then show ?thesis using assms(2) by (rule py_eq_str_shaped)
next
  case na: False
  with assms(1) have ta: "is_timestamp_with_format a" by (simp add: dt_shaped_def)
  show ?thesis
  proof (cases "is_str b")
    case True
    have "py_eq a b = (str_of a = str_of b)" using True by (rule py_eq_str2)
    also have "\<dots> = False" using na True by (auto simp: is_str_str_of)
    finally have "\<not> py_eq a b" by simp
    moreover have "dt_key a \<noteq> dt_key b"
      using ta True
      by (cases a; cases b)
         (auto simp: is_timestamp_with_format_def dt_key_def split: list.splits)
    ultimately show ?thesis by simp
  next
    case False
    with assms(2) have "is_timestamp_with_format b" by (simp add: dt_shaped_def)
    with ta show ?thesis by (rule py_eq_ts_shaped)
  qed
qed


lemma add_to_schema_op:
  "add_to_schema us a dt b = (case column_op a dt b of Inl e \<Rightarrow> Inl e | Inr ip \<Rightarrow> put us ip)"
  unfolding add_to_schema_def column_op_def put_def Let_def
  by (cases a; cases "if b = PNone then a else b") (simp_all split: option.splits)

lemma run_single: "run us [op] = (case op of Inl e \<Rightarrow> Inl e | Inr ip \<Rightarrow> put us ip)"
  by (cases op) (simp_all split: sum.splits)

lemma run_Cons:
  "run us (op # ops) =
     (case (case op of Inl e \<Rightarrow> Inl e | Inr ip \<Rightarrow> put us ip) of
        Inl e \<Rightarrow> Inl e
      | Inr us' \<Rightarrow> run us' ops)"
  by (cases op) simp_all

lemma add_columns_run: "add_columns us cs dt = run us (map (\<lambda>c. column_op c dt PNone) cs)"
  by (induction cs arbitrary: us) (simp_all add: run_Cons add_to_schema_op split: sum.splits)

lemma add_renamed_columns_run:
  "add_renamed_columns us items dt
     = run us (map (\<lambda>(in_col, out_col). column_op in_col dt out_col) items)"
  by (induction items arbitrary: us)
     (auto simp: run_Cons add_to_schema_op split: sum.splits)

lemma add_schema_info_op:
  "add_schema_info us in_col schema_info
     = (case schema_info_op in_col schema_info of Inl e \<Rightarrow> Inl e | Inr ip \<Rightarrow> put us ip)"
  unfolding add_schema_info_def schema_info_op_def
  by (auto simp: add_to_schema_op split: option.splits list.splits)

lemma add_dict_items_run:
  "add_dict_items us items
     = run us (map (\<lambda>(in_col, schema_info). schema_info_op in_col schema_info) items)"
  by (induction items arbitrary: us)
     (auto simp: run_Cons add_schema_info_op split: sum.splits)

lemma add_schema_run: "add_schema us schema = run us (schema_ops schema)"
  unfolding add_schema_def schema_ops_def
  by (auto simp: add_dict_items_run add_columns_run add_renamed_columns_run run_single
      add_to_schema_op split: pyval.splits option.splits list.splits)


lemma good_column_op: "dt_shaped dt \<Longrightarrow> good_op (column_op a dt b)"
  unfolding column_op_def good_op_def Let_def
  by (cases a; cases "if b = PNone then a else b") simp_all

lemma is_dt_shaped: "is_dt dt \<Longrightarrow> dt_shaped dt"
  by (cases dt) (auto simp: is_dt_def dt_shaped_def)

lemma is_str_shaped: "is_str dt \<Longrightarrow> dt_shaped dt"
  by (simp add: dt_shaped_def)

lemma ts_shaped: "is_timestamp_with_format dt \<Longrightarrow> dt_shaped dt"
  by (simp add: dt_shaped_def)

lemma is_InputDataType_shaped: "is_InputDataType dt \<Longrightarrow> dt_shaped dt"
  by (cases dt) (simp_all add: dt_shaped_def)

lemma good_schema_info_op: "good_op (schema_info_op in_col schema_info)"
  unfolding schema_info_op_def
  by (auto simp: good_column_op is_str_shaped ts_shaped is_InputDataType_shaped
      split: option.splits list.splits)
     (simp_all add: good_op_def)

lemma good_schema_ops: "list_all good_op (schema_ops schema)"
  unfolding schema_ops_def
  by (auto simp: list_all_iff good_column_op is_dt_shaped good_schema_info_op
      split: pyval.splits option.splits list.splits)
     (simp_all add: good_op_def)

lemma kmap_update:
  "kmap (AList.update i p us) = (kmap us)(i \<mapsto> (fst p, dt_key (snd p)))"
  by (auto simp: kmap_def update_conv' fun_eq_iff)

lemma good_update: "good us \<Longrightarrow> dt_shaped (snd p) \<Longrightarrow> good (AList.update i p us)"
  by (induction us) (auto simp: good_def)

lemma good_map_of: "good us \<Longrightarrow> map_of us i = Some p \<Longrightarrow> dt_shaped (snd p)"
  by (auto simp: good_def list_all_iff dest!: map_of_SomeD)

lemma same_mapping_key:
  "dt_shaped (snd p) \<Longrightarrow> dt_shaped (snd q) \<Longrightarrow>
     same_mapping p q = ((fst p, dt_key (snd p)) = (fst q, dt_key (snd q)))"
  by (simp add: same_mapping_def py_eq_dt_key)

lemma put_kmap:
  assumes "good us" and "dt_shaped (snd p)"
  shows "put us (i, p) =
           (if kmap us i = None \<or> kmap us i = Some (fst p, dt_key (snd p))
            then Inr (AList.update i p us) else Inl (ColumnRepeated i))"
proof (cases "map_of us i")
  case None
  then show ?thesis by (simp add: put_def kmap_def)
next
  case (Some q)
  from good_map_of [OF assms(1) Some] have "dt_shaped (snd q)" .
  from same_mapping_key [OF this assms(2)] Some
  show ?thesis by (simp add: put_def kmap_def)
qed

lemma run_good_mono:
  assumes "run acc ops = Inr m" and "good acc" and "list_all good_op ops"
  shows "good m \<and> (\<forall>i k. kmap acc i = Some k \<longrightarrow> kmap m i = Some k)"
  using assms
proof (induction ops arbitrary: acc)
  case Nil
  then show ?case by simp
next
  case (Cons op ops)
  from Cons.prems(1) obtain i p where op: "op = Inr (i, p)"
    by (cases op) auto
  from Cons.prems(3) op have sh: "dt_shaped (snd p)" by (simp add: good_op_def)
  from Cons.prems(1) op put_kmap [OF Cons.prems(2) sh, of i]
  have ok: "kmap acc i = None \<or> kmap acc i = Some (fst p, dt_key (snd p))"
    and r: "run (AList.update i p acc) ops = Inr m"
    by (auto split: if_splits)
  from Cons.IH [OF r good_update [OF Cons.prems(2) sh]] Cons.prems(3)
  have g: "good m"
    and mono: "\<forall>j k. kmap (AList.update i p acc) j = Some k \<longrightarrow> kmap m j = Some k"
    by simp_all
  have "kmap m j = Some k" if "kmap acc j = Some k" for j k
  proof (cases "j = i")
    case True
    with that ok have "kmap (AList.update i p acc) j = Some k" by (auto simp: kmap_update)
    with mono show ?thesis by blast
  next
    case False
    with that have "kmap (AList.update i p acc) j = Some k" by (simp add: kmap_update)
    with mono show ?thesis by blast
  qed
  with g show ?case by blast
qed

lemma run_simulation:
  assumes "run acc ops = Inr m" and "list_all good_op ops"
    and "good acc" and "good c"
    and "kmap c = kmap us ++ kmap acc" and "compat (kmap us) (kmap acc)"
  shows "(compat (kmap us) (kmap m) \<longrightarrow>
            (\<exists>c'. run c ops = Inr c' \<and> good c' \<and> kmap c' = kmap us ++ kmap m))
         \<and> (\<not> compat (kmap us) (kmap m) \<longrightarrow> (\<exists>i. run c ops = Inl (ColumnRepeated i)))"
  using assms
proof (induction ops arbitrary: acc c)
  case Nil
  then show ?case by simp
next
  case (Cons op ops)
  from Cons.prems(1) obtain i p where op: "op = Inr (i, p)"
    by (cases op) auto
  from Cons.prems(2) op have sh: "dt_shaped (snd p)" by (simp add: good_op_def)
  from Cons.prems(2) have gops: "list_all good_op ops" by simp
  let ?k = "(fst p, dt_key (snd p))"
  let ?acc' = "AList.update i p acc"
  from Cons.prems(1) op put_kmap [OF Cons.prems(3) sh, of i]
  have ok: "kmap acc i = None \<or> kmap acc i = Some ?k"
    and r: "run ?acc' ops = Inr m"
    by (auto split: if_splits)
  have gacc': "good ?acc'" using Cons.prems(3) sh by (rule good_update)
  have "kmap ?acc' i = Some ?k" by (simp add: kmap_update)
  with run_good_mono [OF r gacc' gops]
  have mi: "kmap m i = Some ?k" by blast
  show ?case
  proof (cases "kmap us i = None \<or> kmap us i = Some ?k")
    case True
    have ci: "kmap c i = None \<or> kmap c i = Some ?k"
      using True ok Cons.prems(5) by (auto simp: map_add_def split: option.splits)
    let ?c' = "AList.update i p c"
    have step: "run c (op # ops) = run ?c' ops"
      using op put_kmap [OF Cons.prems(4) sh, of i] ci by auto
    have gc': "good ?c'" using Cons.prems(4) sh by (rule good_update)
    have km: "kmap ?c' = kmap us ++ kmap ?acc'"
      using Cons.prems(5) by (simp add: kmap_update)
    have cp: "compat (kmap us) (kmap ?acc')"
      using Cons.prems(6) True by (auto simp: compat_def kmap_update)
    from Cons.IH [OF r gops gacc' gc' km cp] step show ?thesis by simp
  next
    case False
    then obtain k where k: "kmap us i = Some k" and ne: "k \<noteq> ?k" by auto
    have "kmap acc i = None"
      using ok k ne Cons.prems(6) unfolding compat_def by blast
    then have ci: "kmap c i = Some k"
      using k Cons.prems(5) by (simp add: map_add_def)
    have "run c (op # ops) = Inl (ColumnRepeated i)"
      using op put_kmap [OF Cons.prems(4) sh, of i] ci ne by auto
    moreover have "\<not> compat (kmap us) (kmap m)"
      using k mi ne unfolding compat_def by blast
    ultimately show ?thesis by blast
  qed
qed


lemma unify_schema_one: "unify_schema (PList [e]) = run [] (schema_ops e)"
  by (simp add: unify_schema_def iterate_def add_schema_run split: sum.splits)

lemma unify_schema_two:
  "unify_schema (PList [e1, e2]) =
     (case run [] (schema_ops e1) of Inl e \<Rightarrow> Inl e | Inr m1 \<Rightarrow> run m1 (schema_ops e2))"
  by (simp add: unify_schema_def iterate_def add_schema_run split: sum.splits)

lemma good_Nil: "good []"
  by (simp add: good_def)

lemma compat_same_mapping:
  assumes "good m1" and "good m2"
  shows "compat (kmap m1) (kmap m2) =
           (\<forall>c p1 p2. map_of m1 c = Some p1 \<and> map_of m2 c = Some p2 \<longrightarrow> same_mapping p1 p2)"
proof
  assume c: "compat (kmap m1) (kmap m2)"
  show "\<forall>c p1 p2. map_of m1 c = Some p1 \<and> map_of m2 c = Some p2 \<longrightarrow> same_mapping p1 p2"
  proof (intro allI impI)
    fix i p1 p2 assume h: "map_of m1 i = Some p1 \<and> map_of m2 i = Some p2"
    then have "kmap m1 i = Some (fst p1, dt_key (snd p1))"
      and "kmap m2 i = Some (fst p2, dt_key (snd p2))"
      by (simp_all add: kmap_def)
    with c have "(fst p1, dt_key (snd p1)) = (fst p2, dt_key (snd p2))"
      unfolding compat_def by blast
    moreover from h assms have "dt_shaped (snd p1)" and "dt_shaped (snd p2)"
      by (auto dest: good_map_of)
    ultimately show "same_mapping p1 p2" by (simp add: same_mapping_key)
  qed
next
  assume a: "\<forall>c p1 p2. map_of m1 c = Some p1 \<and> map_of m2 c = Some p2 \<longrightarrow> same_mapping p1 p2"
  show "compat (kmap m1) (kmap m2)"
    unfolding compat_def
  proof (intro allI impI)
    fix i k k' assume h: "kmap m1 i = Some k \<and> kmap m2 i = Some k'"
    then obtain p1 p2 where p1: "map_of m1 i = Some p1" and k: "k = (fst p1, dt_key (snd p1))"
      and p2: "map_of m2 i = Some p2" and k': "k' = (fst p2, dt_key (snd p2))"
      by (auto simp: kmap_def)
    from a p1 p2 have "same_mapping p1 p2" by blast
    moreover from p1 p2 assms have "dt_shaped (snd p1)" and "dt_shaped (snd p2)"
      by (auto dest: good_map_of)
    ultimately show "k = k'" using k k' by (simp add: same_mapping_key)
  qed
qed

lemma kmap_same_mapping:
  assumes "good m" and "good m'" and "map_of m i = Some p" and "kmap m' i = kmap m i"
  shows "\<exists>p'. map_of m' i = Some p' \<and> same_mapping p p'"
proof -
  from assms(3,4) obtain p' where p': "map_of m' i = Some p'"
    and k: "(fst p', dt_key (snd p')) = (fst p, dt_key (snd p))"
    by (auto simp: kmap_def)
  from assms(1,3) have "dt_shaped (snd p)" by (rule good_map_of)
  moreover from assms(2) p' have "dt_shaped (snd p')" by (rule good_map_of)
  ultimately have "same_mapping p p'" using k by (simp add: same_mapping_key)
  with p' show ?thesis by blast
qed

lemma add_to_schema_present:
  assumes "map_of container i = Some existing"
  shows "(\<not> same_mapping existing (out, dt) \<longrightarrow>
            add_to_schema container (PStr i) dt (PStr out) = Inl (ColumnRepeated i))
         \<and> (same_mapping existing (out, dt) \<longrightarrow>
            add_to_schema container (PStr i) dt (PStr out)
              = Inr (AList.update i (out, dt) container))
         \<and> (existing = (out, dt) \<longrightarrow>
            add_to_schema container (PStr i) dt (PStr out) = Inr container)"
proof -
  have "same_mapping (out, dt) (out, dt)" by (simp add: same_mapping_def py_eq_refl)
  moreover have "AList.update i (out, dt) container = container" if "existing = (out, dt)"
    using assms that by (simp add: update_triv)
  ultimately show ?thesis using assms by (auto simp: add_to_schema_def)
qed

lemma add_to_schema_default_out_col:
  "add_to_schema container (PStr i) dt PNone = add_to_schema container (PStr i) dt (PStr i)"
  by (simp add: add_to_schema_def)


text \<open>
  The conflict policy of \<^verbatim>\<open>__add_to_schema\<close>. When the source column \<open>i\<close> is present in
  the mapping, adding it with a pair that differs (\<^verbatim>\<open>!=\<close>) from the one present raises
  "Column ... is repeated in schema with different value"; adding it with a pair equal
  (\<^verbatim>\<open>==\<close>) to the one present succeeds and stores the new pair; adding it with exactly the
  pair present leaves the mapping as it is, also when \<^verbatim>\<open>out_col\<close> is left at \<^verbatim>\<open>None\<close> and
  the pair present maps the column to itself.
\<close>

theorem add_to_schema_conflict_policy:
  assumes "map_of container i = Some existing"
  shows "(\<not> same_mapping existing (out, dt) \<longrightarrow>
            add_to_schema container (PStr i) dt (PStr out) = Inl (ColumnRepeated i))
         \<and> (same_mapping existing (out, dt) \<longrightarrow>
            add_to_schema container (PStr i) dt (PStr out)
              = Inr (AList.update i (out, dt) container))
         \<and> (existing = (out, dt) \<longrightarrow>
            add_to_schema container (PStr i) dt (PStr out) = Inr container)
         \<and> (existing = (i, dt) \<longrightarrow>
            add_to_schema container (PStr i) dt PNone = Inr container)"
proof -
  from add_to_schema_present [OF assms, of i dt]
  have "existing = (i, dt) \<longrightarrow> add_to_schema container (PStr i) dt PNone = Inr container"
    by (simp add: add_to_schema_default_out_col)
  with add_to_schema_present [OF assms, of out dt] show ?thesis by blast
qed

theorem add_to_schema_conflict_policy_witness:
  "add_to_schema [(''a'', (''a'', PEnum FLOAT))] (PStr ''a'') (PEnum FLOAT) (PStr ''a'')
     = Inr [(''a'', (''a'', PEnum FLOAT))]
   \<and> add_to_schema [(''a'', (''a'', PEnum FLOAT))] (PStr ''a'') (PEnum FLOAT) PNone
     = Inr [(''a'', (''a'', PEnum FLOAT))]
   \<and> add_to_schema [(''a'', (''a'', PEnum FLOAT))] (PStr ''a'') (PStr ''float'') (PStr ''a'')
     = Inr [(''a'', (''a'', PStr ''float''))]
   \<and> add_to_schema [(''a'', (''a'', PEnum FLOAT))] (PStr ''a'') (PEnum CATEGORICAL) (PStr ''a'')
     = Inl (ColumnRepeated ''a'')
   \<and> add_to_schema [(''a'', (''a'', PEnum FLOAT))] (PStr ''a'') (PEnum FLOAT) (PStr ''b'')
     = Inl (ColumnRepeated ''a'')"
proof -
  have p: "map_of [(''a'', (''a'', PEnum FLOAT))] ''a'' = Some (''a'', PEnum FLOAT)"
    by simp
  note t = add_to_schema_conflict_policy [OF p]
  have a: "add_to_schema [(''a'', (''a'', PEnum FLOAT))] (PStr ''a'') (PEnum FLOAT) (PStr ''a'')
     = Inr [(''a'', (''a'', PEnum FLOAT))]"
    using t [of "''a''" "PEnum FLOAT"] by simp
  have b: "add_to_schema [(''a'', (''a'', PEnum FLOAT))] (PStr ''a'') (PEnum FLOAT) PNone
     = Inr [(''a'', (''a'', PEnum FLOAT))]"
    using t [of "''a''" "PEnum FLOAT"] by simp
  have c: "add_to_schema [(''a'', (''a'', PEnum FLOAT))] (PStr ''a'') (PStr ''float'') (PStr ''a'')
     = Inr [(''a'', (''a'', PStr ''float''))]"
    using t [of "''a''" "PStr ''float''"] by (simp add: same_mapping_def)
  have d: "add_to_schema [(''a'', (''a'', PEnum FLOAT))] (PStr ''a'') (PEnum CATEGORICAL) (PStr ''a'')
     = Inl (ColumnRepeated ''a'')"
    using t [of "''a''" "PEnum CATEGORICAL"] by (simp add: same_mapping_def)
  have e: "add_to_schema [(''a'', (''a'', PEnum FLOAT))] (PStr ''a'') (PEnum FLOAT) (PStr ''b'')
     = Inl (ColumnRepeated ''a'')"
    using t [of "''b''" "PEnum FLOAT"] by (simp add: same_mapping_def)
  from a b c d e show ?thesis by blast
qed

text \<open>
  Two entries of the shape of a column and its type, for the same source column \<open>c\<close>:
  the unification succeeds when the two types are equal (\<^verbatim>\<open>==\<close>) and then maps the column
  to the second type; otherwise it fails with "Column ... is repeated in schema with
  different value".
\<close>

theorem unify_two_columns:
  assumes "is_dt dt1" and "is_dt dt2"
  shows "unify_schema (PList [PTuple [PStr c, dt1], PTuple [PStr c, dt2]])
           = (if py_eq dt1 dt2 then Inr [(c, (c, dt2))] else Inl (ColumnRepeated c))"
proof -
  have one: "add_schema [] (PTuple [PStr c, dt1]) = Inr [(c, (c, dt1))]"
    using assms(1) by (simp add: add_schema_def add_to_schema_def)
  have two: "add_schema [(c, (c, dt1))] (PTuple [PStr c, dt2])
               = (if py_eq dt1 dt2 then Inr [(c, (c, dt2))] else Inl (ColumnRepeated c))"
    using assms(2) by (simp add: add_schema_def add_to_schema_def same_mapping_def)
  show ?thesis
    by (simp add: unify_schema_def iterate_def one two)
qed

theorem unify_two_columns_witness:
  "unify_schema (PList [PTuple [PStr ''a'', PEnum FLOAT], PTuple [PStr ''a'', PEnum FLOAT]])
     = Inr [(''a'', (''a'', PEnum FLOAT))]
   \<and> unify_schema (PList [PTuple [PStr ''t'', PTuple [PEnum TIMESTAMP, PStr ''%Y'']],
                          PTuple [PStr ''t'', PTuple [PStr ''timestamp'', PStr ''%Y'']]])
     = Inr [(''t'', (''t'', PTuple [PStr ''timestamp'', PStr ''%Y'']))]
   \<and> unify_schema (PList [PTuple [PStr ''a'', PEnum FLOAT], PTuple [PStr ''a'', PEnum CATEGORICAL]])
     = Inl (ColumnRepeated ''a'')
   \<and> unify_schema (PList [PTuple [PStr ''t'', PTuple [PEnum TIMESTAMP, PStr ''%Y'']],
                          PTuple [PStr ''t'', PList [PEnum TIMESTAMP, PStr ''%Y'']]])
     = Inl (ColumnRepeated ''t'')"
  using unify_two_columns [of "PEnum FLOAT" "PEnum FLOAT" "''a''"]
    unify_two_columns [of "PTuple [PEnum TIMESTAMP, PStr ''%Y'']"
                          "PTuple [PStr ''timestamp'', PStr ''%Y'']" "''t''"]
    unify_two_columns [of "PEnum FLOAT" "PEnum CATEGORICAL" "''a''"]
    unify_two_columns [of "PTuple [PEnum TIMESTAMP, PStr ''%Y'']"
                          "PList [PEnum TIMESTAMP, PStr ''%Y'']" "''t''"]
  by (simp add: is_dt_def is_timestamp_with_format_def)

text \<open>
  Two shorthand entries of any shape that the unifier accepts one by one: if they map
  every source column they share to equal pairs, the unification of the two succeeds and
  its result maps every column of either entry as that entry does; if they map some shared
  column to different pairs, it fails with "Column ... is repeated in schema with different
  value".
\<close>

theorem unify_two_entries:
  assumes u1: "unify_schema (PList [e1]) = Inr m1" and u2: "unify_schema (PList [e2]) = Inr m2"
  shows "((\<forall>c p1 p2. map_of m1 c = Some p1 \<and> map_of m2 c = Some p2 \<longrightarrow> same_mapping p1 p2) \<longrightarrow>
            (\<exists>m. unify_schema (PList [e1, e2]) = Inr m
               \<and> (\<forall>c p1. map_of m1 c = Some p1 \<longrightarrow> (\<exists>p. map_of m c = Some p \<and> same_mapping p1 p))
               \<and> (\<forall>c p2. map_of m2 c = Some p2 \<longrightarrow> (\<exists>p. map_of m c = Some p \<and> same_mapping p2 p))))
         \<and> ((\<exists>c p1 p2. map_of m1 c = Some p1 \<and> map_of m2 c = Some p2 \<and> \<not> same_mapping p1 p2) \<longrightarrow>
              (\<exists>c. unify_schema (PList [e1, e2]) = Inl (ColumnRepeated c)))"
proof -
  from u1 have r1: "run [] (schema_ops e1) = Inr m1" by (simp add: unify_schema_one)
  from u2 have r2: "run [] (schema_ops e2) = Inr m2" by (simp add: unify_schema_one)
  from run_good_mono [OF r1 good_Nil good_schema_ops] have g1: "good m1" by simp
  from run_good_mono [OF r2 good_Nil good_schema_ops] have g2: "good m2" by simp
  have e: "kmap m1 = kmap m1 ++ kmap []" by (simp add: kmap_def)
  have c0: "compat (kmap m1) (kmap [])" by (simp add: compat_def kmap_def)
  note sim = run_simulation [OF r2 good_schema_ops good_Nil g1 e c0]
  note cs = compat_same_mapping [OF g1 g2]
  have two: "unify_schema (PList [e1, e2]) = run m1 (schema_ops e2)"
    using r1 by (simp add: unify_schema_two)
  show ?thesis
  proof (intro conjI impI)
    assume "\<forall>c p1 p2. map_of m1 c = Some p1 \<and> map_of m2 c = Some p2 \<longrightarrow> same_mapping p1 p2"
    with cs have cp: "compat (kmap m1) (kmap m2)" by simp
    with sim obtain m where m: "run m1 (schema_ops e2) = Inr m" and gm: "good m"
      and km: "kmap m = kmap m1 ++ kmap m2" by blast
    have a1: "\<exists>p. map_of m c = Some p \<and> same_mapping p1 p" if "map_of m1 c = Some p1" for c p1
    proof -
      from that have k1: "kmap m1 c = Some (fst p1, dt_key (snd p1))" by (simp add: kmap_def)
      have "kmap m c = kmap m1 c"
      proof (cases "kmap m2 c")
        case None
        then show ?thesis by (simp add: km map_add_def)
      next
        case (Some k)
        with cp k1 have "k = (fst p1, dt_key (snd p1))" unfolding compat_def by blast
        with Some k1 show ?thesis by (simp add: km map_add_def)
      qed
      from kmap_same_mapping [OF g1 gm that this] show ?thesis .
    qed
    have a2: "\<exists>p. map_of m c = Some p \<and> same_mapping p2 p" if "map_of m2 c = Some p2" for c p2
    proof -
      from that have "kmap m2 c = Some (fst p2, dt_key (snd p2))" by (simp add: kmap_def)
      then have "kmap m c = kmap m2 c" by (simp add: km map_add_def)
      from kmap_same_mapping [OF g2 gm that this] show ?thesis .
    qed
    from m a1 a2 two
    show "\<exists>m. unify_schema (PList [e1, e2]) = Inr m
               \<and> (\<forall>c p1. map_of m1 c = Some p1 \<longrightarrow> (\<exists>p. map_of m c = Some p \<and> same_mapping p1 p))
               \<and> (\<forall>c p2. map_of m2 c = Some p2 \<longrightarrow> (\<exists>p. map_of m c = Some p \<and> same_mapping p2 p))"
      by auto
  next
    assume "\<exists>c p1 p2. map_of m1 c = Some p1 \<and> map_of m2 c = Some p2 \<and> \<not> same_mapping p1 p2"
    with cs have "\<not> compat (kmap m1) (kmap m2)" by blast
    with sim two show "\<exists>c. unify_schema (PList [e1, e2]) = Inl (ColumnRepeated c)" by simp
  qed
qed


theorem unify_two_entries_witness:
  "(\<exists>m. unify_schema (PList [PTuple [PList [PStr ''a'', PStr ''b''], PEnum FLOAT],
                                  PTuple [PDict [(PStr ''a'', PStr ''a'')], PEnum FLOAT]])
            = Inr m)
   \<and> (\<exists>c. unify_schema
              (PList [PTuple [PStr ''t'', PEnum TIMESTAMP],
                      PDict [(PStr ''t'', PTuple [PStr ''t'', PTuple [PEnum TIMESTAMP, PStr ''%Y'']])]])
            = Inl (ColumnRepeated c))"
proof -
  have u1: "unify_schema (PList [PTuple [PList [PStr ''a'', PStr ''b''], PEnum FLOAT]])
              = Inr [(''a'', (''a'', PEnum FLOAT)), (''b'', (''b'', PEnum FLOAT))]"
    by (simp add: schema_defs)
  have u2: "unify_schema (PList [PTuple [PDict [(PStr ''a'', PStr ''a'')], PEnum FLOAT]])
              = Inr [(''a'', (''a'', PEnum FLOAT))]"
    by (simp add: schema_defs)
  have u3: "unify_schema (PList [PTuple [PStr ''t'', PEnum TIMESTAMP]])
              = Inr [(''t'', (''t'', PEnum TIMESTAMP))]"
    by (simp add: schema_defs)
  have u4: "unify_schema
              (PList [PDict [(PStr ''t'', PTuple [PStr ''t'', PTuple [PEnum TIMESTAMP, PStr ''%Y'']])]])
              = Inr [(''t'', (''t'', PTuple [PEnum TIMESTAMP, PStr ''%Y'']))]"
    by (simp add: schema_defs)
  have h: "\<forall>c p1 p2. map_of [(''a'', (''a'', PEnum FLOAT)), (''b'', (''b'', PEnum FLOAT))] c = Some p1
             \<and> map_of [(''a'', (''a'', PEnum FLOAT))] c = Some p2 \<longrightarrow> same_mapping p1 p2"
    by (auto simp: same_mapping_def split: if_splits)
  have a: "\<exists>m. unify_schema (PList [PTuple [PList [PStr ''a'', PStr ''b''], PEnum FLOAT],
                                  PTuple [PDict [(PStr ''a'', PStr ''a'')], PEnum FLOAT]])
            = Inr m"
    using unify_two_entries [OF u1 u2, THEN conjunct1, THEN mp, OF h] by blast
  have h': "\<exists>c p1 p2. map_of [(''t'', (''t'', PEnum TIMESTAMP))] c = Some p1
             \<and> map_of [(''t'', (''t'', PTuple [PEnum TIMESTAMP, PStr ''%Y'']))] c = Some p2
             \<and> \<not> same_mapping p1 p2"
    by (intro exI [of _ "''t''"] exI [of _ "(''t'', PEnum TIMESTAMP)"]
          exI [of _ "(''t'', PTuple [PEnum TIMESTAMP, PStr ''%Y''])"]) (simp add: same_mapping_def)
  have b: "\<exists>c. unify_schema
              (PList [PTuple [PStr ''t'', PEnum TIMESTAMP],
                      PDict [(PStr ''t'', PTuple [PStr ''t'', PTuple [PEnum TIMESTAMP, PStr ''%Y'']])]])
            = Inl (ColumnRepeated c)"
    using unify_two_entries [OF u3 u4, THEN conjunct2] h' by (rule mp)
  from a b show ?thesis by blast
qed



end
